theory Spec2Isabelle
  imports Complex_Main "HOL-Library.Multiset"
begin

section \<open>Twilight Tales: the game state manager, the AI service and the socket handlers\<close>

text \<open>
  A shallow embedding of \<^verbatim>\<open>server/game-state-manager.ts\<close>, of the voting and fallback
  functions of the AI service and of the \<^verbatim>\<open>castVote\<close> and \<^verbatim>\<open>nextRound\<close> socket handlers.
  Mutation of the \<^verbatim>\<open>games\<close> map and of the objects in it is explicit state passing; every
  \<^verbatim>\<open>Math.random()\<close> draw, every generated uuid and every outcome of the external text service
  is a parameter of the function that consumes it.
\<close>

subsection \<open>Schema\<close>

datatype cardType = LOCATION | CHARACTER | INITIAL_TWIST | ESCALATION | FINAL_TWIST

datatype gameStatus = LOBBY | ACTIVE | COMPLETED

datatype roundStatus =
  WAITING | DEALING | SELECTION | STORYTELLING | VOTING | RESULTS | ROUND_COMPLETED

text \<open>The string values of \<^verbatim>\<open>cardTypes\<close> in the shared schema.\<close>

fun cardTypeStr :: "cardType \<Rightarrow> string" where
  "cardTypeStr LOCATION = ''location''"
| "cardTypeStr CHARACTER = ''character''"
| "cardTypeStr INITIAL_TWIST = ''initialTwist''"
| "cardTypeStr ESCALATION = ''escalation''"
| "cardTypeStr FINAL_TWIST = ''finalTwist''"

record card =
  card_id :: int
  card_text :: string
  card_type :: "string option"
  isCustom :: bool
  customPrompt :: "string option"

text \<open>
  Optional fields of \<^verbatim>\<open>Player\<close>: \<open>None\<close> stands for \<^verbatim>\<open>null\<close> in \<open>selectedCard\<close> and
  \<open>submittedMoral\<close> (every round start writes \<^verbatim>\<open>null\<close> into both before they are read) and
  for \<^verbatim>\<open>undefined\<close> in \<open>currentCardType\<close> and \<open>hand\<close>. The boolean flags are only ever
  tested for truthiness, so \<^verbatim>\<open>undefined\<close> is \<open>False\<close>.
\<close>

record player =
  player_id :: string
  player_name :: string
  isHost :: bool
  isAI :: bool
  isThinking :: bool
  score :: nat
  currentCardType :: "cardType option"
  hand :: "card list option"
  selectedCard :: "int option"
  submittedMoral :: "string option"
  player_hasVoted :: bool

record submission =
  playerId :: string
  cardId :: int
  moral :: "string option"
  votes :: nat
  hasVoted :: bool

record round =
  number :: int
  round_status :: roundStatus
  story :: string
  submissions :: "submission list"

record settings =
  maxPlayers :: int
  roundsToPlay :: int

record game =
  gameId :: string
  status :: gameStatus
  players :: "player list"
  game_round :: round
  settings :: settings

text \<open>The private \<^verbatim>\<open>games\<close> map of the manager.\<close>

type_synonym games = "string \<rightharpoonup> game"

record cardData =
  locationCards :: "card list"
  characterCards :: "card list"
  initialTwistCards :: "card list"
  escalationCards :: "card list"
  finalTwistCards :: "card list"

subsection \<open>Array helpers\<close>

text \<open>\<^verbatim>\<open>Array.prototype.findIndex\<close>; \<open>None\<close> is the result \<^verbatim>\<open>-1\<close>.\<close>

fun findIndex :: "('a \<Rightarrow> bool) \<Rightarrow> 'a list \<Rightarrow> nat option" where
  "findIndex P [] = None"
| "findIndex P (x # xs) =
     (if P x then Some 0 else (case findIndex P xs of None \<Rightarrow> None | Some i \<Rightarrow> Some (Suc i)))"

text \<open>
  \<^verbatim>\<open>const o = xs.find(P); if (o) o.field = ...\<close>: the first element that satisfies \<open>P\<close> is
  mutated in place, the array keeps its order.
\<close>

fun updFirst :: "('a \<Rightarrow> bool) \<Rightarrow> ('a \<Rightarrow> 'a) \<Rightarrow> 'a list \<Rightarrow> 'a list" where
  "updFirst P f [] = []"
| "updFirst P f (x # xs) = (if P x then f x # xs else x # updFirst P f xs)"

text \<open>\<^verbatim>\<open>xs.splice(i, 1)\<close>.\<close>

definition splice1 :: "nat \<Rightarrow> 'a list \<Rightarrow> 'a list" where
  "splice1 i xs = take i xs @ drop (Suc i) xs"

text \<open>\<^verbatim>\<open>parts.join(sep)\<close>.\<close>

fun joinWith :: "string \<Rightarrow> string list \<Rightarrow> string" where
  "joinWith sep [] = []"
| "joinWith sep [x] = x"
| "joinWith sep (x # y # ys) = x @ sep @ joinWith sep (y # ys)"

text \<open>The remainder operator \<^verbatim>\<open>%\<close> on integers: the sign follows the dividend.\<close>

definition jsRem :: "int \<Rightarrow> int \<Rightarrow> int" where
  "jsRem a b = (if a < 0 then - ((- a) mod \<bar>b\<bar>) else a mod \<bar>b\<bar>)"

subsection \<open>createGame, joinGame\<close>

text \<open>
  \<^verbatim>\<open>generateGameId\<close> draws random ids until one is unused. The draws are the list \<open>cands\<close>;
  \<open>None\<close> means that none of them was free, where the source keeps looping.
\<close>

definition generateGameId :: "games \<Rightarrow> string list \<Rightarrow> string option" where
  "generateGameId gs cands = List.find (\<lambda>c. gs c = None) cands"

definition newGame :: "string \<Rightarrow> player \<Rightarrow> game" where
  "newGame gid host =
     \<lparr> gameId = gid, status = LOBBY,
       players = [host\<lparr> score := 0, isHost := True \<rparr>],
       game_round = \<lparr> number = 0, round_status = WAITING, story = [], submissions = [] \<rparr>,
       settings = \<lparr> maxPlayers = 5, roundsToPlay = 3 \<rparr> \<rparr>"

definition createGame :: "games \<Rightarrow> string list \<Rightarrow> player \<Rightarrow> (string \<times> games) option" where
  "createGame gs cands host =
     (case generateGameId gs cands of
        None \<Rightarrow> None
      | Some gid \<Rightarrow> Some (gid, gs(gid \<mapsto> newGame gid host)))"

definition joinGame :: "games \<Rightarrow> string \<Rightarrow> player \<Rightarrow> bool \<times> games" where
  "joinGame gs gid p =
     (case gs gid of
        None \<Rightarrow> (False, gs)
      | Some g \<Rightarrow>
          if status g \<noteq> LOBBY then (False, gs)
          else if int (length (players g)) \<ge> maxPlayers (settings g) then (False, gs)
          else (True, gs(gid \<mapsto> g\<lparr> players := players g @ [p\<lparr> score := 0 \<rparr>] \<rparr>)))"

subsection \<open>assembleStory\<close>

text \<open>
  The role-to-card table of \<^verbatim>\<open>assembleStory\<close>: players are visited in order, a later player
  with the same role overwrites an earlier one.
\<close>

definition selectedCardOf :: "player \<Rightarrow> card option" where
  "selectedCardOf p =
     (case (selectedCard p, currentCardType p, hand p) of
        (Some c, Some t, Some h) \<Rightarrow> List.find (\<lambda>k. card_id k = c) h
      | _ \<Rightarrow> None)"

definition collectSelected :: "player list \<Rightarrow> cardType \<Rightarrow> card option" where
  "collectSelected ps =
     foldl (\<lambda>tab p. case (currentCardType p, selectedCardOf p) of
                      (Some t, Some k) \<Rightarrow> tab(t \<mapsto> k)
                    | _ \<Rightarrow> tab)
           (\<lambda>t. None) ps"

text \<open>\<^verbatim>\<open>text || dflt\<close>: the empty string is falsy.\<close>

definition orDefault :: "string \<Rightarrow> string \<Rightarrow> string" where
  "orDefault t dflt = (if t = [] then dflt else t)"

definition storyPart :: "(cardType \<Rightarrow> card option) \<Rightarrow> cardType \<Rightarrow> string \<Rightarrow> string \<Rightarrow> string list" where
  "storyPart tab t pre dflt =
     (case tab t of None \<Rightarrow> [] | Some k \<Rightarrow> [pre @ orDefault (card_text k) dflt])"

definition storyText :: "player list \<Rightarrow> string" where
  "storyText ps =
     (let tab = collectSelected ps in
      joinWith '' ''
        (storyPart tab LOCATION ''In a '' ''a mysterious place''
         @ storyPart tab CHARACTER '', a '' ''strange character''
         @ storyPart tab INITIAL_TWIST '' NOTICES '' ''something unusual''
         @ storyPart tab ESCALATION ''. But then, '' ''the situation escalates''
         @ storyPart tab FINAL_TWIST '' ALL BECAUSE '' ''a final twist occurs''))"

text \<open>\<^verbatim>\<open>cardId: player.selectedCard || 0\<close>.\<close>

definition freshSubmission :: "player \<Rightarrow> submission" where
  "freshSubmission p =
     \<lparr> playerId = player_id p,
       cardId = (case selectedCard p of None \<Rightarrow> 0 | Some c \<Rightarrow> c),
       moral = None, votes = 0, hasVoted = False \<rparr>"

definition assembleStory :: "game \<Rightarrow> game" where
  "assembleStory g =
     g\<lparr> game_round := (game_round g)\<lparr> story := storyText (players g),
                             submissions := map freshSubmission (players g) \<rparr> \<rparr>"

definition allSelected :: "game \<Rightarrow> bool" where
  "allSelected g = list_all (\<lambda>p. selectedCard p \<noteq> None) (players g)"

definition setRoundStatus :: "roundStatus \<Rightarrow> game \<Rightarrow> game" where
  "setRoundStatus s g = g\<lparr> game_round := (game_round g)\<lparr> round_status := s \<rparr> \<rparr>"

subsection \<open>removePlayer\<close>

text \<open>
  \<^verbatim>\<open>const newHost = game.players.find((p) => !p.isAI) || game.players[0]\<close>, called only on a
  non-empty list.
\<close>

definition assignNewHost :: "player list \<Rightarrow> player list" where
  "assignNewHost ps =
     (if list_ex (\<lambda>p. \<not> isAI p) ps
      then updFirst (\<lambda>p. \<not> isAI p) (\<lambda>p. p\<lparr> isHost := True \<rparr>) ps
      else (case ps of [] \<Rightarrow> [] | p # rest \<Rightarrow> p\<lparr> isHost := True \<rparr> # rest))"

text \<open>The part of \<^verbatim>\<open>removePlayer\<close> that runs when the game is active and players remain.\<close>

definition afterRemoval :: "string \<Rightarrow> game \<Rightarrow> game" where
  "afterRemoval pid g =
     (let subs = submissions (game_round g);
          g1 = (case findIndex (\<lambda>s. playerId s = pid) subs of
                  None \<Rightarrow> g
                | Some j \<Rightarrow> g\<lparr> game_round := (game_round g)\<lparr> submissions := splice1 j subs \<rparr> \<rparr>)
      in if \<not> list_ex (\<lambda>p. \<not> isAI p) (players g1) then g1\<lparr> status := COMPLETED \<rparr>
         else if round_status (game_round g1) = SELECTION then
           (if allSelected g1 then setRoundStatus STORYTELLING (assembleStory g1) else g1)
         else if round_status (game_round g1) = STORYTELLING then
           (if list_all (\<lambda>s. moral s \<noteq> None) (submissions (game_round g1))
            then setRoundStatus VOTING g1 else g1)
         else g1)"

definition removePlayer :: "games \<Rightarrow> string \<Rightarrow> string \<Rightarrow> bool \<times> games" where
  "removePlayer gs gid pid =
     (case gs gid of
        None \<Rightarrow> (False, gs)
      | Some g \<Rightarrow>
          (case findIndex (\<lambda>p. player_id p = pid) (players g) of
             None \<Rightarrow> (False, gs)
           | Some i \<Rightarrow>
               (let leaver = players g ! i;
                    rest = splice1 i (players g);
                    rest' = (if isHost leaver \<and> rest \<noteq> [] then assignNewHost rest else rest);
                    g1 = g\<lparr> players := rest' \<rparr>
                in if rest' = [] then (True, gs(gid := None))
                   else if status g1 = ACTIVE then (True, gs(gid \<mapsto> afterRemoval pid g1))
                   else (True, gs(gid \<mapsto> g1)))))"

subsection \<open>startGame, addAIPlayers\<close>

text \<open>
  \<^verbatim>\<open>addAIPlayers\<close>: \<open>fresh i\<close> is the uuid and the generated name of the \<open>i\<close>-th new
  simulated player.
\<close>

definition aiPlayer :: "string \<times> string \<Rightarrow> player" where
  "aiPlayer idn =
     \<lparr> player_id = fst idn, player_name = snd idn, isHost = False, isAI = True,
       isThinking = False, score = 0, currentCardType = None, hand = None,
       selectedCard = None, submittedMoral = None, player_hasVoted = False \<rparr>"

definition addAIPlayers :: "(nat \<Rightarrow> string \<times> string) \<Rightarrow> game \<Rightarrow> game" where
  "addAIPlayers fresh g =
     (let totalPlayersNeeded = 5;
          maxPlayersAllowed = maxPlayers (settings g);
          currentHumanCount = int (length (players g));
          aiCountNeeded = totalPlayersNeeded - currentHumanCount;
          availableSlots = maxPlayersAllowed - currentHumanCount;
          aiCount = min availableSlots (max 0 aiCountNeeded)
      in g\<lparr> players := players g @ map (\<lambda>i. aiPlayer (fresh i)) [0..<nat aiCount] \<rparr>)"

subsection \<open>assignCardTypes\<close>

definition types :: "cardType list" where
  "types = [LOCATION, CHARACTER, INITIAL_TWIST, ESCALATION, FINAL_TWIST]"

text \<open>\<^verbatim>\<open>types[k]\<close>: reading outside the array gives \<^verbatim>\<open>undefined\<close>.\<close>

definition typeAt :: "int \<Rightarrow> cardType option" where
  "typeAt k = (if 0 \<le> k \<and> k < int (length types) then Some (types ! nat k) else None)"

definition roundOffset :: "game \<Rightarrow> int" where
  "roundOffset g = jsRem (number (game_round g) - 1) (int (length types))"

definition assignStep :: "int \<Rightarrow> player list \<Rightarrow> nat \<times> nat \<Rightarrow> player list" where
  "assignStep off ps pr =
     (case pr of (playerIdx, i) \<Rightarrow>
        ps[playerIdx := (ps ! playerIdx)
             \<lparr> currentCardType := typeAt (jsRem (int i + off) (int (length types))) \<rparr>])"

text \<open>
  \<open>shuffledIndexes\<close> is the outcome of sorting \<^verbatim>\<open>[0, ..., players.length - 1]\<close> with the
  random comparator: some arrangement of these indexes.
\<close>

definition assignCardTypes :: "nat list \<Rightarrow> game \<Rightarrow> game" where
  "assignCardTypes shuffledIndexes g =
     g\<lparr> players := foldl (assignStep (roundOffset g)) (players g)
                         (zip shuffledIndexes [0..<length shuffledIndexes]) \<rparr>"

subsection \<open>dealCards\<close>

definition toUpperChar :: "char \<Rightarrow> char" where
  "toUpperChar c =
     (let n = (of_char c :: nat) in if 97 \<le> n \<and> n \<le> 122 then char_of (n - 32) else c)"

definition capitalize :: "string \<Rightarrow> string" where
  "capitalize s = (case s of [] \<Rightarrow> [] | c # cs \<Rightarrow> toUpperChar c # cs)"

definition createBlankCard :: "string \<Rightarrow> int \<Rightarrow> card" where
  "createBlankCard type i =
     \<lparr> card_id = i, card_text = [], card_type = Some type, isCustom = True,
       customPrompt = Some (''Enter your custom '' @ capitalize type) \<rparr>"

definition deckFor :: "cardData \<Rightarrow> cardType option \<Rightarrow> card list" where
  "deckFor cd t =
     (case t of
        Some LOCATION \<Rightarrow> locationCards cd
      | Some CHARACTER \<Rightarrow> characterCards cd
      | Some INITIAL_TWIST \<Rightarrow> initialTwistCards cd
      | Some ESCALATION \<Rightarrow> escalationCards cd
      | Some FINAL_TWIST \<Rightarrow> finalTwistCards cd
      | None \<Rightarrow> [])"

text \<open>
  The random draws \<^verbatim>\<open>dealCards\<close> makes for one player: the outcome of the comparator sort
  of a copy of the deck (a function of the deck), the draw compared with
  \<^verbatim>\<open>CUSTOM_CARD_CHANCE\<close> and the draw that picks the replaced position. Both numbers are
  results of \<^verbatim>\<open>Math.random()\<close>, in \<open>[0, 1)\<close>.
\<close>

record dealRand =
  shuffle :: "card list \<Rightarrow> card list"
  chance :: real
  pick :: real

definition getRandomCards :: "(card list \<Rightarrow> card list) \<Rightarrow> card list \<Rightarrow> nat \<Rightarrow> card list" where
  "getRandomCards shuf deck n = take n (shuf deck)"

definition CUSTOM_CARD_ID_START :: int where
  "CUSTOM_CARD_ID_START = 10000"

definition CUSTOM_CARD_CHANCE :: real where
  "CUSTOM_CARD_CHANCE = 2 / 10"

text \<open>
  \<^verbatim>\<open>hand[replaceIndex] = blank\<close> with \<^verbatim>\<open>replaceIndex = Math.floor(Math.random() * hand.length)\<close>:
  a position of the hand, or position 0 of an empty hand, which the assignment then creates.
\<close>

definition replaceAt :: "card list \<Rightarrow> real \<Rightarrow> card \<Rightarrow> card list" where
  "replaceAt h r k = (if h = [] then [k] else h[nat \<lfloor>r * real (length h)\<rfloor> := k])"

text \<open>One turn of the \<^verbatim>\<open>forEach\<close>: the hand dealt to \<open>p\<close> and the next custom card id.\<close>

definition dealOne :: "cardData \<Rightarrow> dealRand \<Rightarrow> int \<Rightarrow> player \<Rightarrow> player \<times> int" where
  "dealOne cd rnd nextCustomCardId p =
     (let dealt = getRandomCards (shuffle rnd) (deckFor cd (currentCardType p)) 3
      in if \<not> isAI p \<and> chance rnd < CUSTOM_CARD_CHANCE
         then (p\<lparr> hand := Some (replaceAt dealt (pick rnd)
                        (createBlankCard
                           (case currentCardType p of None \<Rightarrow> ''unknown'' | Some t \<Rightarrow> cardTypeStr t)
                           nextCustomCardId)) \<rparr>,
               nextCustomCardId + 1)
         else (p\<lparr> hand := Some dealt \<rparr>, nextCustomCardId))"

fun dealLoop :: "cardData \<Rightarrow> (nat \<Rightarrow> dealRand) \<Rightarrow> nat \<Rightarrow> int \<Rightarrow> player list \<Rightarrow> player list" where
  "dealLoop cd rnd i nextId [] = []"
| "dealLoop cd rnd i nextId (p # ps) =
     (case dealOne cd (rnd i) nextId p of
        (p', nextId') \<Rightarrow> p' # dealLoop cd rnd (Suc i) nextId' ps)"

text \<open>\<open>cd = None\<close> is the guard \<^verbatim>\<open>if (!cardData) return\<close>; \<open>rnd i\<close> are the draws for player \<open>i\<close>.\<close>

definition dealCards :: "cardData option \<Rightarrow> (nat \<Rightarrow> dealRand) \<Rightarrow> game \<Rightarrow> game" where
  "dealCards cdo rnd g =
     (case cdo of
        None \<Rightarrow> g
      | Some cd \<Rightarrow> g\<lparr> players := dealLoop cd rnd 0 CUSTOM_CARD_ID_START (players g) \<rparr>)"

subsection \<open>startNewRound, startGame\<close>

definition resetPlayer :: "player \<Rightarrow> player" where
  "resetPlayer p =
     p\<lparr> selectedCard := None, submittedMoral := None, player_hasVoted := False,
        isThinking := False \<rparr>"

record roundRand =
  shuffledIndexes :: "nat list"
  deals :: "nat \<Rightarrow> dealRand"

definition beginRound :: "cardData option \<Rightarrow> roundRand \<Rightarrow> game \<Rightarrow> game" where
  "beginRound cdo rr g =
     (if status g = COMPLETED then g
      else if number (game_round g) \<ge> roundsToPlay (settings g)
        then g\<lparr> status := COMPLETED,
                 game_round := (game_round g)\<lparr> round_status := ROUND_COMPLETED \<rparr> \<rparr>
      else
        (let n = (if round_status (game_round g) \<noteq> WAITING
                  then number (game_round g) + 1 else number (game_round g));
             g1 = g\<lparr> game_round := \<lparr> number = n, round_status = SELECTION, story = [],
                                      submissions = [] \<rparr> \<rparr>;
             g2 = g1\<lparr> players := map resetPlayer (players g1) \<rparr>
         in dealCards cdo (deals rr) (assignCardTypes (shuffledIndexes rr) g2)))"

definition startNewRound :: "cardData option \<Rightarrow> roundRand \<Rightarrow> games \<Rightarrow> string \<Rightarrow> games" where
  "startNewRound cdo rr gs gid =
     (case gs gid of None \<Rightarrow> gs | Some g \<Rightarrow> gs(gid \<mapsto> beginRound cdo rr g))"

definition startGame ::
  "cardData option \<Rightarrow> (nat \<Rightarrow> string \<times> string) \<Rightarrow> roundRand \<Rightarrow> games \<Rightarrow> string \<Rightarrow> bool \<times> games" where
  "startGame cdo fresh rr gs gid =
     (case gs gid of
        None \<Rightarrow> (False, gs)
      | Some g \<Rightarrow>
          if status g \<noteq> LOBBY then (False, gs)
          else if length (players g) < 1 then (False, gs)
          else
            (let g1 = addAIPlayers fresh g;
                 g2 = g1\<lparr> status := ACTIVE, game_round := (game_round g1)\<lparr> number := 1 \<rparr> \<rparr>
             in (True, startNewRound cdo rr (gs(gid \<mapsto> g2)) gid)))"

subsection \<open>updateCustomCard, selectCard, makeAISelections\<close>

definition setCardText :: "nat \<Rightarrow> string \<Rightarrow> card list \<Rightarrow> card list" where
  "setCardText i t h = h[i := (h ! i)\<lparr> card_text := t \<rparr>]"

definition updateCustomCard :: "games \<Rightarrow> string \<Rightarrow> string \<Rightarrow> int \<Rightarrow> string \<Rightarrow> bool \<times> games" where
  "updateCustomCard gs gid pid cid customText =
     (case gs gid of
        None \<Rightarrow> (False, gs)
      | Some g \<Rightarrow>
          if round_status (game_round g) \<noteq> SELECTION then (False, gs)
          else (case List.find (\<lambda>p. player_id p = pid) (players g) of
             None \<Rightarrow> (False, gs)
           | Some p \<Rightarrow>
               (case hand p of
                  None \<Rightarrow> (False, gs)
                | Some h \<Rightarrow>
                    (case findIndex (\<lambda>k. card_id k = cid \<and> isCustom k) h of
                       None \<Rightarrow> (False, gs)
                     | Some i \<Rightarrow>
                         (True, gs(gid \<mapsto> g\<lparr> players :=
                            updFirst (\<lambda>q. player_id q = pid)
                              (\<lambda>q. q\<lparr> hand := Some (setCardText i customText h) \<rparr>)
                              (players g) \<rparr>))))))"

text \<open>The optional argument \<^verbatim>\<open>customText\<close> is \<open>None\<close> when absent; the empty string is falsy.\<close>

definition selectCard ::
  "games \<Rightarrow> string \<Rightarrow> string \<Rightarrow> int \<Rightarrow> string option \<Rightarrow> bool \<times> games" where
  "selectCard gs gid pid cid customText =
     (case gs gid of
        None \<Rightarrow> (False, gs)
      | Some g \<Rightarrow>
          if round_status (game_round g) \<noteq> SELECTION then (False, gs)
          else (case List.find (\<lambda>p. player_id p = pid) (players g) of
             None \<Rightarrow> (False, gs)
           | Some p \<Rightarrow>
               (case hand p of
                  None \<Rightarrow> (False, gs)
                | Some h \<Rightarrow>
                    (case findIndex (\<lambda>k. card_id k = cid) h of
                       None \<Rightarrow> (False, gs)
                     | Some i \<Rightarrow>
                         (let h' = (case customText of
                                      Some t \<Rightarrow> if isCustom (h ! i) \<and> t \<noteq> []
                                                then setCardText i t h else h
                                    | None \<Rightarrow> h);
                              g1 = g\<lparr> players :=
                                     updFirst (\<lambda>q. player_id q = pid)
                                       (\<lambda>q. q\<lparr> hand := Some h', selectedCard := Some cid \<rparr>)
                                       (players g) \<rparr>
                          in (True, gs(gid \<mapsto>
                                (if allSelected g1
                                 then setRoundStatus STORYTELLING (assembleStory g1)
                                 else g1))))))))"

text \<open>
  \<^verbatim>\<open>makeAISelections\<close>, taken as one step: every pending simulated player picks the card at
  \<^verbatim>\<open>Math.floor(Math.random() * hand.length)\<close> (its draw is \<open>picks\<close> of its id), then the
  check for a complete selection runs.
\<close>

definition pendingAI :: "player \<Rightarrow> bool" where
  "pendingAI p =
     (isAI p \<and> selectedCard p = None \<and> (case hand p of None \<Rightarrow> False | Some h \<Rightarrow> h \<noteq> []))"

definition aiPick :: "real \<Rightarrow> player \<Rightarrow> player" where
  "aiPick r p =
     (case hand p of
        None \<Rightarrow> p\<lparr> isThinking := False \<rparr>
      | Some h \<Rightarrow>
          if h = [] then p\<lparr> isThinking := False \<rparr>
          else p\<lparr> selectedCard := Some (card_id (h ! nat \<lfloor>r * real (length h)\<rfloor>)),
                  isThinking := False \<rparr>)"

definition makeAISelections :: "(string \<Rightarrow> real) \<Rightarrow> games \<Rightarrow> string \<Rightarrow> games" where
  "makeAISelections picks gs gid =
     (case gs gid of
        None \<Rightarrow> gs
      | Some g \<Rightarrow>
          if round_status (game_round g) \<noteq> SELECTION then gs
          else if \<not> list_ex pendingAI (players g) then gs
          else
            (let g1 = g\<lparr> players :=
                        map (\<lambda>p. if pendingAI p then aiPick (picks (player_id p)) p else p)
                            (players g) \<rparr>
             in gs(gid \<mapsto> (if allSelected g1
                            then setRoundStatus STORYTELLING (assembleStory g1) else g1))))"

subsection \<open>The AI service: generateAIMoral and its fallback\<close>

text \<open>
  A string is the list of its code units, so \<open>length\<close> is \<^verbatim>\<open>.length\<close>. The third
  fallback moral holds three code units outside ASCII, U+00E2, U+20AC and U+201D. A \<open>char\<close>
  has eight bits, so each of the three is written as its Windows-1252 byte, \<open>0xE2\<close>, \<open>0x80\<close>
  and \<open>0x94\<close>: one \<open>char\<close> for one code unit, and distinct strings stay distinct.
\<close>

definition fallbackMorals :: "string list" where
  "fallbackMorals =
     [''In life's twisted game, the cards we're dealt matter less than how we choose to play them.'',
      ''Sometimes the most frightening monsters are the ones we create in our own minds.'',
      ''Be careful what you wish for'' @ [CHR 0xE2, CHR 0x80, CHR 0x94]
        @ ''the universe has a peculiar sense of humor.'',
      ''Reality is merely a thin veil, easily torn by those who look too closely.'',
      ''In trying to control fate, we often become puppets of our own design.'',
      ''The greatest deception is the one we perpetrate upon ourselves.'',
      ''The boundaries between imagination and reality are but shadows on the wall.'',
      ''Destiny follows no script but the one written by our choices.'',
      ''The key to wisdom is knowing that some doors are better left unopened.'',
      ''In the twilight between logic and fear lies the truth we dare not face.'']"

definition generateFallbackMoral :: "string \<Rightarrow> string" where
  "generateFallbackMoral s =
     (let storyLength = length s;
          selectedIndex = storyLength mod length fallbackMorals
      in fallbackMorals ! selectedIndex)"

text \<open>
  What the environment does to one call of \<^verbatim>\<open>generateAIMoral\<close>: whether the API key is
  set, what \<^verbatim>\<open>checkRateLimit()\<close> answers, and how the race between the request and the
  ten-second timer ends: with a text block, with a block of another type, with an empty
  content array (reading its first block then throws), with a rejection or with the timeout.
\<close>

datatype apiOutcome =
  ApiText string
| ApiOtherContent
| ApiNoContent
| ApiRejected
| ApiTimedOut

record aiEnv =
  hasApiKey :: bool
  withinRateLimit :: bool
  api :: apiOutcome

datatype error = ApiError | TimeoutError | TypeError

definition isSpace :: "char \<Rightarrow> bool" where
  "isSpace c = ((of_char c :: nat) \<in> {9, 10, 11, 12, 13, 32})"

definition trim :: "string \<Rightarrow> string" where
  "trim s = rev (dropWhile isSpace (rev (dropWhile isSpace s)))"

definition toLowerChar :: "char \<Rightarrow> char" where
  "toLowerChar c =
     (let n = (of_char c :: nat) in if 65 \<le> n \<and> n \<le> 90 then char_of (n + 32) else c)"

text \<open>\<^verbatim>\<open>moral.replace(/^(The moral of this story is:?\s*)/i, '')\<close>.\<close>

definition stripMoralPrefix :: "string \<Rightarrow> string" where
  "stripMoralPrefix s =
     (let pre = ''the moral of this story is'' in
      if map toLowerChar (take (length pre) s) = pre
      then (let r = drop (length pre) s;
                r' = (case r of c # cs \<Rightarrow> if c = CHR '':'' then cs else r | [] \<Rightarrow> r)
            in dropWhile isSpace r')
      else s)"

definition truncateMoral :: "string \<Rightarrow> string" where
  "truncateMoral m = (if length m > 150 then take 147 m @ ''...'' else m)"

text \<open>The body of the \<^verbatim>\<open>try\<close> block; \<open>Inl\<close> is an exception thrown inside it.\<close>

definition requestMoral :: "string \<Rightarrow> aiEnv \<Rightarrow> error + string" where
  "requestMoral s env =
     (if \<not> hasApiKey env \<or> \<not> withinRateLimit env then Inr (generateFallbackMoral s)
      else (case api env of
              ApiRejected \<Rightarrow> Inl ApiError
            | ApiTimedOut \<Rightarrow> Inl TimeoutError
            | ApiNoContent \<Rightarrow> Inl TypeError
            | ApiOtherContent \<Rightarrow> Inr (truncateMoral [])
            | ApiText t \<Rightarrow> Inr (truncateMoral (stripMoralPrefix (trim t)))))"

text \<open>\<^verbatim>\<open>generateAIMoral\<close>: the \<^verbatim>\<open>catch\<close> block answers with the fallback moral.\<close>

definition generateAIMoral :: "string \<Rightarrow> aiEnv \<Rightarrow> error + string" where
  "generateAIMoral s env =
     (case requestMoral s env of
        Inl e \<Rightarrow> Inr (generateFallbackMoral s)
      | Inr m \<Rightarrow> Inr m)"

subsection \<open>submitMoral, generateAIMorals\<close>

text \<open>\<^verbatim>\<open>!p.submittedMoral\<close>: \<^verbatim>\<open>null\<close> and the empty string are falsy.\<close>

definition noMoral :: "string option \<Rightarrow> bool" where
  "noMoral m = (case m of None \<Rightarrow> True | Some t \<Rightarrow> t = [])"

definition setSubmissionMoral :: "string \<Rightarrow> string option \<Rightarrow> game \<Rightarrow> game" where
  "setSubmissionMoral pid m g =
     g\<lparr> game_round := (game_round g)\<lparr> submissions :=
          updFirst (\<lambda>s. playerId s = pid) (\<lambda>s. s\<lparr> moral := m \<rparr>)
                   (submissions (game_round g)) \<rparr> \<rparr>"

definition setPlayerMoral :: "string \<Rightarrow> string option \<Rightarrow> game \<Rightarrow> game" where
  "setPlayerMoral pid m g =
     g\<lparr> players := updFirst (\<lambda>p. player_id p = pid) (\<lambda>p. p\<lparr> submittedMoral := m \<rparr>)
                            (players g) \<rparr>"

definition submitMoral :: "games \<Rightarrow> string \<Rightarrow> string \<Rightarrow> string \<Rightarrow> bool \<times> games" where
  "submitMoral gs gid pid m =
     (case gs gid of
        None \<Rightarrow> (False, gs)
      | Some g \<Rightarrow>
          if round_status (game_round g) \<noteq> STORYTELLING then (False, gs)
          else (case List.find (\<lambda>p. player_id p = pid) (players g) of
             None \<Rightarrow> (False, gs)
           | Some p \<Rightarrow>
               (case List.find (\<lambda>s. playerId s = pid) (submissions (game_round g)) of
                  None \<Rightarrow> (False, gs)
                | Some s \<Rightarrow>
                    (let g1 = setPlayerMoral pid (Some m) (setSubmissionMoral pid (Some m) g);
                         allSubmissionsHaveMorals =
                           list_all (\<lambda>s. moral s \<noteq> None) (submissions (game_round g1));
                         allPlayersHaveMorals =
                           list_all (\<lambda>p. submittedMoral p \<noteq> None) (players g1)
                     in (True, gs(gid \<mapsto>
                           (if allSubmissionsHaveMorals \<and> allPlayersHaveMorals
                            then setRoundStatus VOTING g1 else g1)))))))"

definition funnyMorals :: "string list" where
  "funnyMorals =
     [''The moral of the story is: Always check if your time-traveling device has a return policy.'',
      ''The moral of the story is: Never trust a talking plant with your WiFi password.'',
      ''The moral of the story is: Sometimes the best solution is to pretend nothing happened.'',
      ''The moral of the story is: If plan A fails, remember there are 25 more letters in the alphabet.'',
      ''The moral of the story is: Not all who wander are lost, but this one definitely was.'',
      ''The moral of the story is: Just because you can doesn't mean you should, especially with portals.'',
      ''The moral of the story is: When reality glitches, pretend you meant to do that.'',
      ''The moral of the story is: The universe has a sense of humor, just not a very good one.'',
      ''The moral of the story is: Trust no one, especially if they claim to be from the future.'',
      ''The moral of the story is: Sometimes the only winning move is to unplug and go for a walk.'']"

text \<open>
  The moral \<^verbatim>\<open>generateAIMorals\<close> stores for one simulated player: the awaited result of
  \<^verbatim>\<open>generateAIMoral(story)\<close>, or, in its own \<^verbatim>\<open>catch\<close>, the funny moral at
  \<^verbatim>\<open>Math.floor(Math.random() * funnyMorals.length)\<close>, where \<open>r\<close> is that draw.
\<close>

definition aiMoralFor :: "string \<Rightarrow> aiEnv \<Rightarrow> real \<Rightarrow> string" where
  "aiMoralFor s env r =
     (case generateAIMoral s env of
        Inr generatedMoral \<Rightarrow> generatedMoral
      | Inl e \<Rightarrow> funnyMorals ! nat \<lfloor>r * real (length funnyMorals)\<rfloor>)"

text \<open>
  The \<^verbatim>\<open>for\<close> loop over the players: each turn writes the moral into the player it visits
  and into the first submission with that player's id. The story does not change meanwhile.
\<close>

fun aiMoralLoop ::
  "(string \<Rightarrow> aiEnv) \<Rightarrow> (string \<Rightarrow> real) \<Rightarrow> string \<Rightarrow> player list \<Rightarrow> submission list
     \<Rightarrow> player list \<times> submission list" where
  "aiMoralLoop envs rs st [] subs = ([], subs)"
| "aiMoralLoop envs rs st (p # ps) subs =
     (if isAI p \<and> noMoral (submittedMoral p)
      then (let m = aiMoralFor st (envs (player_id p)) (rs (player_id p));
                subs' = updFirst (\<lambda>s. playerId s = player_id p) (\<lambda>s. s\<lparr> moral := Some m \<rparr>) subs
            in case aiMoralLoop envs rs st ps subs' of
                 (ps', subs'') \<Rightarrow> (p\<lparr> submittedMoral := Some m \<rparr> # ps', subs''))
      else (case aiMoralLoop envs rs st ps subs of
              (ps', subs'') \<Rightarrow> (p # ps', subs'')))"

definition defaultMoral :: string where
  "defaultMoral = ''The moral is: some stories write themselves.''"

text \<open>The failsafe \<^verbatim>\<open>forEach\<close> at the end of \<^verbatim>\<open>generateAIMorals\<close>.\<close>

fun failsafeLoop :: "player list \<Rightarrow> submission list \<Rightarrow> player list \<times> submission list" where
  "failsafeLoop [] subs = ([], subs)"
| "failsafeLoop (p # ps) subs =
     (if isAI p \<and> noMoral (submittedMoral p)
      then (case failsafeLoop ps
                   (updFirst (\<lambda>s. playerId s = player_id p)
                      (\<lambda>s. s\<lparr> moral := Some defaultMoral \<rparr>) subs) of
              (ps', subs') \<Rightarrow> (p\<lparr> submittedMoral := Some defaultMoral \<rparr> # ps', subs'))
      else (case failsafeLoop ps subs of (ps', subs') \<Rightarrow> (p # ps', subs')))"

text \<open>
  \<^verbatim>\<open>generateAIMorals\<close>, taken as one step. \<open>envs\<close> and \<open>rs\<close> give, per simulated player id,
  the environment of its request and the draw of its \<^verbatim>\<open>catch\<close> block. Nothing in the body
  throws, so the outer \<^verbatim>\<open>catch\<close> is not a branch.
\<close>

definition generateAIMorals :: "(string \<Rightarrow> aiEnv) \<Rightarrow> (string \<Rightarrow> real) \<Rightarrow> games \<Rightarrow> string \<Rightarrow> games" where
  "generateAIMorals envs rs gs gid =
     (case gs gid of
        None \<Rightarrow> gs
      | Some g \<Rightarrow>
          (case aiMoralLoop envs rs (story (game_round g)) (players g) (submissions (game_round g)) of
             (ps1, subs1) \<Rightarrow>
               (let g1 = g\<lparr> players := ps1, game_round := (game_round g)\<lparr> submissions := subs1 \<rparr> \<rparr>;
                    humanPlayersWithMorals =
                      length (filter (\<lambda>p. \<not> isAI p \<and> \<not> noMoral (submittedMoral p)) (players g1));
                    humanPlayersTotal = length (filter (\<lambda>p. \<not> isAI p) (players g1));
                    allSubmissionsHaveMorals =
                      list_all (\<lambda>s. moral s \<noteq> None) (submissions (game_round g1));
                    g2 = (if humanPlayersWithMorals = humanPlayersTotal \<and> allSubmissionsHaveMorals
                          then setRoundStatus VOTING g1 else g1)
                in (case failsafeLoop (players g2) (submissions (game_round g2)) of
                      (ps3, subs3) \<Rightarrow>
                        gs(gid \<mapsto> g2\<lparr> players := ps3,
                                        game_round := (game_round g2)\<lparr> submissions := subs3 \<rparr> \<rparr>)))))"

subsection \<open>castVote\<close>

definition markVoted :: "string \<Rightarrow> game \<Rightarrow> game" where
  "markVoted pid g =
     (case List.find (\<lambda>s. playerId s = pid) (submissions (game_round g)) of
        None \<Rightarrow> g
      | Some voterSubmission \<Rightarrow>
          g\<lparr> game_round := (game_round g)\<lparr> submissions :=
                 updFirst (\<lambda>s. playerId s = pid) (\<lambda>s. s\<lparr> hasVoted := True \<rparr>)
                          (submissions (game_round g)) \<rparr>,
             players := updFirst (\<lambda>p. player_id p = pid) (\<lambda>p. p\<lparr> player_hasVoted := True \<rparr>)
                          (players g) \<rparr>)"

definition addVote :: "string \<Rightarrow> game \<Rightarrow> game" where
  "addVote pid g =
     g\<lparr> game_round := (game_round g)\<lparr> submissions :=
          updFirst (\<lambda>s. playerId s = pid) (\<lambda>s. s\<lparr> votes := votes s + 1 \<rparr>)
                   (submissions (game_round g)) \<rparr> \<rparr>"

text \<open>
  The test \<^verbatim>\<open>humanPlayersWhoVoted >= humanPlayers.length\<close> at the end of \<^verbatim>\<open>castVote\<close>. When it
  holds, \<^verbatim>\<open>castVote\<close> calls \<^verbatim>\<open>makeAIVotes\<close>, which arms one timer per simulated player
  (the step \<open>aiVote\<close> below), and arms the timer that calls \<^verbatim>\<open>endRound\<close>.
\<close>

definition allHumansVoted :: "game \<Rightarrow> bool" where
  "allHumansVoted g =
     (let humanPlayers = filter (\<lambda>p. \<not> isAI p) (players g);
          humanPlayersWhoVoted =
            filter (\<lambda>s. case List.find (\<lambda>p. player_id p = playerId s) (players g) of
                           None \<Rightarrow> False
                         | Some p \<Rightarrow> \<not> isAI p \<and> hasVoted s)
                   (submissions (game_round g))
      in length humanPlayersWhoVoted \<ge> length humanPlayers)"

definition castVote :: "games \<Rightarrow> string \<Rightarrow> string \<Rightarrow> string \<Rightarrow> bool \<times> games" where
  "castVote gs gid voterId votedForId =
     (case gs gid of
        None \<Rightarrow> (False, gs)
      | Some g \<Rightarrow>
          if round_status (game_round g) \<noteq> VOTING then (False, gs)
          else (case (List.find (\<lambda>p. player_id p = voterId) (players g),
                      List.find (\<lambda>p. player_id p = votedForId) (players g)) of
             (Some voter, Some votedFor) \<Rightarrow>
               if voterId = votedForId then (False, gs)
               else (case List.find (\<lambda>s. playerId s = votedForId) (submissions (game_round g)) of
                  None \<Rightarrow> (False, gs)
                | Some sub \<Rightarrow> (True, gs(gid \<mapsto> addVote votedForId (markVoted voterId g))))
           | _ \<Rightarrow> (False, gs)))"

subsection \<open>simulateAIVote and the vote of one simulated player\<close>

text \<open>
  The weights and the draws of \<^verbatim>\<open>simulateAIVote\<close> are JavaScript numbers, that is IEEE
  doubles: every product, quotient, sum and difference is rounded. The operations that the
  function uses are therefore a parameter, a record over a carrier \<open>'d\<close> of numbers; the
  doubles with their rounding operations are one such record, the reals with the exact
  operations (\<open>exactArith\<close> below) another. What is proved for every record holds of the
  doubles.
\<close>

record 'd arith =
  fnum :: "nat \<Rightarrow> 'd"
  fhalf :: "'d"
  fthreeHalves :: "'d"
  fmul :: "'d \<Rightarrow> 'd \<Rightarrow> 'd"
  fdiv :: "'d \<Rightarrow> 'd \<Rightarrow> 'd"
  fadd :: "'d \<Rightarrow> 'd \<Rightarrow> 'd"
  fsub :: "'d \<Rightarrow> 'd \<Rightarrow> 'd"
  fmin :: "'d \<Rightarrow> 'd \<Rightarrow> 'd"
  fle0 :: "'d \<Rightarrow> bool"
  ffloorIndex :: "'d \<Rightarrow> nat option"

text \<open>
  \<open>fnum n\<close> is the number of the integer literal or of the length or count \<open>n\<close>; \<open>fhalf\<close> and
  \<open>fthreeHalves\<close> are the literals \<^verbatim>\<open>0.5\<close> and \<^verbatim>\<open>1.5\<close>; \<open>fmin\<close> is \<^verbatim>\<open>Math.min\<close>; \<open>fle0 x\<close> is
  the test \<^verbatim>\<open>x <= 0\<close>; \<open>ffloorIndex x\<close> is \<^verbatim>\<open>Math.floor(x)\<close> when that is a non-negative
  integer, the only values that index an array, and \<open>None\<close> otherwise.
\<close>

definition exactArith :: "real arith" where
  "exactArith =
     \<lparr> fnum = real, fhalf = 1 / 2, fthreeHalves = 3 / 2,
       fmul = (\<lambda>x y. x * y), fdiv = (\<lambda>x y. x / y), fadd = (\<lambda>x y. x + y),
       fsub = (\<lambda>x y. x - y), fmin = min, fle0 = (\<lambda>x. x \<le> 0),
       ffloorIndex = (\<lambda>x. if 0 \<le> x then Some (nat \<lfloor>x\<rfloor>) else None) \<rparr>"

text \<open>The weight of one candidate submission.\<close>

definition voteWeight :: "'d arith \<Rightarrow> player list \<Rightarrow> submission \<Rightarrow> 'd" where
  "voteWeight A ps sub =
     (let isHuman = (case List.find (\<lambda>p. player_id p = playerId sub) ps of
                       None \<Rightarrow> False | Some p \<Rightarrow> \<not> isAI p);
          humanFactor = (if isHuman then fnum A 2 else fnum A 1);
          lengthFactor = (if noMoral (moral sub) then fhalf A
                          else fmin A (fthreeHalves A)
                                 (fdiv A (fnum A (length (the (moral sub)))) (fnum A 50)));
          voteFactor = (if votes sub = 0 then fthreeHalves A
                        else fdiv A (fnum A 1) (fadd A (fnum A (votes sub)) (fnum A 1)))
      in fmul A (fmul A humanFactor lengthFactor) voteFactor)"

text \<open>
  The selection loop: subtract the weights in turn, stop at the first position where the
  remainder is not positive. \<open>None\<close> is falling out of the loop.
\<close>

fun pickLoop :: "'d arith \<Rightarrow> 'd \<Rightarrow> 'd list \<Rightarrow> nat \<Rightarrow> nat option" where
  "pickLoop A random [] i = None"
| "pickLoop A random (w # ws) i =
     (if fle0 A (fsub A random w) then Some i else pickLoop A (fsub A random w) ws (Suc i))"

text \<open>
  \<open>r\<close> is the draw that is scaled by the total weight, \<open>r2\<close> the draw of the fallback after
  the loop. Reading \<^verbatim>\<open>playerId\<close> at a position outside the array raises a \<^verbatim>\<open>TypeError\<close>.
\<close>

definition simulateAIVote ::
  "'d arith \<Rightarrow> submission list \<Rightarrow> string \<Rightarrow> player list \<Rightarrow> 'd \<Rightarrow> 'd \<Rightarrow> error + string option" where
  "simulateAIVote A subs aiPlayerId ps r r2 =
     (let votableSubmissions = filter (\<lambda>s. playerId s \<noteq> aiPlayerId) subs in
      if votableSubmissions = [] then Inr None
      else
        (let weights = map (voteWeight A ps) votableSubmissions;
             totalWeight = foldl (fadd A) (fnum A 0) weights
         in case pickLoop A (fmul A r totalWeight) weights 0 of
              Some i \<Rightarrow> Inr (Some (playerId (votableSubmissions ! i)))
            | None \<Rightarrow>
                (case ffloorIndex A (fmul A r2 (fnum A (length votableSubmissions))) of
                   None \<Rightarrow> Inl TypeError
                 | Some randomIndex \<Rightarrow>
                     if randomIndex < length votableSubmissions
                     then Inr (Some (playerId (votableSubmissions ! randomIndex)))
                     else Inl TypeError)))"

text \<open>
  The two nested timer callbacks of \<^verbatim>\<open>makeAIVotes\<close> for the simulated player \<open>aid\<close>,
  taken as one step. The callbacks hold the player object; here it is the first player with
  the id \<open>aid\<close>, ids being uuids. \<open>prepareVote\<close> is the part before the call of
  \<^verbatim>\<open>simulateAIVote\<close>, \<open>landVote\<close> the part after it, given what the call returned: an
  exception ends the callback where it is, and the test \<^verbatim>\<open>if (votedForId)\<close> fails on
  \<^verbatim>\<open>null\<close> and on an empty id.
\<close>

definition prepareVote :: "string \<Rightarrow> game \<Rightarrow> game" where
  "prepareVote aid g =
     markVoted aid (g\<lparr> players := updFirst (\<lambda>p. player_id p = aid)
                                           (\<lambda>p. p\<lparr> isThinking := True \<rparr>) (players g) \<rparr>)"

definition landVote :: "error + string option \<Rightarrow> string \<Rightarrow> game \<Rightarrow> game" where
  "landVote res aid g1 =
     (case res of
        Inl e \<Rightarrow> g1
      | Inr None \<Rightarrow> g1
      | Inr (Some votedForId) \<Rightarrow>
          if votedForId = [] then g1
          else (case List.find (\<lambda>s. playerId s = votedForId) (submissions (game_round g1)) of
                  None \<Rightarrow> g1
                | Some sub \<Rightarrow>
                    (let g2 = addVote votedForId g1
                     in g2\<lparr> players := updFirst (\<lambda>p. player_id p = aid)
                                            (\<lambda>p. p\<lparr> isThinking := False \<rparr>) (players g2) \<rparr>)))"

definition aiVote :: "'d arith \<Rightarrow> 'd \<Rightarrow> 'd \<Rightarrow> string \<Rightarrow> game \<Rightarrow> game" where
  "aiVote A r r2 aid g =
     (let g1 = prepareVote aid g
      in landVote (simulateAIVote A (submissions (game_round g1)) aid (players g1) r r2) aid g1)"

text \<open>
  The step on the map of games, once with the arithmetic and the draws, once with the
  outcome of \<^verbatim>\<open>simulateAIVote\<close> given from outside.
\<close>

definition aiVoteIn :: "'d arith \<Rightarrow> 'd \<Rightarrow> 'd \<Rightarrow> string \<Rightarrow> games \<Rightarrow> string \<Rightarrow> games" where
  "aiVoteIn A r r2 aid gs gid =
     (case gs gid of None \<Rightarrow> gs | Some g \<Rightarrow> gs(gid \<mapsto> aiVote A r r2 aid g))"

definition aiVoteStep :: "error + string option \<Rightarrow> string \<Rightarrow> games \<Rightarrow> string \<Rightarrow> games" where
  "aiVoteStep res aid gs gid =
     (case gs gid of None \<Rightarrow> gs | Some g \<Rightarrow> gs(gid \<mapsto> landVote res aid (prepareVote aid g)))"

subsection \<open>endRound\<close>

definition addScores :: "submission list \<Rightarrow> player list \<Rightarrow> player list" where
  "addScores subs ps =
     foldl (\<lambda>qs s. updFirst (\<lambda>p. player_id p = playerId s)
                            (\<lambda>p. p\<lparr> score := score p + votes s \<rparr>) qs)
           ps subs"

definition finishRound :: "game \<Rightarrow> game" where
  "finishRound g =
     (if round_status (game_round g) = RESULTS then g
      else
        (let g1 = g\<lparr> players := addScores (submissions (game_round g)) (players g) \<rparr>;
             g2 = setRoundStatus RESULTS g1
         in if number (game_round g2) \<ge> roundsToPlay (settings g2)
            then g2\<lparr> status := COMPLETED \<rparr> else g2))"

definition endRound :: "games \<Rightarrow> string \<Rightarrow> games" where
  "endRound gs gid = (case gs gid of None \<Rightarrow> gs | Some g \<Rightarrow> gs(gid \<mapsto> finishRound g))"

subsection \<open>The socket handlers for castVote, nextRound and leaving\<close>

text \<open>\<^verbatim>\<open>socket.playerData\<close>: the player id and the game id the socket is bound to.\<close>

record socket =
  playerData :: "(string \<times> string) option"

datatype ack = Success | Failure string

definition castVoteHandler :: "socket \<Rightarrow> string \<Rightarrow> string \<Rightarrow> games \<Rightarrow> ack \<times> games" where
  "castVoteHandler sock gid votedForId gs =
     (case playerData sock of
        None \<Rightarrow> (Failure ''Not authorized to cast a vote'', gs)
      | Some (pid, g) \<Rightarrow>
          if g \<noteq> gid then (Failure ''Not authorized to cast a vote'', gs)
          else if pid = votedForId then (Failure ''Cannot vote for yourself'', gs)
          else (case gs gid of
             None \<Rightarrow> (Failure ''Game not found'', gs)
           | Some gameBefore \<Rightarrow>
               if round_status (game_round gameBefore) \<noteq> VOTING
               then (Failure ''Game is not in voting phase'', gs)
               else (case List.find (\<lambda>s. playerId s = votedForId)
                                   (submissions (game_round gameBefore)) of
                  None \<Rightarrow> (Failure ''Selected player has no moral submission'', gs)
                | Some votedForSubmission \<Rightarrow>
                    if noMoral (moral votedForSubmission)
                    then (Failure ''Selected player has no moral submission'', gs)
                    else (case castVote gs gid pid votedForId of
                            (True, gs') \<Rightarrow> (Success, gs')
                          | (False, gs') \<Rightarrow> (Failure ''Failed to cast vote'', gs')))))"

definition nextRoundHandler ::
  "cardData option \<Rightarrow> roundRand \<Rightarrow> socket \<Rightarrow> string \<Rightarrow> games \<Rightarrow> ack \<times> games" where
  "nextRoundHandler cdo rr sock gid gs =
     (case playerData sock of
        None \<Rightarrow> (Failure ''Not authorized for this game'', gs)
      | Some (pid, g) \<Rightarrow>
          if g \<noteq> gid then (Failure ''Not authorized for this game'', gs)
          else (case gs gid of
             None \<Rightarrow> (Failure ''Game not found'', gs)
           | Some gm \<Rightarrow>
               if round_status (game_round gm) \<noteq> RESULTS
               then (Failure ''Game is not ready for next round'', gs)
               else if status gm = COMPLETED then (Success, gs)
               else (Success, startNewRound cdo rr gs gid)))"

text \<open>\<^verbatim>\<open>handlePlayerLeave\<close>: the games and the socket afterwards.\<close>

definition handlePlayerLeave :: "socket \<Rightarrow> games \<Rightarrow> games \<times> socket" where
  "handlePlayerLeave sock gs =
     (case playerData sock of
        None \<Rightarrow> (gs, sock)
      | Some (pid, gid) \<Rightarrow> (snd (removePlayer gs gid pid), sock\<lparr> playerData := None \<rparr>))"

subsection \<open>Invariants, reachable states and the notions of the statements\<close>

text \<open>The host flags of a game's players, in order.\<close>

definition hostFlags :: "game \<Rightarrow> bool list" where
  "hostFlags g = map isHost (players g)"

text \<open>A game has players and one of them carries the host flag.\<close>

definition hostOk :: "game \<Rightarrow> bool" where
  "hostOk g = (players g \<noteq> [] \<and> list_ex isHost (players g))"

text \<open>Every game of the manager has a host.\<close>

definition allHostOk :: "games \<Rightarrow> bool" where
  "allHostOk gs = (\<forall>gid g. gs gid = Some g \<longrightarrow> hostOk g)"

text \<open>
  The states of the \<^verbatim>\<open>games\<close> map that the public methods and the timer callbacks of the
  manager can produce from the empty map, with any arguments and any random draws. The vote
  of a simulated player is taken with any outcome of \<^verbatim>\<open>simulateAIVote\<close>, whatever the
  arithmetic and the draws.
\<close>

inductive reachable :: "games \<Rightarrow> bool" where
  r_init: "reachable Map.empty"
| r_createGame: "reachable gs \<Longrightarrow> createGame gs cands host = Some (gid, gs') \<Longrightarrow> reachable gs'"
| r_joinGame: "reachable gs \<Longrightarrow> reachable (snd (joinGame gs gid p))"
| r_startGame: "reachable gs \<Longrightarrow> reachable (snd (startGame cdo fresh rr gs gid))"
| r_startNewRound: "reachable gs \<Longrightarrow> reachable (startNewRound cdo rr gs gid)"
| r_updateCustomCard: "reachable gs \<Longrightarrow> reachable (snd (updateCustomCard gs gid pid cid t))"
| r_selectCard: "reachable gs \<Longrightarrow> reachable (snd (selectCard gs gid pid cid ct))"
| r_makeAISelections: "reachable gs \<Longrightarrow> reachable (makeAISelections picks gs gid)"
| r_submitMoral: "reachable gs \<Longrightarrow> reachable (snd (submitMoral gs gid pid m))"
| r_generateAIMorals: "reachable gs \<Longrightarrow> reachable (generateAIMorals envs rs gs gid)"
| r_castVote: "reachable gs \<Longrightarrow> reachable (snd (castVote gs gid voterId votedForId))"
| r_aiVote: "reachable gs \<Longrightarrow> reachable (aiVoteStep res aid gs gid)"
| r_endRound: "reachable gs \<Longrightarrow> reachable (endRound gs gid)"
| r_removePlayer: "reachable gs \<Longrightarrow> reachable (snd (removePlayer gs gid pid))"

text \<open>The votes of a game's submissions, and who is flagged as having voted.\<close>

definition voteCounts :: "games \<Rightarrow> string \<Rightarrow> (string \<times> nat) list" where
  "voteCounts gs gid =
     (case gs gid of None \<Rightarrow> []
      | Some g \<Rightarrow> map (\<lambda>s. (playerId s, votes s)) (submissions (game_round g)))"

definition votedIds :: "games \<Rightarrow> string \<Rightarrow> string list" where
  "votedIds gs gid =
     (case gs gid of None \<Rightarrow> []
      | Some g \<Rightarrow> map playerId (filter hasVoted (submissions (game_round g))))"

text \<open>
  The sum of the vote counts of all submissions equals the number of submissions flagged as
  having voted.
\<close>

definition votesMatchVoters :: "game \<Rightarrow> bool" where
  "votesMatchVoters g =
     (sum_list (map votes (submissions (game_round g)))
        = length (filter hasVoted (submissions (game_round g))))"

text \<open>
  The vote weight in the words of the specification, in the arithmetic \<open>A\<close>. The votee is
  human: the player with the submission's id is not simulated.
\<close>

definition voteeIsHuman :: "player list \<Rightarrow> submission \<Rightarrow> bool" where
  "voteeIsHuman ps s =
     (case List.find (\<lambda>p. player_id p = playerId s) ps of None \<Rightarrow> False | Some p \<Rightarrow> \<not> isAI p)"

text \<open>The bonus of a human votee: 2, else 1.\<close>

definition humanBonus :: "'d arith \<Rightarrow> player list \<Rightarrow> submission \<Rightarrow> 'd" where
  "humanBonus A ps s = (if voteeIsHuman ps s then fnum A 2 else fnum A 1)"

text \<open>
  The length factor: the length of the moral over 50, capped at 1.5, when a moral exists,
  that is when the text is neither \<^verbatim>\<open>null\<close> nor empty; 0.5 otherwise.
\<close>

definition lengthFactor :: "'d arith \<Rightarrow> submission \<Rightarrow> 'd" where
  "lengthFactor A s =
     (case moral s of
        None \<Rightarrow> fhalf A
      | Some m \<Rightarrow> if m = [] then fhalf A
                  else fmin A (fthreeHalves A) (fdiv A (fnum A (length m)) (fnum A 50)))"

text \<open>The underdog factor: 1.5 at zero votes, else 1 / (votes + 1).\<close>

definition underdogFactor :: "'d arith \<Rightarrow> submission \<Rightarrow> 'd" where
  "underdogFactor A s =
     (if votes s = 0 then fthreeHalves A
      else fdiv A (fnum A 1) (fadd A (fnum A (votes s)) (fnum A 1)))"

text \<open>The weight of a candidate: the product of the three factors.\<close>

definition specWeight :: "'d arith \<Rightarrow> player list \<Rightarrow> submission \<Rightarrow> 'd" where
  "specWeight A ps s = fmul A (fmul A (humanBonus A ps s) (lengthFactor A s)) (underdogFactor A s)"

text \<open>
  What is left of the scaled draw \<open>x\<close> after the first \<open>k\<close> weights have been subtracted from
  it, one after the other.
\<close>

definition remaining :: "'d arith \<Rightarrow> 'd \<Rightarrow> 'd list \<Rightarrow> nat \<Rightarrow> 'd" where
  "remaining A x ws k = foldl (fsub A) x (take k ws)"

text \<open>A player with the host flag cleared: everything about the player but that flag.\<close>

definition sansHost :: "player \<Rightarrow> player" where
  "sansHost p = p\<lparr> isHost := False \<rparr>"

text \<open>The players of a game of the manager; none when the game does not exist.\<close>

definition playersOf :: "games \<Rightarrow> string \<Rightarrow> player list" where
  "playersOf gs gid = (case gs gid of None \<Rightarrow> [] | Some g \<Rightarrow> players g)"

text \<open>
  The narrative in the words of the specification. The card a player has selected: the card
  of the player's hand that the selected id names.
\<close>

definition chosenCard :: "player \<Rightarrow> card option" where
  "chosenCard p =
     (case selectedCard p of
        None \<Rightarrow> None
      | Some c \<Rightarrow> (case hand p of None \<Rightarrow> None | Some h \<Rightarrow> List.find (\<lambda>k. card_id k = c) h))"

text \<open>
  The card of a role: the selected card of the player holding the role, the last such
  player in player order should several hold it; none when no holder has selected.
\<close>

definition roleCard :: "player list \<Rightarrow> cardType \<Rightarrow> card option" where
  "roleCard ps t =
     (let holders = filter (\<lambda>p. currentCardType p = Some t \<and> chosenCard p \<noteq> None) ps
      in if holders = [] then None else chosenCard (last holders))"

text \<open>
  The fragment of a role: its connective followed by the text of its card, or by the stock
  phrase of the role when the card has no text; no fragment when the role has no card.
\<close>

definition fragment :: "string \<Rightarrow> string \<Rightarrow> card option \<Rightarrow> string list" where
  "fragment connective stock k =
     (case k of
        None \<Rightarrow> []
      | Some c \<Rightarrow> [connective @ (if card_text c = [] then stock else card_text c)])"

text \<open>
  The narrative: the fragments in the fixed order of the roles, one space between two of
  them; a role without a card contributes nothing.
\<close>

definition narrative :: "player list \<Rightarrow> string" where
  "narrative ps =
     (case fragment ''In a '' ''a mysterious place'' (roleCard ps LOCATION)
           @ fragment '', a '' ''strange character'' (roleCard ps CHARACTER)
           @ fragment '' NOTICES '' ''something unusual'' (roleCard ps INITIAL_TWIST)
           @ fragment ''. But then, '' ''the situation escalates'' (roleCard ps ESCALATION)
           @ fragment '' ALL BECAUSE '' ''a final twist occurs'' (roleCard ps FINAL_TWIST) of
        [] \<Rightarrow> []
      | x # xs \<Rightarrow> x @ concat (map (\<lambda>y. '' '' @ y) xs))"

text \<open>The round of a game of the manager.\<close>

definition roundOf :: "games \<Rightarrow> string \<Rightarrow> (int \<times> roundStatus) option" where
  "roundOf gs gid =
     (case gs gid of None \<Rightarrow> None
      | Some g \<Rightarrow> Some (number (game_round g), round_status (game_round g)))"

text \<open>
  Generation fails: the key is missing, the rate limit is exceeded, the request is rejected,
  the ten-second timer wins the race or the response has no content block.
\<close>

definition generationFails :: "aiEnv \<Rightarrow> bool" where
  "generationFails env =
     (\<not> hasApiKey env \<or> \<not> withinRateLimit env \<or> api env = ApiRejected \<or> api env = ApiTimedOut
      \<or> api env = ApiNoContent)"

text \<open>A simulated player that has no moral yet.\<close>

definition awaitsMoral :: "player \<Rightarrow> bool" where
  "awaitsMoral p = (isAI p \<and> (submittedMoral p = None \<or> submittedMoral p = Some []))"

text \<open>The submission of a player: the first one that carries the player's id.\<close>

definition submissionOf :: "string \<Rightarrow> submission list \<Rightarrow> submission option" where
  "submissionOf i subs = List.find (\<lambda>s. playerId s = i) subs"

text \<open>
  What the dealing relies on in a deck of the card data, which is loaded from files: at
  least three cards, no id twice, every id below the first custom card id, no custom card.
\<close>

definition deckOk :: "card list \<Rightarrow> bool" where
  "deckOk deck =
     (3 \<le> length deck \<and> distinct (map card_id deck)
      \<and> list_all (\<lambda>k. card_id k < CUSTOM_CARD_ID_START \<and> \<not> isCustom k) deck)"

text \<open>The card ids and the custom flags of a player's hand.\<close>

definition handIds :: "player \<Rightarrow> int list" where
  "handIds p = (case hand p of None \<Rightarrow> [] | Some h \<Rightarrow> map card_id h)"

definition handCustom :: "player \<Rightarrow> bool list" where
  "handCustom p = (case hand p of None \<Rightarrow> [] | Some h \<Rightarrow> map isCustom h)"

subsection \<open>Example games\<close>

text \<open>A human player as the \<^verbatim>\<open>createGame\<close> and \<^verbatim>\<open>joinGame\<close> handlers build it.\<close>

definition human :: "string \<Rightarrow> string \<Rightarrow> player" where
  "human i n =
     \<lparr> player_id = i, player_name = n, isHost = False, isAI = False, isThinking = False,
       score = 0, currentCardType = None, hand = None, selectedCard = None,
       submittedMoral = None, player_hasVoted = False \<rparr>"

text \<open>A lobby with its creator and one more player.\<close>

definition exLobbyGame :: game where
  "exLobbyGame =
     \<lparr> gameId = ''ROOM01'', status = LOBBY,
       players = [(human ''alice'' ''Alice'')\<lparr> isHost := True \<rparr>, human ''bob'' ''Bob''],
       game_round = \<lparr> number = 0, round_status = WAITING, story = [], submissions = [] \<rparr>,
       settings = \<lparr> maxPlayers = 5, roundsToPlay = 3 \<rparr> \<rparr>"

definition exLobby :: games where
  "exLobby = [''ROOM01'' \<mapsto> exLobbyGame]"

text \<open>A deck card.\<close>

definition deckCard :: "int \<Rightarrow> string \<Rightarrow> cardType \<Rightarrow> card" where
  "deckCard i t ty =
     \<lparr> card_id = i, card_text = t, card_type = Some (cardTypeStr ty), isCustom = False,
       customPrompt = None \<rparr>"

text \<open>A player of round one with a role and a hand of three deck cards.\<close>

definition seated :: "string \<Rightarrow> bool \<Rightarrow> bool \<Rightarrow> cardType \<Rightarrow> int \<Rightarrow> player" where
  "seated i host ai ty k =
     \<lparr> player_id = i, player_name = i, isHost = host, isAI = ai, isThinking = False,
       score = 0, currentCardType = Some ty,
       hand = Some [deckCard k ''one'' ty, deckCard (k + 1) ''two'' ty, deckCard (k + 2) ''three'' ty],
       selectedCard = None, submittedMoral = None, player_hasVoted = False \<rparr>"

text \<open>Round one of a started game, in SELECTION: two humans and three simulated players.\<close>

definition exSelection :: game where
  "exSelection =
     \<lparr> gameId = ''ROOM01'', status = ACTIVE,
       players = [seated ''alice'' True False LOCATION 1,
                  seated ''bob'' False False CHARACTER 11,
                  seated ''ai1'' False True INITIAL_TWIST 21,
                  seated ''ai2'' False True ESCALATION 31,
                  seated ''ai3'' False True FINAL_TWIST 41],
       game_round = \<lparr> number = 1, round_status = SELECTION, story = [], submissions = [] \<rparr>,
       settings = \<lparr> maxPlayers = 5, roundsToPlay = 3 \<rparr> \<rparr>"

text \<open>A submission with a moral and no votes.\<close>

definition entry :: "string \<Rightarrow> int \<Rightarrow> string \<Rightarrow> submission" where
  "entry i c m = \<lparr> playerId = i, cardId = c, moral = Some m, votes = 0, hasVoted = False \<rparr>"

text \<open>The same round in VOTING: every player has selected and has a moral, nobody has voted.\<close>

definition exVoting :: game where
  "exVoting =
     exSelection
       \<lparr> players :=
            [(seated ''alice'' True False LOCATION 1)
               \<lparr> selectedCard := Some 1, submittedMoral := Some ''Look before you leap.'' \<rparr>,
             (seated ''bob'' False False CHARACTER 11)
               \<lparr> selectedCard := Some 11, submittedMoral := Some ''Never trust a mirror.'' \<rparr>,
             (seated ''ai1'' False True INITIAL_TWIST 21)
               \<lparr> selectedCard := Some 21, submittedMoral := Some ''Time waits for no one.'' \<rparr>,
             (seated ''ai2'' False True ESCALATION 31)
               \<lparr> selectedCard := Some 31, submittedMoral := Some ''Doors open both ways.'' \<rparr>,
             (seated ''ai3'' False True FINAL_TWIST 41)
               \<lparr> selectedCard := Some 41, submittedMoral := Some ''Silence answers too.'' \<rparr>],
         game_round :=
            \<lparr> number = 1, round_status = VOTING,
              story = ''In a one , a one  NOTICES one . But then, one  ALL BECAUSE one'',
              submissions =
                [entry ''alice'' 1 ''Look before you leap.'',
                 entry ''bob'' 11 ''Never trust a mirror.'',
                 entry ''ai1'' 21 ''Time waits for no one.'',
                 entry ''ai2'' 31 ''Doors open both ways.'',
                 entry ''ai3'' 41 ''Silence answers too.''] \<rparr> \<rparr>"

text \<open>The socket of a player of game \<^verbatim>\<open>ROOM01\<close>.\<close>

definition socketOf :: "string \<Rightarrow> socket" where
  "socketOf pid = \<lparr> playerData = Some (pid, ''ROOM01'') \<rparr>"

text \<open>The VOTING round above as the last round of the game, and the game after \<^verbatim>\<open>endRound\<close>.\<close>

definition exLastVoting :: game where
  "exLastVoting = exVoting\<lparr> game_round := (game_round exVoting)\<lparr> number := 3 \<rparr> \<rparr>"

definition exFinished :: game where
  "exFinished = finishRound exLastVoting"

text \<open>Random draws for a round start: the players in order, decks unshuffled, no custom card.\<close>

definition plainRound :: roundRand where
  "plainRound =
     \<lparr> shuffledIndexes = [0, 1, 2, 3, 4],
       deals = (\<lambda>i. \<lparr> shuffle = (\<lambda>d. d), chance = 1 / 2, pick = 0 \<rparr>) \<rparr>"

text \<open>A player of round one whose first card carries the given text.\<close>

definition holding :: "string \<Rightarrow> bool \<Rightarrow> bool \<Rightarrow> cardType \<Rightarrow> int \<Rightarrow> string \<Rightarrow> player" where
  "holding i host ai ty k txt =
     (seated i host ai ty k)
       \<lparr> hand := Some [deckCard k txt ty, deckCard (k + 1) ''two'' ty, deckCard (k + 2) ''three'' ty] \<rparr>"

text \<open>
  A SELECTION round in which the roles do not follow the player order, when everybody but
  alice has selected, and when all have.
\<close>

definition exLastPick :: game where
  "exLastPick =
     exSelection
       \<lparr> players := [holding ''alice'' True False ESCALATION 31 ''the sea begins to glow'',
                     (holding ''bob'' False False LOCATION 1 ''haunted lighthouse'')
                        \<lparr> selectedCard := Some 1 \<rparr>,
                     (holding ''ai1'' False True FINAL_TWIST 41 ''of a forgotten promise'')
                        \<lparr> selectedCard := Some 41 \<rparr>,
                     (holding ''ai2'' False True CHARACTER 11 ''retired astronaut'')
                        \<lparr> selectedCard := Some 11 \<rparr>,
                     (holding ''ai3'' False True INITIAL_TWIST 21 ''the clocks run backwards'')
                        \<lparr> selectedCard := Some 21 \<rparr>] \<rparr>"

definition exAllPicked :: game where
  "exAllPicked =
     exSelection
       \<lparr> players := [(holding ''alice'' True False ESCALATION 31 ''the sea begins to glow'')
                        \<lparr> selectedCard := Some 31 \<rparr>,
                     (holding ''bob'' False False LOCATION 1 ''haunted lighthouse'')
                        \<lparr> selectedCard := Some 1 \<rparr>,
                     (holding ''ai1'' False True FINAL_TWIST 41 ''of a forgotten promise'')
                        \<lparr> selectedCard := Some 41 \<rparr>,
                     (holding ''ai2'' False True CHARACTER 11 ''retired astronaut'')
                        \<lparr> selectedCard := Some 11 \<rparr>,
                     (holding ''ai3'' False True INITIAL_TWIST 21 ''the clocks run backwards'')
                        \<lparr> selectedCard := Some 21 \<rparr>] \<rparr>"

text \<open>The VOTING round above after \<^verbatim>\<open>endRound\<close>: round one of three, in RESULTS.\<close>

definition exResults :: game where
  "exResults = finishRound exVoting"

text \<open>A request that times out.\<close>

definition exTimeout :: aiEnv where
  "exTimeout = \<lparr> hasApiKey = True, withinRateLimit = True, api = ApiTimedOut \<rparr>"

text \<open>A request that is not sent because the rate limit is exceeded.\<close>

definition exRateLimited :: aiEnv where
  "exRateLimited = \<lparr> hasApiKey = True, withinRateLimit = False, api = ApiText ''unused'' \<rparr>"

text \<open>The STORYTELLING round that follows the last selection above: nobody has a moral.\<close>

definition exTelling :: game where
  "exTelling = setRoundStatus STORYTELLING (assembleStory exAllPicked)"

text \<open>The SELECTION round above as round two.\<close>

definition exRoundTwo :: game where
  "exRoundTwo = exSelection\<lparr> game_round := (game_round exSelection)\<lparr> number := 2 \<rparr> \<rparr>"

text \<open>Ids and names for new simulated players.\<close>

definition exFresh :: "nat \<Rightarrow> string \<times> string" where
  "exFresh i = (replicate (Suc i) (CHR ''a''), ''NeuralMind'')"

text \<open>Card data with small decks; the ids of a role's deck start at the role's tens.\<close>

definition exDecks :: cardData where
  "exDecks =
     \<lparr> locationCards = [deckCard 1 ''a haunted lighthouse'' LOCATION,
                         deckCard 2 ''an empty diner'' LOCATION,
                         deckCard 3 ''a night train'' LOCATION,
                         deckCard 4 ''a closed museum'' LOCATION],
       characterCards = [deckCard 11 ''tired detective'' CHARACTER,
                          deckCard 12 ''lost tourist'' CHARACTER,
                          deckCard 13 ''retired magician'' CHARACTER],
       initialTwistCards = [deckCard 21 ''a clock running backwards'' INITIAL_TWIST,
                             deckCard 22 ''a door that was not there'' INITIAL_TWIST,
                             deckCard 23 ''a letter from tomorrow'' INITIAL_TWIST],
       escalationCards = [deckCard 31 ''the lights go out'' ESCALATION,
                           deckCard 32 ''everyone forgets their name'' ESCALATION,
                           deckCard 33 ''the map redraws itself'' ESCALATION],
       finalTwistCards = [deckCard 41 ''it was all rehearsed'' FINAL_TWIST,
                           deckCard 42 ''the narrator was lying'' FINAL_TWIST,
                           deckCard 43 ''nobody ever left'' FINAL_TWIST] \<rparr>"

text \<open>
  Draws for a deal: every shuffle reverses the deck, the first player draws 0.1 against the
  custom card chance and all others 0.5, every position draw is 0.5.
\<close>

definition exDeal :: "nat \<Rightarrow> dealRand" where
  "exDeal i = \<lparr> shuffle = rev, chance = (if i = 0 then 1 / 10 else 1 / 2), pick = 1 / 2 \<rparr>"

subsection \<open>Every game keeps a host\<close>

lemma hostFlags_status [simp]: "hostFlags (g\<lparr> status := s \<rparr>) = hostFlags g"
  by (simp add: hostFlags_def)

lemma hostFlags_game_round [simp]: "hostFlags (g\<lparr> game_round := r \<rparr>) = hostFlags g"
  by (simp add: hostFlags_def)

lemma isHost_updFirst: "(\<And>x. isHost (f x) = isHost x) \<Longrightarrow> map isHost (updFirst P f xs) = map isHost xs"
  by (induction xs) auto

lemma hostFlags_assembleStory [simp]: "hostFlags (assembleStory g) = hostFlags g"
  by (simp add: hostFlags_def assembleStory_def)

lemma hostFlags_setRoundStatus [simp]: "hostFlags (setRoundStatus s g) = hostFlags g"
  by (simp add: hostFlags_def setRoundStatus_def)

lemma hostFlags_setSubmissionMoral [simp]: "hostFlags (setSubmissionMoral pid m g) = hostFlags g"
  by (simp add: hostFlags_def setSubmissionMoral_def)

lemma hostFlags_setPlayerMoral [simp]: "hostFlags (setPlayerMoral pid m g) = hostFlags g"
  by (simp add: hostFlags_def setPlayerMoral_def isHost_updFirst)

lemma hostFlags_addVote [simp]: "hostFlags (addVote pid g) = hostFlags g"
  by (simp add: hostFlags_def addVote_def)

lemma hostFlags_markVoted [simp]: "hostFlags (markVoted pid g) = hostFlags g"
  by (simp add: hostFlags_def markVoted_def isHost_updFirst split: option.splits)

lemma hostFlags_prepareVote [simp]: "hostFlags (prepareVote aid g) = hostFlags g"
proof -
  have "hostFlags (g\<lparr> players := updFirst (\<lambda>p. player_id p = aid) (\<lambda>p. p\<lparr> isThinking := True \<rparr>) (players g) \<rparr>) = hostFlags g"
    by (simp add: hostFlags_def isHost_updFirst)
  then show ?thesis by (simp add: prepareVote_def)
qed

lemma hostFlags_landVote [simp]: "hostFlags (landVote res aid g) = hostFlags g"
proof -
  have b: "\<And>h. hostFlags (h\<lparr> players := updFirst (\<lambda>p. player_id p = aid) (\<lambda>p. p\<lparr> isThinking := False \<rparr>) (players h) \<rparr>) = hostFlags h"
    by (simp add: hostFlags_def isHost_updFirst)
  show ?thesis
    unfolding landVote_def Let_def
    by (simp add: b split: option.splits sum.splits)
qed

lemma hostFlags_aiVote [simp]: "hostFlags (aiVote A r r2 aid g) = hostFlags g"
  by (simp add: aiVote_def Let_def)

lemma isHost_addScores: "map isHost (addScores subs ps) = map isHost ps"
  unfolding addScores_def
  by (induction subs arbitrary: ps) (simp_all add: isHost_updFirst)

lemma hostFlags_finishRound [simp]: "hostFlags (finishRound g) = hostFlags g"
  using hostFlags_setRoundStatus[of RESULTS "g\<lparr> players := addScores (submissions (game_round g)) (players g) \<rparr>"]
  by (simp add: finishRound_def Let_def hostFlags_def isHost_addScores)

lemma isHost_aiMoralLoop: "map isHost (fst (aiMoralLoop envs rs st ps subs)) = map isHost ps"
  by (induction ps arbitrary: subs) (simp_all add: case_prod_beta Let_def)

lemma isHost_failsafeLoop: "map isHost (fst (failsafeLoop ps subs)) = map isHost ps"
  by (induction ps arbitrary: subs) (simp_all add: case_prod_beta)

lemma map_update_same: "(map f ps)[a := f (ps ! a)] = map f ps"
  by (cases "a < length ps") (simp_all add: list_update_same_conv list_update_beyond not_less)

lemma isHost_assignStep: "map isHost (assignStep off ps pr) = map isHost ps"
  by (cases pr) (simp add: assignStep_def map_update map_update_same)

lemma isHost_assignFold: "map isHost (foldl (assignStep off) ps zs) = map isHost ps"
  by (induction zs arbitrary: ps) (simp_all add: isHost_assignStep)

lemma hostFlags_assignCardTypes [simp]: "hostFlags (assignCardTypes idxs g) = hostFlags g"
  by (simp add: hostFlags_def assignCardTypes_def isHost_assignFold)

lemma isHost_dealLoop: "map isHost (dealLoop cd rnd i n ps) = map isHost ps"
  by (induction ps arbitrary: i n) (auto simp: dealOne_def Let_def split: prod.splits if_splits)

lemma hostFlags_dealCards [simp]: "hostFlags (dealCards cdo rnd g) = hostFlags g"
  by (simp add: hostFlags_def dealCards_def isHost_dealLoop split: option.splits)

lemma hostFlags_reset [simp]: "hostFlags (g\<lparr> players := map resetPlayer (players g) \<rparr>) = hostFlags g"
  by (simp add: hostFlags_def resetPlayer_def comp_def)

lemma hostOk_flags: "hostOk g = (hostFlags g \<noteq> [] \<and> True \<in> set (hostFlags g))"
  by (auto simp: hostOk_def hostFlags_def list_ex_iff)

lemma hostOk_cong: "hostFlags g' = hostFlags g \<Longrightarrow> hostOk g \<Longrightarrow> hostOk g'"
  by (simp add: hostOk_flags)

lemma hostFlags_beginRound_keep: "hostOk g \<Longrightarrow> hostOk (beginRound cdo rr g)"
proof -
  have "hostFlags (beginRound cdo rr g) = hostFlags g"
  proof -
    have a: "\<And>h. hostFlags (h\<lparr> status := COMPLETED, game_round := (game_round h)\<lparr> round_status := ROUND_COMPLETED \<rparr> \<rparr>) = hostFlags h"
      by (simp add: hostFlags_def)
    have b: "\<And>h n. hostFlags (h\<lparr> game_round := n \<rparr>) = hostFlags h"
      by (simp add: hostFlags_def)
    have c: "\<And>h n. hostFlags (h\<lparr> game_round := n, players := map resetPlayer (players h) \<rparr>) = hostFlags h"
      by (simp add: hostFlags_def resetPlayer_def comp_def)
    show ?thesis
      unfolding beginRound_def Let_def
      by (simp add: a b c)
  qed
  then show "hostOk g \<Longrightarrow> hostOk (beginRound cdo rr g)" by (rule hostOk_cong)
qed

lemma hostOk_addAIPlayers: "hostOk g \<Longrightarrow> hostOk (addAIPlayers fresh g)"
  by (auto simp: hostOk_def addAIPlayers_def Let_def)

lemma allHostOk_upd: "allHostOk gs \<Longrightarrow> hostOk g \<Longrightarrow> allHostOk (gs(gid \<mapsto> g))"
  by (simp add: allHostOk_def)

lemma allHostOk_del: "allHostOk gs \<Longrightarrow> allHostOk (gs(gid := None))"
  by (simp add: allHostOk_def)

lemma allHostOk_get: "allHostOk gs \<Longrightarrow> gs gid = Some g \<Longrightarrow> hostOk g"
  by (simp add: allHostOk_def)

lemma hostOk_newGame: "hostOk (newGame gid host)"
  by (simp add: hostOk_def newGame_def)

lemma allHostOk_createGame:
  "allHostOk gs \<Longrightarrow> createGame gs cands host = Some (gid, gs') \<Longrightarrow> allHostOk gs'"
  by (auto simp: createGame_def hostOk_newGame allHostOk_upd split: option.splits)

lemma allHostOk_joinGame: "allHostOk gs \<Longrightarrow> allHostOk (snd (joinGame gs gid p))"
proof (cases "gs gid")
  case None
  assume "allHostOk gs"
  with None show ?thesis by (simp add: joinGame_def)
next
  case (Some g)
  assume a: "allHostOk gs"
  then have h: "hostOk g" using Some by (rule allHostOk_get)
  have "hostOk (g\<lparr> players := players g @ [p\<lparr> score := 0 \<rparr>] \<rparr>)"
    using h by (auto simp: hostOk_def)
  with a Some show ?thesis by (simp add: joinGame_def allHostOk_upd)
qed

lemma allHostOk_startNewRound: "allHostOk gs \<Longrightarrow> allHostOk (startNewRound cdo rr gs gid)"
  by (auto simp: startNewRound_def split: option.splits
           intro!: allHostOk_upd hostFlags_beginRound_keep elim: allHostOk_get)

lemma allHostOk_startGame: "allHostOk gs \<Longrightarrow> allHostOk (snd (startGame cdo fresh rr gs gid))"
proof (cases "gs gid")
  case None
  assume "allHostOk gs"
  with None show ?thesis by (simp add: startGame_def)
next
  case (Some g)
  assume a: "allHostOk gs"
  then have h: "hostOk g" using Some by (rule allHostOk_get)
  let ?g1 = "addAIPlayers fresh g"
  let ?g2 = "?g1\<lparr> status := ACTIVE, game_round := (game_round ?g1)\<lparr> number := 1 \<rparr> \<rparr>"
  have "hostOk ?g1" using h by (rule hostOk_addAIPlayers)
  then have "hostOk ?g2" by (simp add: hostOk_flags)
  then have "allHostOk (gs(gid \<mapsto> ?g2))" using a by (simp add: allHostOk_upd)
  then have "allHostOk (startNewRound cdo rr (gs(gid \<mapsto> ?g2)) gid)"
    by (rule allHostOk_startNewRound)
  with a Some show ?thesis by (simp add: startGame_def Let_def)
qed

lemma allHostOk_step:
  assumes "allHostOk gs" and "\<And>g. gs gid = Some g \<Longrightarrow> hostOk g \<Longrightarrow> gs' = gs \<or> (\<exists>g'. gs' = gs(gid \<mapsto> g') \<and> hostFlags g' = hostFlags g)"
  shows "allHostOk gs' \<or> gs gid = None"
proof (cases "gs gid")
  case None then show ?thesis by simp
next
  case (Some g)
  then have h: "hostOk g" using assms(1) by (simp add: allHostOk_get)
  from assms(2)[OF Some h] show ?thesis
  proof
    assume "gs' = gs" then show ?thesis using assms(1) by simp
  next
    assume "\<exists>g'. gs' = gs(gid \<mapsto> g') \<and> hostFlags g' = hostFlags g"
    then obtain g' where g': "gs' = gs(gid \<mapsto> g')" "hostFlags g' = hostFlags g" by blast
    then have "hostOk g'" using h hostOk_cong by blast
    then show ?thesis using g' assms(1) by (simp add: allHostOk_upd)
  qed
qed

lemma hostFlags_players_updFirst:
  "(\<And>x. isHost (f x) = isHost x) \<Longrightarrow> hostFlags (g\<lparr> players := updFirst P f (players g) \<rparr>) = hostFlags g"
  by (simp add: hostFlags_def isHost_updFirst)

lemma allHostOk_updateCustomCard:
  "allHostOk gs \<Longrightarrow> allHostOk (snd (updateCustomCard gs gid pid cid t))"
proof -
  assume a: "allHostOk gs"
  have "allHostOk (snd (updateCustomCard gs gid pid cid t)) \<or> gs gid = None"
    by (rule allHostOk_step[OF a])
       (auto simp: updateCustomCard_def hostFlags_players_updFirst split: option.splits)
  then show ?thesis using a by (auto simp: updateCustomCard_def)
qed

lemma allHostOk_selectCard:
  "allHostOk gs \<Longrightarrow> allHostOk (snd (selectCard gs gid pid cid t))"
proof -
  assume a: "allHostOk gs"
  have "allHostOk (snd (selectCard gs gid pid cid t)) \<or> gs gid = None"
    by (rule allHostOk_step[OF a])
       (auto simp: selectCard_def Let_def hostFlags_players_updFirst split: option.splits)
  then show ?thesis using a by (auto simp: selectCard_def)
qed

lemma isHost_aiPick [simp]: "isHost (aiPick r p) = isHost p"
  by (simp add: aiPick_def split: option.splits)

lemma allHostOk_makeAISelections:
  "allHostOk gs \<Longrightarrow> allHostOk (makeAISelections picks gs gid)"
proof -
  assume a: "allHostOk gs"
  have m: "\<And>g. hostFlags (g\<lparr> players := map (\<lambda>p. if pendingAI p then aiPick (picks (player_id p)) p else p) (players g) \<rparr>) = hostFlags g"
    by (simp add: hostFlags_def)
  have "allHostOk (makeAISelections picks gs gid) \<or> gs gid = None"
    by (rule allHostOk_step[OF a])
       (auto simp: makeAISelections_def Let_def m split: option.splits)
  then show ?thesis using a by (auto simp: makeAISelections_def)
qed

lemma allHostOk_submitMoral:
  "allHostOk gs \<Longrightarrow> allHostOk (snd (submitMoral gs gid pid m))"
proof -
  assume a: "allHostOk gs"
  have "allHostOk (snd (submitMoral gs gid pid m)) \<or> gs gid = None"
    by (rule allHostOk_step[OF a])
       (auto simp: submitMoral_def Let_def split: option.splits)
  then show ?thesis using a by (auto simp: submitMoral_def)
qed

lemma hostFlags_generateAIMorals:
  assumes "gs gid = Some g"
  shows "\<exists>g'. generateAIMorals envs rs gs gid = gs(gid \<mapsto> g') \<and> hostFlags g' = hostFlags g"
proof -
  let ?g' = "the (generateAIMorals envs rs gs gid gid)"
  have e: "generateAIMorals envs rs gs gid = gs(gid \<mapsto> ?g')"
    using assms by (simp add: generateAIMorals_def case_prod_beta Let_def)
  have h: "hostFlags ?g' = hostFlags g"
    using assms
    by (simp add: generateAIMorals_def case_prod_beta Let_def hostFlags_def setRoundStatus_def
          isHost_failsafeLoop isHost_aiMoralLoop)
  from e h show ?thesis by blast
qed

lemma allHostOk_generateAIMorals:
  "allHostOk gs \<Longrightarrow> allHostOk (generateAIMorals envs rs gs gid)"
proof -
  assume a: "allHostOk gs"
  have "allHostOk (generateAIMorals envs rs gs gid) \<or> gs gid = None"
    using hostFlags_generateAIMorals[of gs gid _ envs rs]
    by (intro allHostOk_step[OF a]) blast
  then show ?thesis using a by (auto simp: generateAIMorals_def)
qed

lemma allHostOk_castVote:
  "allHostOk gs \<Longrightarrow> allHostOk (snd (castVote gs gid v w))"
proof -
  assume a: "allHostOk gs"
  have "allHostOk (snd (castVote gs gid v w)) \<or> gs gid = None"
    by (rule allHostOk_step[OF a])
       (auto simp: castVote_def Let_def split: option.splits)
  then show ?thesis using a by (auto simp: castVote_def)
qed

lemma allHostOk_aiVoteStep:
  "allHostOk gs \<Longrightarrow> allHostOk (aiVoteStep res aid gs gid)"
proof -
  assume a: "allHostOk gs"
  have "allHostOk (aiVoteStep res aid gs gid) \<or> gs gid = None"
    by (rule allHostOk_step[OF a]) (auto simp: aiVoteStep_def)
  then show ?thesis using a by (auto simp: aiVoteStep_def)
qed

lemma allHostOk_endRound:
  "allHostOk gs \<Longrightarrow> allHostOk (endRound gs gid)"
proof -
  assume a: "allHostOk gs"
  have "allHostOk (endRound gs gid) \<or> gs gid = None"
    by (rule allHostOk_step[OF a]) (auto simp: endRound_def)
  then show ?thesis using a by (auto simp: endRound_def)
qed

lemma updFirst_host:
  "list_ex P xs \<Longrightarrow> updFirst P (\<lambda>p. p\<lparr> isHost := True \<rparr>) xs \<noteq> []
     \<and> list_ex isHost (updFirst P (\<lambda>p. p\<lparr> isHost := True \<rparr>) xs)"
  by (induction xs) auto

lemma hostOk_assignNewHost: "ps \<noteq> [] \<Longrightarrow> assignNewHost ps \<noteq> [] \<and> list_ex isHost (assignNewHost ps)"
proof (cases "list_ex (\<lambda>p. \<not> isAI p) ps")
  case True
  then show ?thesis using updFirst_host[OF True] by (simp add: assignNewHost_def)
next
  case False
  assume "ps \<noteq> []"
  with False show ?thesis by (cases ps) (simp_all add: assignNewHost_def)
qed

lemma list_ex_splice1:
  "i < length ps \<Longrightarrow> list_ex P ps \<Longrightarrow> \<not> P (ps ! i) \<Longrightarrow> list_ex P (splice1 i ps)"
proof -
  assume i: "i < length ps" and ex: "list_ex P ps" and n: "\<not> P (ps ! i)"
  have d: "ps = take i ps @ (ps ! i) # drop (Suc i) ps"
    using i by (rule id_take_nth_drop)
  have "set ps = set (take i ps @ (ps ! i) # drop (Suc i) ps)"
    using d by (rule arg_cong)
  then have "set ps = set (take i ps) \<union> {ps ! i} \<union> set (drop (Suc i) ps)"
    by simp
  with ex n show ?thesis
    by (auto simp: splice1_def list_ex_iff)
qed

lemma findIndex_Some: "findIndex P xs = Some i \<Longrightarrow> i < length xs \<and> P (xs ! i) \<and> (\<forall>j<i. \<not> P (xs ! j))"
proof (induction xs arbitrary: i)
  case Nil then show ?case by simp
next
  case (Cons x xs)
  show ?case
  proof (cases "P x")
    case True with Cons.prems show ?thesis by simp
  next
    case False
    with Cons.prems obtain k where k: "findIndex P xs = Some k" "i = Suc k"
      by (auto split: option.splits)
    from Cons.IH[OF k(1)] False k(2) show ?thesis
      by (auto simp: less_Suc_eq_0_disj)
  qed
qed

lemma hostFlags_afterRemoval [simp]: "hostFlags (afterRemoval pid g) = hostFlags g"
  by (simp add: afterRemoval_def Let_def split: option.splits)

lemma allHostOk_removePlayer:
  "allHostOk gs \<Longrightarrow> allHostOk (snd (removePlayer gs gid pid))"
proof (cases "gs gid")
  case None
  assume "allHostOk gs"
  with None show ?thesis by (simp add: removePlayer_def)
next
  case (Some g)
  assume a: "allHostOk gs"
  then have h: "hostOk g" using Some by (rule allHostOk_get)
  show ?thesis
  proof (cases "findIndex (\<lambda>p. player_id p = pid) (players g)")
    case None
    with a Some show ?thesis by (simp add: removePlayer_def)
  next
    case (Some i)
    let ?rest = "splice1 i (players g)"
    let ?rest' = "if isHost (players g ! i) \<and> ?rest \<noteq> [] then assignNewHost ?rest else ?rest"
    have i: "i < length (players g)" using findIndex_Some[OF Some] by simp
    have ok: "?rest' \<noteq> [] \<Longrightarrow> hostOk (g\<lparr> players := ?rest' \<rparr>)"
    proof (cases "isHost (players g ! i)")
      case True
      assume "?rest' \<noteq> []"
      then show ?thesis using True hostOk_assignNewHost[of ?rest]
        by (auto simp: hostOk_def)
    next
      case False
      assume ne: "?rest' \<noteq> []"
      have "list_ex isHost ?rest" using h i False by (simp add: hostOk_def list_ex_splice1)
      with ne False show ?thesis by (simp add: hostOk_def)
    qed
    have ok2: "?rest' \<noteq> [] \<Longrightarrow> hostOk (afterRemoval pid (g\<lparr> players := ?rest' \<rparr>))"
      using ok hostOk_cong hostFlags_afterRemoval by blast
    show ?thesis
      using a \<open>gs gid = Some g\<close> Some ok ok2
      by (simp add: removePlayer_def Let_def allHostOk_upd allHostOk_del)
  qed
qed

text \<open>
  The vote of a simulated player, with any arithmetic and any draws, is a step of the
  reachable states.
\<close>

lemma aiVoteIn_aiVoteStep:
  "aiVoteIn A r r2 aid gs gid =
     (case gs gid of
        None \<Rightarrow> gs
      | Some g \<Rightarrow>
          aiVoteStep (simulateAIVote A (submissions (game_round (prepareVote aid g))) aid
                        (players (prepareVote aid g)) r r2) aid gs gid)"
  by (simp add: aiVoteIn_def aiVoteStep_def aiVote_def Let_def split: option.splits)

lemma reachable_aiVoteIn: "reachable gs \<Longrightarrow> reachable (aiVoteIn A r r2 aid gs gid)"
  unfolding aiVoteIn_aiVoteStep by (cases "gs gid") (simp_all add: r_aiVote)

lemma reachable_allHostOk: "reachable gs \<Longrightarrow> allHostOk gs"
proof (induction rule: reachable.induct)
  case r_init
  show ?case by (simp add: allHostOk_def)
next
  case (r_createGame gs cands host gid gs')
  then show ?case by (blast intro: allHostOk_createGame)
qed (simp_all add: allHostOk_joinGame allHostOk_startGame allHostOk_startNewRound
       allHostOk_updateCustomCard allHostOk_selectCard allHostOk_makeAISelections
       allHostOk_submitMoral allHostOk_generateAIMorals allHostOk_castVote allHostOk_aiVoteStep
       allHostOk_endRound allHostOk_removePlayer)

lemma updFirst_findIndex:
  "updFirst P f xs = (case findIndex P xs of None \<Rightarrow> xs | Some j \<Rightarrow> xs[j := f (xs ! j)])"
  by (induction xs) (auto split: option.splits)

lemma findIndex_None_iff: "(findIndex P xs = None) = (\<not> list_ex P xs)"
  by (induction xs) (auto split: option.splits)

lemma assignNewHost_explicit:
  "ps \<noteq> [] \<Longrightarrow> assignNewHost ps =
     (case findIndex (\<lambda>p. \<not> isAI p) ps of
        Some j \<Rightarrow> ps[j := (ps ! j)\<lparr> isHost := True \<rparr>]
      | None \<Rightarrow> ps[0 := (ps ! 0)\<lparr> isHost := True \<rparr>])"
proof (cases "findIndex (\<lambda>p. \<not> isAI p) ps")
  case None
  assume ne: "ps \<noteq> []"
  have "\<not> list_ex (\<lambda>p. \<not> isAI p) ps"
    using None findIndex_None_iff[of "\<lambda>p. \<not> isAI p" ps] by simp
  with None ne show ?thesis
    by (cases ps) (simp_all add: assignNewHost_def)
next
  case (Some j)
  then have "list_ex (\<lambda>p. \<not> isAI p) ps"
    using findIndex_None_iff[of "\<lambda>p. \<not> isAI p" ps] by simp
  with Some show ?thesis
    by (simp add: assignNewHost_def updFirst_findIndex)
qed

lemma players_afterRemoval [simp]: "players (afterRemoval pid g) = players g"
  by (simp add: afterRemoval_def Let_def assembleStory_def setRoundStatus_def split: option.splits)

lemma removePlayer_host_players:
  assumes "gs gid = Some g" and "findIndex (\<lambda>p. player_id p = pid) (players g) = Some i"
    and "isHost (players g ! i)" and "splice1 i (players g) \<noteq> []"
  shows "\<exists>g'. snd (removePlayer gs gid pid) gid = Some g'
            \<and> players g' = assignNewHost (splice1 i (players g))"
proof -
  have ne: "assignNewHost (splice1 i (players g)) \<noteq> []"
    using hostOk_assignNewHost[OF assms(4)] by simp
  show ?thesis
    using assms ne by (simp add: removePlayer_def Let_def)
qed

text \<open>
  Claim C10. In every reachable state, a game that has a player has a player with the host
  flag. \<^verbatim>\<open>createGame\<close> stores the creator, flagged as host, as the only player. When
  \<^verbatim>\<open>removePlayer\<close> removes a host and players remain, the flag is set on the first remaining
  human player, or on the first remaining player when all of them are simulated.
\<close>

theorem host_flag_always_present:
  "(reachable gs \<and> gs gid = Some g \<and> players g \<noteq> [] \<longrightarrow> (\<exists>p \<in> set (players g). isHost p))
   \<and> (createGame gs cands host = Some (gid, gs') \<longrightarrow>
        (\<exists>g'. gs' gid = Some g' \<and> players g' = [host\<lparr> score := 0, isHost := True \<rparr>]))
   \<and> (gs gid = Some g \<and> findIndex (\<lambda>p. player_id p = pid) (players g) = Some i
        \<and> isHost (players g ! i) \<and> splice1 i (players g) \<noteq> [] \<longrightarrow>
        (\<exists>g'. snd (removePlayer gs gid pid) gid = Some g'
           \<and> players g' =
               (case findIndex (\<lambda>p. \<not> isAI p) (splice1 i (players g)) of
                  Some j \<Rightarrow> (splice1 i (players g))[j := (splice1 i (players g) ! j)\<lparr> isHost := True \<rparr>]
                | None \<Rightarrow> (splice1 i (players g))[0 := (splice1 i (players g) ! 0)\<lparr> isHost := True \<rparr>])))"
proof (intro conjI impI)
  assume a: "reachable gs \<and> gs gid = Some g \<and> players g \<noteq> []"
  then have "hostOk g" using reachable_allHostOk allHostOk_get by blast
  then show "\<exists>p \<in> set (players g). isHost p" by (simp add: hostOk_def list_ex_iff)
next
  assume "createGame gs cands host = Some (gid, gs')"
  then show "\<exists>g'. gs' gid = Some g' \<and> players g' = [host\<lparr> score := 0, isHost := True \<rparr>]"
    by (auto simp: createGame_def newGame_def split: option.splits)
next
  assume a: "gs gid = Some g \<and> findIndex (\<lambda>p. player_id p = pid) (players g) = Some i
        \<and> isHost (players g ! i) \<and> splice1 i (players g) \<noteq> []"
  then obtain g' where g': "snd (removePlayer gs gid pid) gid = Some g'"
      "players g' = assignNewHost (splice1 i (players g))"
    using removePlayer_host_players[of gs gid g pid i] by blast
  show "\<exists>g'. snd (removePlayer gs gid pid) gid = Some g'
           \<and> players g' =
               (case findIndex (\<lambda>p. \<not> isAI p) (splice1 i (players g)) of
                  Some j \<Rightarrow> (splice1 i (players g))[j := (splice1 i (players g) ! j)\<lparr> isHost := True \<rparr>]
                | None \<Rightarrow> (splice1 i (players g))[0 := (splice1 i (players g) ! 0)\<lparr> isHost := True \<rparr>])"
    using g' a assignNewHost_explicit[of "splice1 i (players g)"] by auto
qed

lemma exLobby_reachable: "reachable exLobby"
proof -
  have c: "createGame Map.empty [''ROOM01''] (human ''alice'' ''Alice'')
             = Some (''ROOM01'', [''ROOM01'' \<mapsto> newGame ''ROOM01'' (human ''alice'' ''Alice'')])"
    by (simp add: createGame_def generateGameId_def)
  have r1: "reachable [''ROOM01'' \<mapsto> newGame ''ROOM01'' (human ''alice'' ''Alice'')]"
    using r_init c by (rule r_createGame)
  have j: "snd (joinGame [''ROOM01'' \<mapsto> newGame ''ROOM01'' (human ''alice'' ''Alice'')] ''ROOM01'' (human ''bob'' ''Bob''))
             = exLobby"
    by (simp add: joinGame_def newGame_def exLobby_def exLobbyGame_def human_def)
  show ?thesis using r_joinGame[OF r1, of "''ROOM01''" "human ''bob'' ''Bob''"] j by simp
qed

theorem host_flag_always_present_witness:
  "(reachable exLobby \<and> exLobby ''ROOM01'' = Some exLobbyGame \<and> players exLobbyGame \<noteq> [])
   \<and> (\<exists>p \<in> set (players exLobbyGame). isHost p)
   \<and> createGame Map.empty [''ROOM01''] (human ''alice'' ''Alice'')
        = Some (''ROOM01'', [''ROOM01'' \<mapsto> newGame ''ROOM01'' (human ''alice'' ''Alice'')])
   \<and> (\<exists>g'. [''ROOM01'' \<mapsto> newGame ''ROOM01'' (human ''alice'' ''Alice'')] ''ROOM01'' = Some g'
          \<and> players g' = [(human ''alice'' ''Alice'')\<lparr> score := 0, isHost := True \<rparr>])
   \<and> (findIndex (\<lambda>p. player_id p = ''alice'') (players exLobbyGame) = Some 0
        \<and> isHost (players exLobbyGame ! 0) \<and> splice1 0 (players exLobbyGame) \<noteq> [])
   \<and> (\<exists>g'. snd (removePlayer exLobby ''ROOM01'' ''alice'') ''ROOM01'' = Some g'
          \<and> players g' = [(human ''bob'' ''Bob'')\<lparr> isHost := True \<rparr>])"
proof -
  have h1: "reachable exLobby \<and> exLobby ''ROOM01'' = Some exLobbyGame \<and> players exLobbyGame \<noteq> []"
    by (simp add: exLobby_reachable) (simp add: exLobby_def exLobbyGame_def)
  have h2: "createGame Map.empty [''ROOM01''] (human ''alice'' ''Alice'')
        = Some (''ROOM01'', [''ROOM01'' \<mapsto> newGame ''ROOM01'' (human ''alice'' ''Alice'')])"
    by (simp add: createGame_def generateGameId_def)
  have h3: "exLobby ''ROOM01'' = Some exLobbyGame
        \<and> findIndex (\<lambda>p. player_id p = ''alice'') (players exLobbyGame) = Some 0
        \<and> isHost (players exLobbyGame ! 0) \<and> splice1 0 (players exLobbyGame) \<noteq> []"
    by (simp add: exLobby_def exLobbyGame_def human_def splice1_def)
  have sp: "splice1 0 (players exLobbyGame) = [human ''bob'' ''Bob'']"
    by (simp add: exLobbyGame_def splice1_def)
  have fi: "findIndex (\<lambda>p. \<not> isAI p) [human ''bob'' ''Bob''] = Some 0"
    by (simp add: human_def)
  note T = host_flag_always_present[where gs = exLobby and gid = "''ROOM01''" and g = exLobbyGame
             and pid = "''alice''" and i = 0]
  note U = host_flag_always_present[where gs = Map.empty and gid = "''ROOM01''"
             and cands = "[''ROOM01'']" and host = "human ''alice'' ''Alice''"
             and gs' = "[''ROOM01'' \<mapsto> newGame ''ROOM01'' (human ''alice'' ''Alice'')]"]
  from T h1 have c1: "\<exists>p \<in> set (players exLobbyGame). isHost p" by blast
  from U h2 have c2: "\<exists>g'. [''ROOM01'' \<mapsto> newGame ''ROOM01'' (human ''alice'' ''Alice'')] ''ROOM01'' = Some g'
          \<and> players g' = [(human ''alice'' ''Alice'')\<lparr> score := 0, isHost := True \<rparr>]" by blast
  from T h3 have "\<exists>g'. snd (removePlayer exLobby ''ROOM01'' ''alice'') ''ROOM01'' = Some g'
          \<and> players g' =
               (case findIndex (\<lambda>p. \<not> isAI p) (splice1 0 (players exLobbyGame)) of
                  Some j \<Rightarrow> (splice1 0 (players exLobbyGame))[j := (splice1 0 (players exLobbyGame) ! j)\<lparr> isHost := True \<rparr>]
                | None \<Rightarrow> (splice1 0 (players exLobbyGame))[0 := (splice1 0 (players exLobbyGame) ! 0)\<lparr> isHost := True \<rparr>])"
    by blast
  then have c3: "\<exists>g'. snd (removePlayer exLobby ''ROOM01'' ''alice'') ''ROOM01'' = Some g'
          \<and> players g' = [(human ''bob'' ''Bob'')\<lparr> isHost := True \<rparr>]"
    unfolding sp fi by simp
  from h1 h2 h3 c1 c2 c3 show ?thesis by blast
qed

subsection \<open>Voting twice\<close>

lemma exVoting_first_vote:
  "castVoteHandler (socketOf ''alice'') ''ROOM01'' ''bob'' [''ROOM01'' \<mapsto> exVoting]
     = (Success, [''ROOM01'' \<mapsto> addVote ''bob'' (markVoted ''alice'' exVoting)])"
  by (simp add: castVoteHandler_def castVote_def socketOf_def exVoting_def exSelection_def
        entry_def seated_def noMoral_def)

lemma exVoting_second_vote:
  "castVoteHandler (socketOf ''alice'') ''ROOM01'' ''bob''
       [''ROOM01'' \<mapsto> addVote ''bob'' (markVoted ''alice'' exVoting)]
     = (Success, [''ROOM01'' \<mapsto>
          addVote ''bob'' (markVoted ''alice'' (addVote ''bob'' (markVoted ''alice'' exVoting)))])"
  by (simp add: castVoteHandler_def castVote_def socketOf_def exVoting_def exSelection_def
        entry_def seated_def noMoral_def addVote_def markVoted_def)

text \<open>
  Claim C1, evaluated: in the VOTING round above alice votes for bob twice through the
  \<^verbatim>\<open>castVote\<close> handler. Both requests are acknowledged with success; after the first bob has
  one vote and alice is the only voter on record, after the second bob has two votes.
\<close>

theorem castVote_second_vote_counted:
  "fst (castVoteHandler (socketOf ''alice'') ''ROOM01'' ''bob'' [''ROOM01'' \<mapsto> exVoting]) = Success
   \<and> voteCounts (snd (castVoteHandler (socketOf ''alice'') ''ROOM01'' ''bob'' [''ROOM01'' \<mapsto> exVoting])) ''ROOM01''
       = [(''alice'', 0), (''bob'', 1), (''ai1'', 0), (''ai2'', 0), (''ai3'', 0)]
   \<and> votedIds (snd (castVoteHandler (socketOf ''alice'') ''ROOM01'' ''bob'' [''ROOM01'' \<mapsto> exVoting])) ''ROOM01''
       = [''alice'']
   \<and> fst (castVoteHandler (socketOf ''alice'') ''ROOM01'' ''bob''
            (snd (castVoteHandler (socketOf ''alice'') ''ROOM01'' ''bob'' [''ROOM01'' \<mapsto> exVoting])))
       = Success
   \<and> voteCounts (snd (castVoteHandler (socketOf ''alice'') ''ROOM01'' ''bob''
            (snd (castVoteHandler (socketOf ''alice'') ''ROOM01'' ''bob'' [''ROOM01'' \<mapsto> exVoting])))) ''ROOM01''
       = [(''alice'', 0), (''bob'', 2), (''ai1'', 0), (''ai2'', 0), (''ai3'', 0)]
   \<and> votedIds (snd (castVoteHandler (socketOf ''alice'') ''ROOM01'' ''bob''
            (snd (castVoteHandler (socketOf ''alice'') ''ROOM01'' ''bob'' [''ROOM01'' \<mapsto> exVoting])))) ''ROOM01''
       = [''alice'']"
  unfolding exVoting_first_vote exVoting_second_vote fst_conv snd_conv
  by (simp add: voteCounts_def votedIds_def addVote_def markVoted_def exVoting_def exSelection_def
        entry_def seated_def)

subsection \<open>Votes and voters\<close>

lemma votes_after_inc:
  "list_ex P xs \<Longrightarrow>
     sum_list (map votes (updFirst P (\<lambda>s. s\<lparr> votes := votes s + 1 \<rparr>) xs)) = sum_list (map votes xs) + 1"
  by (induction xs) auto

lemma voted_after_inc:
  "(\<And>x. hasVoted (f x) = hasVoted x) \<Longrightarrow>
     length (filter hasVoted (updFirst P f xs)) = length (filter hasVoted xs)"
  by (induction xs) auto

lemma length_updFirst [simp]: "length (updFirst P f xs) = length xs"
  by (induction xs) auto

lemma votes_after_mark:
  "map votes (updFirst P (\<lambda>s. s\<lparr> hasVoted := True \<rparr>) xs) = map votes xs"
  by (induction xs) auto

lemma voted_after_mark:
  "List.find P xs = Some s \<Longrightarrow> \<not> hasVoted s \<Longrightarrow>
     length (filter hasVoted (updFirst P (\<lambda>s. s\<lparr> hasVoted := True \<rparr>) xs))
       = length (filter hasVoted xs) + 1"
  by (induction xs) (auto split: if_splits)

lemma find_updFirst_other:
  "(\<And>x. Q (f x) = Q x) \<Longrightarrow> list_ex Q (updFirst P f xs) = list_ex Q xs"
  by (induction xs) auto

lemma find_Some_list_ex: "List.find P xs = Some s \<Longrightarrow> list_ex P xs"
  by (induction xs) (auto split: if_splits)

lemma list_ex_find: "list_ex P xs \<Longrightarrow> \<exists>s. List.find P xs = Some s"
  by (induction xs) auto

text \<open>A first vote: the voter's flag and the votee's count both go up by one.\<close>

lemma vote_step_keeps:
  assumes inv: "votesMatchVoters g"
    and voter: "List.find (\<lambda>s. playerId s = voterId) (submissions (game_round g)) = Some vs"
    and fresh: "\<not> hasVoted vs"
    and votee: "list_ex (\<lambda>s. playerId s = votedForId) (submissions (game_round g))"
  shows "votesMatchVoters (addVote votedForId (markVoted voterId g))"
proof -
  let ?subs = "submissions (game_round g)"
  let ?marked = "updFirst (\<lambda>s. playerId s = voterId) (\<lambda>s. s\<lparr> hasVoted := True \<rparr>) ?subs"
  have m: "submissions (game_round (markVoted voterId g)) = ?marked"
    using voter by (simp add: markVoted_def)
  have ex: "list_ex (\<lambda>s. playerId s = votedForId) ?marked"
    using votee by (simp add: find_updFirst_other)
  have s: "sum_list (map votes (updFirst (\<lambda>s. playerId s = votedForId) (\<lambda>s. s\<lparr> votes := votes s + 1 \<rparr>) ?marked))
             = sum_list (map votes ?subs) + 1"
    using votes_after_inc[OF ex] by (simp add: votes_after_mark)
  have c: "length (filter hasVoted (updFirst (\<lambda>s. playerId s = votedForId) (\<lambda>s. s\<lparr> votes := votes s + 1 \<rparr>) ?marked))
             = length (filter hasVoted ?subs) + 1"
    using voted_after_mark[OF voter fresh] by (simp add: voted_after_inc)
  show ?thesis
    using inv s c by (simp add: votesMatchVoters_def addVote_def m)
qed

lemma votesMatchVoters_assembleStory: "votesMatchVoters (assembleStory g)"
proof -
  have "\<And>ps. sum_list (map votes (map freshSubmission ps)) = 0
            \<and> filter hasVoted (map freshSubmission ps) = []"
  proof -
    fix ps :: "player list"
    show "sum_list (map votes (map freshSubmission ps)) = 0
            \<and> filter hasVoted (map freshSubmission ps) = []"
      by (induction ps) (simp_all add: freshSubmission_def)
  qed
  then show ?thesis by (simp add: votesMatchVoters_def assembleStory_def)
qed

lemma castVote_success:
  "castVote gs gid voterId votedForId = (True, gs') \<Longrightarrow> gs gid = Some g \<Longrightarrow>
     list_ex (\<lambda>s. playerId s = votedForId) (submissions (game_round g))
     \<and> gs' = gs(gid \<mapsto> addVote votedForId (markVoted voterId g))"
  by (auto simp: castVote_def split: option.splits if_splits dest: find_Some_list_ex)

subsection \<open>simulateAIVote\<close>

lemma voteWeight_spec: "voteWeight A ps s = specWeight A ps s"
  by (cases "moral s")
     (simp_all add: voteWeight_def specWeight_def humanBonus_def voteeIsHuman_def lengthFactor_def
        underdogFactor_def noMoral_def Let_def split: option.splits)

lemma remaining_Cons: "remaining A x (w # ws) (Suc k) = remaining A (fsub A x w) ws k"
  by (simp add: remaining_def)

lemma pickLoop_Some:
  "pickLoop A x ws k = Some i \<Longrightarrow>
     \<exists>j. i = k + j \<and> j < length ws \<and> fle0 A (remaining A x ws (Suc j))
         \<and> (\<forall>l<j. \<not> fle0 A (remaining A x ws (Suc l)))"
proof (induction ws arbitrary: x k)
  case Nil
  then show ?case by simp
next
  case (Cons w ws)
  show ?case
  proof (cases "fle0 A (fsub A x w)")
    case True
    with Cons.prems have "i = k" by simp
    with True show ?thesis by (intro exI[of _ 0]) (simp add: remaining_def)
  next
    case False
    with Cons.prems have "pickLoop A (fsub A x w) ws (Suc k) = Some i" by simp
    from Cons.IH[OF this] obtain j where j: "i = Suc k + j" "j < length ws"
      "fle0 A (remaining A (fsub A x w) ws (Suc j))"
      "\<forall>l<j. \<not> fle0 A (remaining A (fsub A x w) ws (Suc l))"
      by blast
    have "\<forall>l<Suc j. \<not> fle0 A (remaining A x (w # ws) (Suc l))"
    proof (intro allI impI)
      fix l assume l: "l < Suc j"
      show "\<not> fle0 A (remaining A x (w # ws) (Suc l))"
      proof (cases l)
        case 0
        with False show ?thesis by (simp add: remaining_def)
      next
        case (Suc l')
        with l j(4) have "\<not> fle0 A (remaining A (fsub A x w) ws (Suc l'))" by simp
        with Suc show ?thesis by (simp add: remaining_Cons)
      qed
    qed
    with j show ?thesis by (intro exI[of _ "Suc j"]) (simp add: remaining_Cons)
  qed
qed


text \<open>With the exact arithmetic of the reals.\<close>

lemma exact_ops [simp]:
  "fnum exactArith n = real n" "fhalf exactArith = 1 / 2" "fthreeHalves exactArith = 3 / 2"
  "fmul exactArith x y = x * y" "fdiv exactArith x y = x / y" "fadd exactArith x y = x + y"
  "fsub exactArith x y = x - y" "fmin exactArith x y = min x y" "fle0 exactArith x = (x \<le> 0)"
  "ffloorIndex exactArith x = (if 0 \<le> x then Some (nat \<lfloor>x\<rfloor>) else None)"
  by (simp_all add: exactArith_def)

lemma specWeight_pos: "0 < specWeight exactArith ps s"
proof -
  have a: "0 < humanBonus exactArith ps s" by (simp add: humanBonus_def)
  have b: "0 < lengthFactor exactArith s"
    by (cases "moral s") (simp_all add: lengthFactor_def)
  have c: "0 < underdogFactor exactArith s"
    by (simp add: underdogFactor_def add_pos_nonneg)
  show ?thesis unfolding specWeight_def using a b c by simp
qed

lemma foldl_add: "foldl (fadd exactArith) a ws = a + sum_list ws"
  by (induction ws arbitrary: a) simp_all

lemma foldl_sub: "foldl (fsub exactArith) a ws = a - sum_list ws"
  by (induction ws arbitrary: a) simp_all

lemma remaining_exact: "remaining exactArith x ws k = x - sum_list (take k ws)"
  by (simp add: remaining_def foldl_sub)

lemma pickLoop_total:
  "ws \<noteq> [] \<Longrightarrow> x \<le> sum_list ws \<Longrightarrow> \<forall>w \<in> set ws. 0 < w \<Longrightarrow> \<exists>i. pickLoop exactArith x ws k = Some i"
proof (induction ws arbitrary: x k)
  case Nil
  then show ?case by simp
next
  case (Cons w ws)
  show ?case
  proof (cases "x - w \<le> 0")
    case True
    then show ?thesis by simp
  next
    case False
    with Cons.prems(2) have "0 < sum_list ws" by simp
    then have ne: "ws \<noteq> []" by auto
    have "x - w \<le> sum_list ws" using Cons.prems(2) by simp
    from Cons.IH[OF ne this] Cons.prems(3) False show ?thesis by simp
  qed
qed

lemma sum_list_pos: "ws \<noteq> [] \<Longrightarrow> \<forall>w \<in> set ws. 0 < (w::real) \<Longrightarrow> 0 < sum_list ws"
  by (induction ws) (auto intro: add_pos_nonneg sum_list_nonneg less_imp_le)

lemma simulateAIVote_None:
  "(simulateAIVote A subs aid ps r r2 = Inr None) = (filter (\<lambda>s. playerId s \<noteq> aid) subs = [])"
  by (simp add: simulateAIVote_def Let_def split: option.splits)

text \<open>Whatever the arithmetic, a returned id is the id of a submission of another player.\<close>

lemma simulateAIVote_votee:
  assumes "simulateAIVote A subs aid ps r r2 = Inr (Some v)"
  shows "\<exists>i < length (filter (\<lambda>s. playerId s \<noteq> aid) subs).
           v = playerId (filter (\<lambda>s. playerId s \<noteq> aid) subs ! i)"
proof -
  let ?vs = "filter (\<lambda>s. playerId s \<noteq> aid) subs"
  let ?ws = "map (voteWeight A ps) ?vs"
  let ?x = "fmul A r (foldl (fadd A) (fnum A 0) ?ws)"
  from assms have ne: "?vs \<noteq> []"
    by (auto simp: simulateAIVote_def Let_def)
  show ?thesis
  proof (cases "pickLoop A ?x ?ws 0")
    case (Some i)
    from pickLoop_Some[OF Some] have "i < length ?vs" by auto
    moreover from assms ne Some have "v = playerId (?vs ! i)"
      by (simp add: simulateAIVote_def Let_def)
    ultimately show ?thesis by blast
  next
    case None
    with assms ne obtain k where "k < length ?vs" "v = playerId (?vs ! k)"
      by (auto simp: simulateAIVote_def Let_def split: option.splits if_splits)
    then show ?thesis by blast
  qed
qed

lemma simulateAIVote_not_self:
  assumes "simulateAIVote A subs aid ps r r2 = Inr (Some v)"
  shows "v \<noteq> aid \<and> (\<exists>s \<in> set subs. playerId s = v)"
proof -
  let ?vs = "filter (\<lambda>s. playerId s \<noteq> aid) subs"
  from simulateAIVote_votee[OF assms] obtain i where i: "i < length ?vs" "v = playerId (?vs ! i)"
    by blast
  have "?vs ! i \<in> set ?vs" using i(1) by (rule nth_mem)
  then have "playerId (?vs ! i) \<noteq> aid" "?vs ! i \<in> set subs" by simp_all
  with i(2) show ?thesis by auto
qed

text \<open>
  With exact arithmetic and a draw in \<open>[0, 1)\<close> the loop always finds a position, the first
  one at which the running sum of the weights reaches the draw times their total, so that
  a candidate is chosen with the probability of its share of the total weight.
\<close>

lemma simulateAIVote_exact:
  assumes r: "0 \<le> r" "r < 1" and ne: "filter (\<lambda>s. playerId s \<noteq> aid) subs \<noteq> []"
  shows "\<exists>i < length (filter (\<lambda>s. playerId s \<noteq> aid) subs).
           simulateAIVote exactArith subs aid ps r r2
             = Inr (Some (playerId (filter (\<lambda>s. playerId s \<noteq> aid) subs ! i)))
         \<and> r * sum_list (map (specWeight exactArith ps) (filter (\<lambda>s. playerId s \<noteq> aid) subs))
              \<le> sum_list (take (Suc i) (map (specWeight exactArith ps) (filter (\<lambda>s. playerId s \<noteq> aid) subs)))
         \<and> (\<forall>l<i. sum_list (take (Suc l) (map (specWeight exactArith ps) (filter (\<lambda>s. playerId s \<noteq> aid) subs)))
                   < r * sum_list (map (specWeight exactArith ps) (filter (\<lambda>s. playerId s \<noteq> aid) subs)))"
proof -
  let ?vs = "filter (\<lambda>s. playerId s \<noteq> aid) subs"
  let ?ws = "map (specWeight exactArith ps) ?vs"
  have wne: "?ws \<noteq> []" using ne by simp
  have pos: "\<forall>w \<in> set ?ws. 0 < w" by (auto simp: specWeight_pos)
  have tot: "0 < sum_list ?ws" using sum_list_pos[OF wne pos] .
  have le: "r * sum_list ?ws \<le> sum_list ?ws"
    using r tot by (simp add: mult_le_cancel_right1)
  from pickLoop_total[OF wne le pos, of 0] obtain i where
    i: "pickLoop exactArith (r * sum_list ?ws) ?ws 0 = Some i"
    by blast
  from pickLoop_Some[OF i] have p: "i < length ?ws"
      "r * sum_list ?ws \<le> sum_list (take (Suc i) ?ws)"
      "\<forall>l<i. sum_list (take (Suc l) ?ws) < r * sum_list ?ws"
    by (auto simp: remaining_exact not_le)
  have w: "map (voteWeight exactArith ps) ?vs = ?ws" by (simp add: voteWeight_spec)
  have "simulateAIVote exactArith subs aid ps r r2 = Inr (Some (playerId (?vs ! i)))"
    using ne i by (simp add: simulateAIVote_def Let_def w foldl_add)
  with p show ?thesis by (intro exI[of _ i]) simp
qed


lemma exVoting_subs:
  "submissions (game_round exVoting) =
     [entry ''alice'' 1 ''Look before you leap.'', entry ''bob'' 11 ''Never trust a mirror.'',
      entry ''ai1'' 21 ''Time waits for no one.'', entry ''ai2'' 31 ''Doors open both ways.'',
      entry ''ai3'' 41 ''Silence answers too.'']"
  by (simp add: exVoting_def)

lemma exVoting_ai1_vote:
  "simulateAIVote exactArith (submissions (game_round exVoting)) ''ai1'' (players exVoting) (1 / 2) 0
     = Inr (Some ''bob'')"
  by (simp add: exVoting_subs simulateAIVote_def voteWeight_def entry_def noMoral_def
        exVoting_def exSelection_def seated_def)



lemma votesMatchVoters_round:
  "game_round g' = game_round g \<Longrightarrow> votesMatchVoters g' = votesMatchVoters g"
  by (simp add: votesMatchVoters_def)

lemma filter_others_updFirst:
  "(\<And>x. playerId (f x) = playerId x) \<Longrightarrow>
     filter (\<lambda>s. playerId s \<noteq> aid) (updFirst (\<lambda>s. playerId s = aid) f xs)
       = filter (\<lambda>s. playerId s \<noteq> aid) xs"
  by (induction xs) auto

lemma ids_updFirst:
  "(\<And>x. playerId (f x) = playerId x) \<Longrightarrow> map playerId (updFirst P f xs) = map playerId xs"
  by (induction xs) auto

lemma list_ex_playerId: "s \<in> set xs \<Longrightarrow> list_ex (\<lambda>t. playerId t = playerId s) xs"
  by (auto simp: list_ex_iff)

text \<open>
  The call of \<^verbatim>\<open>simulateAIVote\<close> in the callback sees the flags that the callback has just
  set; they do not change what it returns.
\<close>

lemma isHuman_updFirst:
  "(\<And>x. player_id (f x) = player_id x) \<Longrightarrow> (\<And>x. isAI (f x) = isAI x) \<Longrightarrow>
     (case List.find (\<lambda>p. player_id p = i) (updFirst P f ps) of None \<Rightarrow> False | Some p \<Rightarrow> \<not> isAI p)
       = (case List.find (\<lambda>p. player_id p = i) ps of None \<Rightarrow> False | Some p \<Rightarrow> \<not> isAI p)"
  by (induction ps) auto

lemma voteWeight_updFirst:
  "(\<And>x. player_id (f x) = player_id x) \<Longrightarrow> (\<And>x. isAI (f x) = isAI x) \<Longrightarrow>
     voteWeight A (updFirst P f ps) = voteWeight A ps"
  by (rule ext) (simp add: voteWeight_def isHuman_updFirst)

lemma voteWeight_prepareVote: "voteWeight A (players (prepareVote aid g)) = voteWeight A (players g)"
  by (simp add: prepareVote_def markVoted_def voteWeight_updFirst split: option.splits)

lemma others_prepareVote:
  "filter (\<lambda>s. playerId s \<noteq> aid) (submissions (game_round (prepareVote aid g)))
     = filter (\<lambda>s. playerId s \<noteq> aid) (submissions (game_round g))"
  by (simp add: prepareVote_def markVoted_def filter_others_updFirst split: option.splits)

lemma simulateAIVote_prepareVote:
  "simulateAIVote A (submissions (game_round (prepareVote aid g))) aid (players (prepareVote aid g)) r r2
     = simulateAIVote A (submissions (game_round g)) aid (players g) r r2"
  unfolding simulateAIVote_def others_prepareVote voteWeight_prepareVote ..

text \<open>
  The vote of a simulated player that has not voted and has a candidate to vote for, when
  the call of \<^verbatim>\<open>simulateAIVote\<close> does not raise.
\<close>

lemma aiVote_keeps:
  assumes inv: "votesMatchVoters g"
    and own: "List.find (\<lambda>s. playerId s = aid) (submissions (game_round g)) = Some a"
    and fresh: "\<not> hasVoted a"
    and other: "\<exists>s \<in> set (submissions (game_round g)). playerId s \<noteq> aid"
    and ids: "\<forall>s \<in> set (submissions (game_round g)). playerId s \<noteq> []"
    and ret: "simulateAIVote A (submissions (game_round g)) aid (players g) r r2 = Inr res"
  shows "votesMatchVoters (aiVote A r r2 aid g)"
proof -
  let ?subs = "submissions (game_round g)"
  let ?g0 = "g\<lparr> players := updFirst (\<lambda>p. player_id p = aid) (\<lambda>p. p\<lparr> isThinking := True \<rparr>) (players g) \<rparr>"
  let ?g1 = "markVoted aid ?g0"
  let ?marked = "submissions (game_round ?g1)"
  let ?vs = "filter (\<lambda>s. playerId s \<noteq> aid) ?subs"
  have g1: "prepareVote aid g = ?g1" by (simp add: prepareVote_def)
  have m: "?marked = updFirst (\<lambda>s. playerId s = aid) (\<lambda>s. s\<lparr> hasVoted := True \<rparr>) ?subs"
    using own by (simp add: markVoted_def)
  have ne: "?vs \<noteq> []"
    using other by (auto simp: filter_empty_conv)
  have "res \<noteq> None"
    using ret ne simulateAIVote_None[of A ?subs aid "players g" r r2] by auto
  then obtain v where v: "res = Some v" by auto
  from ret v have sim0: "simulateAIVote A ?subs aid (players g) r r2 = Inr (Some v)" by simp
  from simulateAIVote_not_self[OF sim0] obtain s where s: "s \<in> set ?subs" "playerId s = v"
    by blast
  have sim: "simulateAIVote A ?marked aid (players ?g1) r r2 = Inr (Some v)"
    using sim0 simulateAIVote_prepareVote[of A aid g r r2] unfolding g1 by simp
  have v_ne: "v \<noteq> []" using ids s by auto
  have ex0: "list_ex (\<lambda>s. playerId s = v) ?subs"
    using s by (auto simp: list_ex_iff)
  have "list_ex (\<lambda>s. playerId s = v)
          (updFirst (\<lambda>s. playerId s = aid) (\<lambda>s. s\<lparr> hasVoted := True \<rparr>) ?subs)"
    using ex0 by (simp add: find_updFirst_other)
  then have ex: "list_ex (\<lambda>s. playerId s = v) ?marked"
    using m by simp
  then obtain sub where sub: "List.find (\<lambda>s. playerId s = v) ?marked = Some sub"
    using list_ex_find by blast
  have rd: "game_round (aiVote A r r2 aid g) = game_round (addVote v ?g1)"
    unfolding aiVote_def landVote_def Let_def g1 using sim v_ne sub by simp
  have k: "votesMatchVoters (addVote v ?g1)"
  proof (rule vote_step_keeps)
    show "votesMatchVoters ?g0" using inv by (simp add: votesMatchVoters_def)
    show "List.find (\<lambda>s. playerId s = aid) (submissions (game_round ?g0)) = Some a"
      using own by simp
    show "\<not> hasVoted a" by (rule fresh)
    show "list_ex (\<lambda>s. playerId s = v) (submissions (game_round ?g0))"
      using ex0 by simp
  qed
  show ?thesis using k votesMatchVoters_round[OF rd] by simp
qed

text \<open>With exact arithmetic a draw in \<open>[0, 1)\<close> is enough: the call always returns.\<close>

lemma aiVote_keeps_exact:
  assumes inv: "votesMatchVoters g"
    and own: "List.find (\<lambda>s. playerId s = aid) (submissions (game_round g)) = Some a"
    and fresh: "\<not> hasVoted a"
    and other: "\<exists>s \<in> set (submissions (game_round g)). playerId s \<noteq> aid"
    and ids: "\<forall>s \<in> set (submissions (game_round g)). playerId s \<noteq> []"
    and r: "0 \<le> r" "r < 1"
  shows "votesMatchVoters (aiVote exactArith r r2 aid g)"
proof -
  have ne: "filter (\<lambda>s. playerId s \<noteq> aid) (submissions (game_round g)) \<noteq> []"
    using other by (auto simp: filter_empty_conv)
  from simulateAIVote_exact[OF r ne, of "players g" r2] obtain res where
    "simulateAIVote exactArith (submissions (game_round g)) aid (players g) r r2 = Inr res"
    by blast
  with inv own fresh other ids show ?thesis by (rule aiVote_keeps)
qed

text \<open>
  Claim C2, as amended. The sum of the vote counts equals the number of submissions flagged
  as having voted when \<^verbatim>\<open>assembleStory\<close> has created the submissions, and the equality
  is preserved by every successful \<^verbatim>\<open>castVote\<close> of a voter whose submission is not yet
  flagged, and by every vote of a simulated player whose submission is not yet flagged and
  who has another player's submission to vote for (ids are not empty, and the call of
  \<^verbatim>\<open>simulateAIVote\<close> returns, as it does whenever its loop finds a position or the position
  of its fallback is inside the array; with exact arithmetic every draw in \<open>[0, 1)\<close> is such
  a case, by \<open>simulateAIVote_exact\<close>).
\<close>

theorem votes_match_voters_first_votes:
  "votesMatchVoters (assembleStory g0)
   \<and> (votesMatchVoters g \<and> gs gid = Some g
        \<and> List.find (\<lambda>s. playerId s = voterId) (submissions (game_round g)) = Some vs
        \<and> \<not> hasVoted vs \<and> castVote gs gid voterId votedForId = (True, gs')
       \<longrightarrow> (\<exists>g'. gs' gid = Some g' \<and> votesMatchVoters g'))
   \<and> (votesMatchVoters g
        \<and> List.find (\<lambda>s. playerId s = aid) (submissions (game_round g)) = Some a
        \<and> \<not> hasVoted a
        \<and> (\<exists>s \<in> set (submissions (game_round g)). playerId s \<noteq> aid)
        \<and> (\<forall>s \<in> set (submissions (game_round g)). playerId s \<noteq> [])
        \<and> simulateAIVote A (submissions (game_round g)) aid (players g) r r2 = Inr res
       \<longrightarrow> votesMatchVoters (aiVote A r r2 aid g))"
proof (intro conjI impI)
  show "votesMatchVoters (assembleStory g0)" by (rule votesMatchVoters_assembleStory)
next
  assume a: "votesMatchVoters g \<and> gs gid = Some g
        \<and> List.find (\<lambda>s. playerId s = voterId) (submissions (game_round g)) = Some vs
        \<and> \<not> hasVoted vs \<and> castVote gs gid voterId votedForId = (True, gs')"
  then have c: "list_ex (\<lambda>s. playerId s = votedForId) (submissions (game_round g))"
      "gs' = gs(gid \<mapsto> addVote votedForId (markVoted voterId g))"
    using castVote_success[of gs gid voterId votedForId gs' g] by simp_all
  have "votesMatchVoters (addVote votedForId (markVoted voterId g))"
    using a c(1) vote_step_keeps[of g voterId vs votedForId] by simp
  with c(2) show "\<exists>g'. gs' gid = Some g' \<and> votesMatchVoters g'" by simp
next
  assume a: "votesMatchVoters g
        \<and> List.find (\<lambda>s. playerId s = aid) (submissions (game_round g)) = Some a
        \<and> \<not> hasVoted a
        \<and> (\<exists>s \<in> set (submissions (game_round g)). playerId s \<noteq> aid)
        \<and> (\<forall>s \<in> set (submissions (game_round g)). playerId s \<noteq> [])
        \<and> simulateAIVote A (submissions (game_round g)) aid (players g) r r2 = Inr res"
  then show "votesMatchVoters (aiVote A r r2 aid g)"
    using aiVote_keeps[of g aid a A r r2 res] by simp
qed

lemma exVoting_castVote:
  "castVote [''ROOM01'' \<mapsto> exVoting] ''ROOM01'' ''alice'' ''bob''
     = (True, [''ROOM01'' \<mapsto> addVote ''bob'' (markVoted ''alice'' exVoting)])"
  by (simp add: castVote_def exVoting_def exSelection_def entry_def seated_def)

lemma exVoting_matches: "votesMatchVoters exVoting"
  by (simp add: votesMatchVoters_def exVoting_subs entry_def)

theorem votes_match_voters_first_votes_witness:
  "(votesMatchVoters exVoting \<and> [''ROOM01'' \<mapsto> exVoting] ''ROOM01'' = Some exVoting
      \<and> List.find (\<lambda>s. playerId s = ''alice'') (submissions (game_round exVoting))
           = Some (entry ''alice'' 1 ''Look before you leap.'')
      \<and> \<not> hasVoted (entry ''alice'' 1 ''Look before you leap.'')
      \<and> castVote [''ROOM01'' \<mapsto> exVoting] ''ROOM01'' ''alice'' ''bob''
           = (True, [''ROOM01'' \<mapsto> addVote ''bob'' (markVoted ''alice'' exVoting)]))
   \<and> (\<exists>g'. [''ROOM01'' \<mapsto> addVote ''bob'' (markVoted ''alice'' exVoting)] ''ROOM01'' = Some g'
          \<and> votesMatchVoters g')
   \<and> (List.find (\<lambda>s. playerId s = ''ai1'') (submissions (game_round exVoting))
           = Some (entry ''ai1'' 21 ''Time waits for no one.'')
      \<and> \<not> hasVoted (entry ''ai1'' 21 ''Time waits for no one.'')
      \<and> (\<exists>s \<in> set (submissions (game_round exVoting)). playerId s \<noteq> ''ai1'')
      \<and> list_all (\<lambda>s. playerId s \<noteq> []) (submissions (game_round exVoting))
      \<and> simulateAIVote exactArith (submissions (game_round exVoting)) ''ai1'' (players exVoting)
            (1 / 2) 0 = Inr (Some ''bob''))
   \<and> votesMatchVoters (aiVote exactArith (1 / 2) 0 ''ai1'' exVoting)
   \<and> votesMatchVoters (assembleStory exSelection)"
proof -
  have h1: "votesMatchVoters exVoting \<and> [''ROOM01'' \<mapsto> exVoting] ''ROOM01'' = Some exVoting
      \<and> List.find (\<lambda>s. playerId s = ''alice'') (submissions (game_round exVoting))
           = Some (entry ''alice'' 1 ''Look before you leap.'')
      \<and> \<not> hasVoted (entry ''alice'' 1 ''Look before you leap.'')
      \<and> castVote [''ROOM01'' \<mapsto> exVoting] ''ROOM01'' ''alice'' ''bob''
           = (True, [''ROOM01'' \<mapsto> addVote ''bob'' (markVoted ''alice'' exVoting)])"
    by (simp add: exVoting_matches exVoting_castVote) (simp add: exVoting_subs entry_def)
  have h2: "votesMatchVoters exVoting
      \<and> List.find (\<lambda>s. playerId s = ''ai1'') (submissions (game_round exVoting))
           = Some (entry ''ai1'' 21 ''Time waits for no one.'')
      \<and> \<not> hasVoted (entry ''ai1'' 21 ''Time waits for no one.'')
      \<and> (\<exists>s \<in> set (submissions (game_round exVoting)). playerId s \<noteq> ''ai1'')
      \<and> (\<forall>s \<in> set (submissions (game_round exVoting)). playerId s \<noteq> [])
      \<and> simulateAIVote exactArith (submissions (game_round exVoting)) ''ai1'' (players exVoting)
            (1 / 2) 0 = Inr (Some ''bob'')"
    by (simp add: exVoting_matches exVoting_ai1_vote) (simp add: exVoting_subs entry_def)
  note T = votes_match_voters_first_votes[where ?g0.0 = exSelection and g = exVoting
      and gs = "[''ROOM01'' \<mapsto> exVoting]" and gid = "''ROOM01''" and voterId = "''alice''"
      and vs = "entry ''alice'' 1 ''Look before you leap.''" and votedForId = "''bob''"
      and gs' = "[''ROOM01'' \<mapsto> addVote ''bob'' (markVoted ''alice'' exVoting)]"
      and aid = "''ai1''" and a = "entry ''ai1'' 21 ''Time waits for no one.''"
      and A = exactArith and r = "1 / 2" and ?r2.0 = 0 and res = "Some ''bob''"]
  from T have c0: "votesMatchVoters (assembleStory exSelection)" by blast
  from T h1 have c1: "\<exists>g'. [''ROOM01'' \<mapsto> addVote ''bob'' (markVoted ''alice'' exVoting)] ''ROOM01'' = Some g'
          \<and> votesMatchVoters g'" by blast
  from T h2 have c2: "votesMatchVoters (aiVote exactArith (1 / 2) 0 ''ai1'' exVoting)" by blast
  from h2 have h2': "List.find (\<lambda>s. playerId s = ''ai1'') (submissions (game_round exVoting))
           = Some (entry ''ai1'' 21 ''Time waits for no one.'')
      \<and> \<not> hasVoted (entry ''ai1'' 21 ''Time waits for no one.'')
      \<and> (\<exists>s \<in> set (submissions (game_round exVoting)). playerId s \<noteq> ''ai1'')
      \<and> list_all (\<lambda>s. playerId s \<noteq> []) (submissions (game_round exVoting))
      \<and> simulateAIVote exactArith (submissions (game_round exVoting)) ''ai1'' (players exVoting)
            (1 / 2) 0 = Inr (Some ''bob'')"
    by (simp add: list_all_iff)
  from h1 h2' c0 c1 c2 show ?thesis by blast
qed

text \<open>
  Claim C2 as stated fails: in the VOTING round above alice votes for bob, then bob leaves.
  \<^verbatim>\<open>removePlayer\<close> deletes bob's submission together with the vote it received, so the
  remaining vote counts sum to 0 while alice's submission stays flagged as having voted.
\<close>

theorem votes_match_voters_counterexample:
  "votesMatchVoters exVoting
   \<and> fst (castVote [''ROOM01'' \<mapsto> exVoting] ''ROOM01'' ''alice'' ''bob'') = True
   \<and> fst (removePlayer (snd (castVote [''ROOM01'' \<mapsto> exVoting] ''ROOM01'' ''alice'' ''bob''))
            ''ROOM01'' ''bob'') = True
   \<and> voteCounts (snd (removePlayer (snd (castVote [''ROOM01'' \<mapsto> exVoting] ''ROOM01'' ''alice'' ''bob''))
            ''ROOM01'' ''bob'')) ''ROOM01''
       = [(''alice'', 0), (''ai1'', 0), (''ai2'', 0), (''ai3'', 0)]
   \<and> votedIds (snd (removePlayer (snd (castVote [''ROOM01'' \<mapsto> exVoting] ''ROOM01'' ''alice'' ''bob''))
            ''ROOM01'' ''bob'')) ''ROOM01''
       = [''alice'']
   \<and> \<not> votesMatchVoters (the (snd (removePlayer
            (snd (castVote [''ROOM01'' \<mapsto> exVoting] ''ROOM01'' ''alice'' ''bob''))
            ''ROOM01'' ''bob'') ''ROOM01''))"
proof -
  have rm: "removePlayer [''ROOM01'' \<mapsto> addVote ''bob'' (markVoted ''alice'' exVoting)] ''ROOM01'' ''bob''
      = (True, [''ROOM01'' \<mapsto> (addVote ''bob'' (markVoted ''alice'' exVoting))
           \<lparr> players := splice1 1 (players (markVoted ''alice'' exVoting)),
             game_round := (game_round (addVote ''bob'' (markVoted ''alice'' exVoting)))
               \<lparr> submissions := splice1 1 (submissions (game_round (addVote ''bob'' (markVoted ''alice'' exVoting)))) \<rparr> \<rparr>])"
    by (simp add: removePlayer_def afterRemoval_def Let_def addVote_def markVoted_def exVoting_def
          exSelection_def entry_def seated_def splice1_def)
  show ?thesis
    unfolding exVoting_castVote fst_conv snd_conv rm
    by (simp add: exVoting_matches)
       (simp add: voteCounts_def votedIds_def votesMatchVoters_def addVote_def markVoted_def
          exVoting_def exSelection_def entry_def seated_def splice1_def)
qed

subsection \<open>Leaving an active game\<close>

lemma map_updFirst_inv: "(\<And>x. h (f x) = h x) \<Longrightarrow> map h (updFirst P f xs) = map h xs"
  by (induction xs) auto

lemma sansHost_assignNewHost: "map sansHost (assignNewHost ps) = map sansHost ps"
  by (cases ps) (simp_all add: assignNewHost_def map_updFirst_inv sansHost_def)

lemma sansHost_fields:
  "map sansHost ps = map sansHost qs \<Longrightarrow>
     map player_id ps = map player_id qs \<and> map isAI ps = map isAI qs
     \<and> length ps = length qs"
proof -
  assume e: "map sansHost ps = map sansHost qs"
  have "map (player_id \<circ> sansHost) ps = map (player_id \<circ> sansHost) qs"
    using e by (metis map_map)
  moreover have "map (isAI \<circ> sansHost) ps = map (isAI \<circ> sansHost) qs"
    using e by (metis map_map)
  moreover have "length ps = length qs" using e by (rule map_eq_imp_length_eq)
  ultimately show ?thesis by (simp add: comp_def sansHost_def)
qed

lemma status_afterRemoval:
  "status (afterRemoval pid g) =
     (if list_ex (\<lambda>p. \<not> isAI p) (players g) then status g else COMPLETED)"
  by (simp add: afterRemoval_def Let_def assembleStory_def setRoundStatus_def split: option.splits)

lemma length_splice1: "i < length xs \<Longrightarrow> length (splice1 i xs) + 1 = length xs"
  by (simp add: splice1_def)

lemma splice1_not_mem:
  "i < length xs \<Longrightarrow> distinct (map f xs) \<Longrightarrow> f (xs ! i) \<notin> set (map f (splice1 i xs))"
proof -
  assume i: "i < length xs" and d: "distinct (map f xs)"
  have "xs = take i xs @ (xs ! i) # drop (Suc i) xs" using i by (rule id_take_nth_drop)
  then have "distinct (map f (take i xs @ (xs ! i) # drop (Suc i) xs))" using d by simp
  then show ?thesis by (auto simp: splice1_def)
qed

lemma findIndex_None_set: "findIndex P xs = None \<Longrightarrow> \<forall>x \<in> set xs. \<not> P x"
  by (induction xs) (auto split: option.splits if_splits)

lemma submissions_afterRemoval_ids:
  assumes "distinct (map playerId (submissions (game_round g)))"
    and "pid \<notin> set (map player_id (players g))"
  shows "pid \<notin> set (map playerId (submissions (game_round (afterRemoval pid g))))"
proof -
  let ?subs = "submissions (game_round g)"
  have fresh: "\<And>ps. pid \<notin> set (map player_id ps) \<Longrightarrow> pid \<notin> set (map playerId (map freshSubmission ps))"
    by (auto simp: freshSubmission_def)
  have cut: "pid \<notin> set (map playerId
               (case findIndex (\<lambda>s. playerId s = pid) ?subs of None \<Rightarrow> ?subs | Some j \<Rightarrow> splice1 j ?subs))"
  proof (cases "findIndex (\<lambda>s. playerId s = pid) ?subs")
    case None
    then show ?thesis using findIndex_None_set[OF None] by auto
  next
    case (Some j)
    from findIndex_Some[OF Some] have j: "j < length ?subs" "playerId (?subs ! j) = pid" by simp_all
    from splice1_not_mem[OF j(1) assms(1)] j(2) Some show ?thesis by simp
  qed
  show ?thesis
    using cut fresh[OF assms(2)]
    by (auto simp: afterRemoval_def Let_def assembleStory_def setRoundStatus_def split: option.splits)
qed

text \<open>
  Claim C3, as amended. When a player of an active game leaves and other players remain,
  \<^verbatim>\<open>removePlayer\<close> succeeds and deletes the player: the player list is the old list without
  the leaver's entry, no stand-in is added, and every remaining player is unchanged except
  possibly for the host flag. The game stays active exactly when a human remains, and is
  completed otherwise. With distinct ids, no player and no submission with the leaver's id
  remains.
\<close>

theorem removePlayer_deletes_participant:
  assumes "gs gid = Some g"
    and "findIndex (\<lambda>p. player_id p = pid) (players g) = Some i"
    and "status g = ACTIVE"
    and "splice1 i (players g) \<noteq> []"
  shows "\<exists>g'. removePlayer gs gid pid = (True, gs(gid \<mapsto> g'))
           \<and> map sansHost (players g') = map sansHost (splice1 i (players g))
           \<and> length (players g') + 1 = length (players g)
           \<and> status g' = (if list_ex (\<lambda>p. \<not> isAI p) (splice1 i (players g)) then ACTIVE else COMPLETED)
           \<and> (distinct (map player_id (players g))
                \<and> distinct (map playerId (submissions (game_round g)))
               \<longrightarrow> pid \<notin> set (map player_id (players g'))
                   \<and> pid \<notin> set (map playerId (submissions (game_round g'))))"
proof -
  let ?rest = "splice1 i (players g)"
  let ?rest' = "if isHost (players g ! i) \<and> ?rest \<noteq> [] then assignNewHost ?rest else ?rest"
  let ?g1 = "g\<lparr> players := ?rest' \<rparr>"
  let ?g' = "afterRemoval pid ?g1"
  from findIndex_Some[OF assms(2)] have i: "i < length (players g)" "player_id (players g ! i) = pid"
    by simp_all
  have sh: "map sansHost ?rest' = map sansHost ?rest"
    by (simp add: sansHost_assignNewHost)
  from sansHost_fields[OF sh] have f: "map player_id ?rest' = map player_id ?rest"
      "map isAI ?rest' = map isAI ?rest" "length ?rest' = length ?rest"
    by simp_all
  have ne: "?rest' \<noteq> []"
    using hostOk_assignNewHost[OF assms(4)] assms(4) by simp
  have rp: "removePlayer gs gid pid = (True, gs(gid \<mapsto> ?g'))"
    using assms(1,2,3) ne by (simp add: removePlayer_def Let_def)
  have p: "players ?g' = ?rest'" by simp
  have hum: "list_ex (\<lambda>p. \<not> isAI p) ?rest' = list_ex (\<lambda>p. \<not> isAI p) ?rest"
  proof -
    have "list_ex (\<lambda>p. \<not> isAI p) ?rest' = list_ex (\<lambda>b. \<not> b) (map isAI ?rest')"
      by (simp add: list_ex_iff)
    also have "\<dots> = list_ex (\<lambda>b. \<not> b) (map isAI ?rest)" by (simp only: f(2))
    also have "\<dots> = list_ex (\<lambda>p. \<not> isAI p) ?rest" by (simp add: list_ex_iff)
    finally show ?thesis .
  qed
  have st: "status ?g' = (if list_ex (\<lambda>p. \<not> isAI p) ?rest then ACTIVE else COMPLETED)"
    using hum assms(3) by (simp add: status_afterRemoval)
  have len: "length (players ?g') + 1 = length (players g)"
    using f(3) length_splice1[OF i(1)] by (simp only: p)
  have ids: "distinct (map player_id (players g)) \<and> distinct (map playerId (submissions (game_round g)))
               \<longrightarrow> pid \<notin> set (map player_id (players ?g'))
                   \<and> pid \<notin> set (map playerId (submissions (game_round ?g')))"
  proof (intro impI, elim conjE)
    assume d: "distinct (map player_id (players g))"
       and ds: "distinct (map playerId (submissions (game_round g)))"
    have a: "pid \<notin> set (map player_id ?rest')"
      unfolding f(1) using splice1_not_mem[OF i(1) d] i(2) by simp
    have b: "pid \<notin> set (map playerId (submissions (game_round ?g')))"
    proof (rule submissions_afterRemoval_ids)
      show "distinct (map playerId (submissions (game_round ?g1)))" using ds by simp
      show "pid \<notin> set (map player_id (players ?g1))" using a by simp
    qed
    show "pid \<notin> set (map player_id (players ?g')) \<and> pid \<notin> set (map playerId (submissions (game_round ?g')))"
      using a b by (simp only: p) simp
  qed
  have sh': "map sansHost (players ?g') = map sansHost ?rest"
    unfolding p by (rule sh)
  show ?thesis
  proof (rule exI[of _ ?g'], intro conjI)
    show "removePlayer gs gid pid = (True, gs(gid \<mapsto> ?g'))" by (rule rp)
    show "map sansHost (players ?g') = map sansHost ?rest" by (rule sh')
    show "length (players ?g') + 1 = length (players g)" by (rule len)
    show "status ?g' = (if list_ex (\<lambda>p. \<not> isAI p) ?rest then ACTIVE else COMPLETED)" by (rule st)
    show "distinct (map player_id (players g)) \<and> distinct (map playerId (submissions (game_round g)))
               \<longrightarrow> pid \<notin> set (map player_id (players ?g'))
                   \<and> pid \<notin> set (map playerId (submissions (game_round ?g')))" by (rule ids)
  qed
qed

lemma exSelection_players:
  "players exSelection =
     [seated ''alice'' True False LOCATION 1, seated ''bob'' False False CHARACTER 11,
      seated ''ai1'' False True INITIAL_TWIST 21, seated ''ai2'' False True ESCALATION 31,
      seated ''ai3'' False True FINAL_TWIST 41]"
  by (simp add: exSelection_def)

theorem removePlayer_deletes_participant_witness:
  "([''ROOM01'' \<mapsto> exSelection] ''ROOM01'' = Some exSelection
      \<and> findIndex (\<lambda>p. player_id p = ''bob'') (players exSelection) = Some 1
      \<and> status exSelection = ACTIVE
      \<and> splice1 1 (players exSelection) \<noteq> [])
   \<and> (\<exists>g'. removePlayer [''ROOM01'' \<mapsto> exSelection] ''ROOM01'' ''bob''
              = (True, [''ROOM01'' \<mapsto> exSelection](''ROOM01'' \<mapsto> g'))
          \<and> length (players g') + 1 = 5
          \<and> status g' = ACTIVE
          \<and> ''bob'' \<notin> set (map player_id (players g')))"
proof -
  have h1: "[''ROOM01'' \<mapsto> exSelection] ''ROOM01'' = Some exSelection" by simp
  have h2: "findIndex (\<lambda>p. player_id p = ''bob'') (players exSelection) = Some 1"
    by (simp add: exSelection_players seated_def)
  have h3: "status exSelection = ACTIVE" by (simp add: exSelection_def)
  have h4: "splice1 1 (players exSelection) \<noteq> []"
    by (simp add: exSelection_players splice1_def)
  have e1: "length (players exSelection) = 5" by (simp add: exSelection_players)
  have e2: "list_ex (\<lambda>p. \<not> isAI p) (splice1 1 (players exSelection))"
    by (simp add: exSelection_players splice1_def seated_def)
  have e3: "distinct (map player_id (players exSelection))
              \<and> distinct (map playerId (submissions (game_round exSelection)))"
    by (simp add: exSelection_def seated_def)
  from removePlayer_deletes_participant[where gs = "[''ROOM01'' \<mapsto> exSelection]"
         and gid = "''ROOM01''" and g = exSelection and pid = "''bob''" and i = 1, OF h1 h2 h3 h4]
  obtain g' where
      g': "removePlayer [''ROOM01'' \<mapsto> exSelection] ''ROOM01'' ''bob''
              = (True, [''ROOM01'' \<mapsto> exSelection](''ROOM01'' \<mapsto> g'))"
      "length (players g') + 1 = length (players exSelection)"
      "status g' = (if list_ex (\<lambda>p. \<not> isAI p) (splice1 1 (players exSelection)) then ACTIVE else COMPLETED)"
      "distinct (map player_id (players exSelection))
         \<and> distinct (map playerId (submissions (game_round exSelection)))
        \<longrightarrow> ''bob'' \<notin> set (map player_id (players g'))
            \<and> ''bob'' \<notin> set (map playerId (submissions (game_round g')))"
    by blast
  from g'(2) e1 have c1: "length (players g') + 1 = 5" by simp
  from g'(3) e2 have c2: "status g' = ACTIVE" by simp
  from g'(4) e3 have c3: "''bob'' \<notin> set (map player_id (players g'))" by blast
  from h1 h2 h3 h4 g'(1) c1 c2 c3 show ?thesis by blast
qed

lemma exSelection_bob_selects:
  "selectCard [''ROOM01'' \<mapsto> exSelection] ''ROOM01'' ''bob'' 11 None
     = (True, [''ROOM01'' \<mapsto> exSelection
          \<lparr> players := [seated ''alice'' True False LOCATION 1,
                         (seated ''bob'' False False CHARACTER 11)\<lparr> selectedCard := Some 11 \<rparr>,
                         seated ''ai1'' False True INITIAL_TWIST 21,
                         seated ''ai2'' False True ESCALATION 31,
                         seated ''ai3'' False True FINAL_TWIST 41] \<rparr>])"
  by (simp add: selectCard_def exSelection_def seated_def deckCard_def allSelected_def)

lemma exSelection_bob_leaves:
  "removePlayer [''ROOM01'' \<mapsto> exSelection
          \<lparr> players := [seated ''alice'' True False LOCATION 1,
                         (seated ''bob'' False False CHARACTER 11)\<lparr> selectedCard := Some 11 \<rparr>,
                         seated ''ai1'' False True INITIAL_TWIST 21,
                         seated ''ai2'' False True ESCALATION 31,
                         seated ''ai3'' False True FINAL_TWIST 41] \<rparr>] ''ROOM01'' ''bob''
     = (True, [''ROOM01'' \<mapsto> exSelection
          \<lparr> players := [seated ''alice'' True False LOCATION 1,
                         seated ''ai1'' False True INITIAL_TWIST 21,
                         seated ''ai2'' False True ESCALATION 31,
                         seated ''ai3'' False True FINAL_TWIST 41] \<rparr>])"
  by (simp add: removePlayer_def afterRemoval_def Let_def exSelection_def seated_def splice1_def
        allSelected_def)

text \<open>
  Claim C3 as stated fails: in the SELECTION round above bob, a human who is not the host,
  selects card 11 and then leaves. Afterwards the game has four players, alice and the three
  simulated players that were there before; no player has bob's role CHARACTER and no card
  is selected.
\<close>

theorem removePlayer_no_stand_in_counterexample:
  "fst (selectCard [''ROOM01'' \<mapsto> exSelection] ''ROOM01'' ''bob'' 11 None) = True
   \<and> map selectedCard
        (playersOf (snd (selectCard [''ROOM01'' \<mapsto> exSelection] ''ROOM01'' ''bob'' 11 None)) ''ROOM01'')
       = [None, Some 11, None, None, None]
   \<and> fst (removePlayer (snd (selectCard [''ROOM01'' \<mapsto> exSelection] ''ROOM01'' ''bob'' 11 None))
            ''ROOM01'' ''bob'') = True
   \<and> map player_id
        (playersOf (snd (removePlayer (snd (selectCard [''ROOM01'' \<mapsto> exSelection] ''ROOM01'' ''bob'' 11 None))
            ''ROOM01'' ''bob'')) ''ROOM01'')
       = [''alice'', ''ai1'', ''ai2'', ''ai3'']
   \<and> map isAI
        (playersOf (snd (removePlayer (snd (selectCard [''ROOM01'' \<mapsto> exSelection] ''ROOM01'' ''bob'' 11 None))
            ''ROOM01'' ''bob'')) ''ROOM01'')
       = [False, True, True, True]
   \<and> map currentCardType
        (playersOf (snd (removePlayer (snd (selectCard [''ROOM01'' \<mapsto> exSelection] ''ROOM01'' ''bob'' 11 None))
            ''ROOM01'' ''bob'')) ''ROOM01'')
       = [Some LOCATION, Some INITIAL_TWIST, Some ESCALATION, Some FINAL_TWIST]
   \<and> map selectedCard
        (playersOf (snd (removePlayer (snd (selectCard [''ROOM01'' \<mapsto> exSelection] ''ROOM01'' ''bob'' 11 None))
            ''ROOM01'' ''bob'')) ''ROOM01'')
       = [None, None, None, None]"
  unfolding exSelection_bob_selects fst_conv snd_conv exSelection_bob_leaves
  by (simp add: playersOf_def seated_def)

subsection \<open>The next round after the last\<close>

lemma finishRound_last:
  "round_status (game_round g) \<noteq> RESULTS \<Longrightarrow> number (game_round g) \<ge> roundsToPlay (settings g) \<Longrightarrow>
     status (finishRound g) = COMPLETED \<and> round_status (game_round (finishRound g)) = RESULTS"
  by (simp add: finishRound_def Let_def setRoundStatus_def)

text \<open>
  Claim C4, as amended. When \<^verbatim>\<open>endRound\<close> moves a round whose number has reached the
  configured rounds-to-play to RESULTS, the game status becomes COMPLETED. Every later
  \<^verbatim>\<open>nextRound\<close> request leaves the games unchanged, whoever sends it. Sent by the host while
  the round is in RESULTS it is acknowledged with success, and no request is acknowledged
  with success unless its socket is bound to that game and the round is in RESULTS. A
  \<^verbatim>\<open>nextRound\<close> request for a game whose round is not in RESULTS is acknowledged with a
  failure and changes nothing.
\<close>

theorem nextRound_after_completion:
  "(gs gid = Some g \<and> round_status (game_round g) \<noteq> RESULTS
      \<and> number (game_round g) \<ge> roundsToPlay (settings g)
     \<longrightarrow> (\<exists>g'. endRound gs gid gid = Some g' \<and> status g' = COMPLETED
               \<and> round_status (game_round g') = RESULTS))
   \<and> (gs gid = Some g \<and> status g = COMPLETED
     \<longrightarrow> snd (nextRoundHandler cdo rr sock gid gs) = gs
        \<and> (fst (nextRoundHandler cdo rr sock gid gs) = Success
             \<longrightarrow> (\<exists>pid. playerData sock = Some (pid, gid))
                \<and> round_status (game_round g) = RESULTS)
        \<and> (playerData sock = Some (hid, gid)
             \<and> List.find (\<lambda>p. player_id p = hid) (players g) = Some h \<and> isHost h
             \<and> round_status (game_round g) = RESULTS
             \<longrightarrow> fst (nextRoundHandler cdo rr sock gid gs) = Success))
   \<and> (gs gid = Some g \<and> round_status (game_round g) \<noteq> RESULTS
     \<longrightarrow> snd (nextRoundHandler cdo rr sock gid gs) = gs
        \<and> fst (nextRoundHandler cdo rr sock gid gs) \<noteq> Success)"
proof (intro conjI impI)
  assume "gs gid = Some g \<and> round_status (game_round g) \<noteq> RESULTS
      \<and> number (game_round g) \<ge> roundsToPlay (settings g)"
  then show "\<exists>g'. endRound gs gid gid = Some g' \<and> status g' = COMPLETED
               \<and> round_status (game_round g') = RESULTS"
    using finishRound_last[of g] by (simp add: endRound_def)
next
  assume a: "gs gid = Some g \<and> status g = COMPLETED"
  then show "snd (nextRoundHandler cdo rr sock gid gs) = gs"
    by (simp add: nextRoundHandler_def split: option.splits prod.splits)
  {
    assume s: "fst (nextRoundHandler cdo rr sock gid gs) = Success"
    with a show "\<exists>pid. playerData sock = Some (pid, gid)"
      by (auto simp: nextRoundHandler_def split: option.splits prod.splits if_splits)
    from a s show "round_status (game_round g) = RESULTS"
      by (auto simp: nextRoundHandler_def split: option.splits prod.splits if_splits)
  }
  {
    assume "playerData sock = Some (hid, gid)
             \<and> List.find (\<lambda>p. player_id p = hid) (players g) = Some h \<and> isHost h
             \<and> round_status (game_round g) = RESULTS"
    with a show "fst (nextRoundHandler cdo rr sock gid gs) = Success"
      by (simp add: nextRoundHandler_def)
  }
next
  assume a: "gs gid = Some g \<and> round_status (game_round g) \<noteq> RESULTS"
  then show "snd (nextRoundHandler cdo rr sock gid gs) = gs"
    by (simp add: nextRoundHandler_def split: option.splits prod.splits)
  from a show "fst (nextRoundHandler cdo rr sock gid gs) \<noteq> Success"
    by (simp add: nextRoundHandler_def split: option.splits prod.splits)
qed

lemma exFinished_status:
  "status exFinished = COMPLETED \<and> round_status (game_round exFinished) = RESULTS"
  unfolding exFinished_def
  by (rule finishRound_last) (simp_all add: exLastVoting_def exVoting_def exSelection_def)

lemma exFinished_host:
  "List.find (\<lambda>p. player_id p = ''alice'') (players exFinished) = Some (hd (players exFinished))
   \<and> isHost (hd (players exFinished))"
proof -
  have p: "players exFinished = addScores (submissions (game_round exLastVoting)) (players exLastVoting)"
    by (simp add: exFinished_def finishRound_def Let_def setRoundStatus_def exLastVoting_def
          exVoting_def exSelection_def)
  show ?thesis
    unfolding p
    by (simp add: addScores_def exLastVoting_def exVoting_def exSelection_def entry_def seated_def)
qed

theorem nextRound_after_completion_witness:
  "([''ROOM01'' \<mapsto> exLastVoting] ''ROOM01'' = Some exLastVoting
      \<and> round_status (game_round exLastVoting) \<noteq> RESULTS
      \<and> number (game_round exLastVoting) \<ge> roundsToPlay (settings exLastVoting))
   \<and> (\<exists>g'. endRound [''ROOM01'' \<mapsto> exLastVoting] ''ROOM01'' ''ROOM01'' = Some g'
          \<and> status g' = COMPLETED \<and> round_status (game_round g') = RESULTS)
   \<and> ([''ROOM01'' \<mapsto> exFinished] ''ROOM01'' = Some exFinished \<and> status exFinished = COMPLETED)
   \<and> (playerData (socketOf ''alice'') = Some (''alice'', ''ROOM01'')
        \<and> List.find (\<lambda>p. player_id p = ''alice'') (players exFinished) = Some (hd (players exFinished))
        \<and> isHost (hd (players exFinished))
        \<and> round_status (game_round exFinished) = RESULTS)
   \<and> snd (nextRoundHandler None plainRound (socketOf ''alice'') ''ROOM01'' [''ROOM01'' \<mapsto> exFinished])
        = [''ROOM01'' \<mapsto> exFinished]
   \<and> fst (nextRoundHandler None plainRound (socketOf ''alice'') ''ROOM01'' [''ROOM01'' \<mapsto> exFinished])
        = Success
   \<and> (\<exists>pid. playerData (socketOf ''alice'') = Some (pid, ''ROOM01''))
   \<and> ([''ROOM01'' \<mapsto> exVoting] ''ROOM01'' = Some exVoting
        \<and> round_status (game_round exVoting) \<noteq> RESULTS)
   \<and> snd (nextRoundHandler None plainRound (socketOf ''alice'') ''ROOM01'' [''ROOM01'' \<mapsto> exVoting])
        = [''ROOM01'' \<mapsto> exVoting]
   \<and> fst (nextRoundHandler None plainRound (socketOf ''alice'') ''ROOM01'' [''ROOM01'' \<mapsto> exVoting])
        \<noteq> Success"
proof -
  have h1: "[''ROOM01'' \<mapsto> exLastVoting] ''ROOM01'' = Some exLastVoting
      \<and> round_status (game_round exLastVoting) \<noteq> RESULTS
      \<and> number (game_round exLastVoting) \<ge> roundsToPlay (settings exLastVoting)"
    by (simp add: exLastVoting_def exVoting_def exSelection_def)
  have h2: "[''ROOM01'' \<mapsto> exFinished] ''ROOM01'' = Some exFinished \<and> status exFinished = COMPLETED"
    by (simp add: exFinished_status)
  have h3: "[''ROOM01'' \<mapsto> exVoting] ''ROOM01'' = Some exVoting
        \<and> round_status (game_round exVoting) \<noteq> RESULTS"
    by (simp add: exVoting_def)
  have h4: "playerData (socketOf ''alice'') = Some (''alice'', ''ROOM01'')
        \<and> List.find (\<lambda>p. player_id p = ''alice'') (players exFinished) = Some (hd (players exFinished))
        \<and> isHost (hd (players exFinished))
        \<and> round_status (game_round exFinished) = RESULTS"
    using exFinished_host exFinished_status by (simp add: socketOf_def)
  note A = nextRound_after_completion[where gs = "[''ROOM01'' \<mapsto> exLastVoting]"
      and gid = "''ROOM01''" and g = exLastVoting]
  note B = nextRound_after_completion[where gs = "[''ROOM01'' \<mapsto> exFinished]"
      and gid = "''ROOM01''" and g = exFinished and cdo = None and rr = plainRound
      and sock = "socketOf ''alice''" and hid = "''alice''" and h = "hd (players exFinished)"]
  note C = nextRound_after_completion[where gs = "[''ROOM01'' \<mapsto> exVoting]"
      and gid = "''ROOM01''" and g = exVoting and cdo = None and rr = plainRound
      and sock = "socketOf ''alice''"]
  from A h1 have c1: "\<exists>g'. endRound [''ROOM01'' \<mapsto> exLastVoting] ''ROOM01'' ''ROOM01'' = Some g'
          \<and> status g' = COMPLETED \<and> round_status (game_round g') = RESULTS" by blast
  from B h2 have c2: "snd (nextRoundHandler None plainRound (socketOf ''alice'') ''ROOM01'' [''ROOM01'' \<mapsto> exFinished])
        = [''ROOM01'' \<mapsto> exFinished]"
    by blast
  from B h2 h4
  have c3: "fst (nextRoundHandler None plainRound (socketOf ''alice'') ''ROOM01'' [''ROOM01'' \<mapsto> exFinished])
        = Success" by blast
  from B h2 c3 have c3': "\<exists>pid. playerData (socketOf ''alice'') = Some (pid, ''ROOM01'')"
    by blast
  from C h3 have c4: "snd (nextRoundHandler None plainRound (socketOf ''alice'') ''ROOM01'' [''ROOM01'' \<mapsto> exVoting])
        = [''ROOM01'' \<mapsto> exVoting]"
     and c5: "fst (nextRoundHandler None plainRound (socketOf ''alice'') ''ROOM01'' [''ROOM01'' \<mapsto> exVoting])
        \<noteq> Success"
    by blast+
  from h1 h2 h3 h4 c1 c2 c3 c3' c4 c5 show ?thesis by blast
qed

text \<open>
  Claim C4 as stated fails: the game above is COMPLETED with its last round in RESULTS, and
  a \<^verbatim>\<open>nextRound\<close> request of its host is acknowledged with success, not with a failure.
\<close>

theorem nextRound_completed_counterexample:
  "status exFinished = COMPLETED
   \<and> number (game_round exFinished) = roundsToPlay (settings exFinished)
   \<and> round_status (game_round exFinished) = RESULTS
   \<and> isHost (hd (players exFinished)) \<and> player_id (hd (players exFinished)) = ''alice''
   \<and> fst (nextRoundHandler None plainRound (socketOf ''alice'') ''ROOM01'' [''ROOM01'' \<mapsto> exFinished])
        = Success"
proof -
  have p: "players exFinished = addScores (submissions (game_round exLastVoting)) (players exLastVoting)"
    by (simp add: exFinished_def finishRound_def Let_def setRoundStatus_def exLastVoting_def
          exVoting_def exSelection_def)
  have hd: "isHost (hd (players exFinished)) \<and> player_id (hd (players exFinished)) = ''alice''"
    unfolding p
    by (simp add: addScores_def exLastVoting_def exVoting_def exSelection_def entry_def seated_def)
  have n: "number (game_round exFinished) = roundsToPlay (settings exFinished)"
    by (simp add: exFinished_def finishRound_def Let_def setRoundStatus_def exLastVoting_def
          exVoting_def exSelection_def)
  have a: "fst (nextRoundHandler None plainRound (socketOf ''alice'') ''ROOM01'' [''ROOM01'' \<mapsto> exFinished])
        = Success"
    using exFinished_status by (simp add: nextRoundHandler_def socketOf_def)
  from exFinished_status hd n a show ?thesis by blast
qed

subsection \<open>Selecting a card\<close>

lemma find_updFirst_same:
  "List.find P xs = Some x \<Longrightarrow> P (f x) \<Longrightarrow> List.find P (updFirst P f xs) = Some (f x)"
  by (induction xs) (auto split: if_splits)

lemma selectCard_success:
  assumes "selectCard gs gid pid cid ct = (True, gs')" and "gs gid = Some g"
  shows "round_status (game_round g) = SELECTION
     \<and> (\<exists>p f. List.find (\<lambda>q. player_id q = pid) (players g) = Some p
            \<and> player_id (f p) = pid \<and> selectedCard (f p) = Some cid
            \<and> gs' = gs(gid \<mapsto>
                 (if allSelected (g\<lparr> players := updFirst (\<lambda>q. player_id q = pid) f (players g) \<rparr>)
                  then setRoundStatus STORYTELLING
                         (assembleStory (g\<lparr> players := updFirst (\<lambda>q. player_id q = pid) f (players g) \<rparr>))
                  else g\<lparr> players := updFirst (\<lambda>q. player_id q = pid) f (players g) \<rparr>)))"
proof -
  from assms have st: "round_status (game_round g) = SELECTION"
    by (auto simp: selectCard_def split: option.splits if_splits)
  from assms st obtain p where p: "List.find (\<lambda>q. player_id q = pid) (players g) = Some p"
    by (auto simp: selectCard_def split: option.splits if_splits)
  from assms st p obtain h where h: "hand p = Some h"
    by (auto simp: selectCard_def split: option.splits if_splits)
  from assms st p h obtain i where i: "findIndex (\<lambda>k. card_id k = cid) h = Some i"
    by (auto simp: selectCard_def split: option.splits if_splits)
  define h' where "h' = (case ct of Some t \<Rightarrow> if isCustom (h ! i) \<and> t \<noteq> [] then setCardText i t h else h
                                  | None \<Rightarrow> h)"
  define f where "f = (\<lambda>q::player. q\<lparr> hand := Some h', selectedCard := Some cid \<rparr>)"
  have pid: "player_id p = pid"
    using p by (auto simp: find_Some_iff)
  have e: "selectCard gs gid pid cid ct = (True, gs(gid \<mapsto>
                 (if allSelected (g\<lparr> players := updFirst (\<lambda>q. player_id q = pid) f (players g) \<rparr>)
                  then setRoundStatus STORYTELLING
                         (assembleStory (g\<lparr> players := updFirst (\<lambda>q. player_id q = pid) f (players g) \<rparr>))
                  else g\<lparr> players := updFirst (\<lambda>q. player_id q = pid) f (players g) \<rparr>)))"
    unfolding f_def h'_def using assms(2) st p h i by (simp add: selectCard_def Let_def)
  have "gs' = gs(gid \<mapsto>
                 (if allSelected (g\<lparr> players := updFirst (\<lambda>q. player_id q = pid) f (players g) \<rparr>)
                  then setRoundStatus STORYTELLING
                         (assembleStory (g\<lparr> players := updFirst (\<lambda>q. player_id q = pid) f (players g) \<rparr>))
                  else g\<lparr> players := updFirst (\<lambda>q. player_id q = pid) f (players g) \<rparr>))"
    using assms(1) e by simp
  moreover have "player_id (f p) = pid \<and> selectedCard (f p) = Some cid"
    using pid by (simp add: f_def)
  ultimately show ?thesis using st p by blast
qed

lemma freshSubmission_selected:
  "\<forall>p \<in> set ps. selectedCard p \<noteq> None \<Longrightarrow>
     map freshSubmission ps
       = map (\<lambda>p. \<lparr> playerId = player_id p, cardId = the (selectedCard p), moral = None,
                     votes = 0, hasVoted = False \<rparr>) ps"
  by (induction ps) (auto simp: freshSubmission_def)

lemma selectedCardOf_chosen:
  "selectedCardOf p = (if currentCardType p = None then None else chosenCard p)"
  by (simp add: selectedCardOf_def chosenCard_def split: option.splits)

lemma collectSelected_snoc:
  "collectSelected (ps @ [p]) =
     (case (currentCardType p, selectedCardOf p) of
        (Some t, Some k) \<Rightarrow> (collectSelected ps)(t \<mapsto> k)
      | _ \<Rightarrow> collectSelected ps)"
  unfolding collectSelected_def by (simp split: option.splits)

lemma roleCard_snoc:
  "roleCard (ps @ [p]) t =
     (if currentCardType p = Some t \<and> chosenCard p \<noteq> None then chosenCard p else roleCard ps t)"
  by (simp add: roleCard_def Let_def)

lemma collectSelected_roleCard: "collectSelected ps t = roleCard ps t"
proof (induction ps rule: rev_induct)
  case Nil
  show ?case by (simp add: collectSelected_def roleCard_def)
next
  case (snoc p ps)
  show ?case
    unfolding collectSelected_snoc roleCard_snoc selectedCardOf_chosen
    using snoc.IH by (auto split: option.splits)
qed

lemma joinWith_concat:
  "joinWith sep xs = (case xs of [] \<Rightarrow> [] | x # ys \<Rightarrow> x @ concat (map (\<lambda>y. sep @ y) ys))"
  by (induction sep xs rule: joinWith.induct) simp_all

lemma storyPart_fragment: "storyPart tab t pre dflt = fragment pre dflt (tab t)"
  by (simp add: storyPart_def fragment_def orDefault_def split: option.splits)

lemma storyText_narrative: "storyText ps = narrative ps"
  unfolding storyText_def narrative_def Let_def storyPart_fragment collectSelected_roleCard
  by (rule joinWith_concat)

text \<open>
  Claim C7. After a successful \<^verbatim>\<open>selectCard\<close> the selecting player's entry holds the card
  id. The round is in STORYTELLING exactly when every player then has a selected card. In
  that case the story is the narrative of the selected cards: for each role in the fixed
  order location, character, initial twist, escalation, final twist that has a selected
  card, the connective of the role followed by the text of the card, the fragments
  separated by one space; when all five roles have a card it is the five fragments in a
  row. And there is one submission per player, in player order, with that player's id and
  selected card, no moral, zero votes and the has-voted flag cleared. Otherwise the round
  is still in SELECTION and is unchanged.
\<close>

theorem selectCard_advances_when_all_selected:
  assumes "gs gid = Some g" and "selectCard gs gid pid cid ct = (True, gs')"
  shows "\<exists>g'. gs' gid = Some g'
     \<and> round_status (game_round g) = SELECTION
     \<and> (\<exists>p. List.find (\<lambda>q. player_id q = pid) (players g') = Some p \<and> selectedCard p = Some cid)
     \<and> ((round_status (game_round g') = STORYTELLING)
          = (\<forall>p \<in> set (players g'). selectedCard p \<noteq> None))
     \<and> ((\<forall>p \<in> set (players g'). selectedCard p \<noteq> None) \<longrightarrow>
           story (game_round g') = narrative (players g')
         \<and> (\<forall>c1 c2 c3 c4 c5.
               roleCard (players g') LOCATION = Some c1 \<and> roleCard (players g') CHARACTER = Some c2
               \<and> roleCard (players g') INITIAL_TWIST = Some c3
               \<and> roleCard (players g') ESCALATION = Some c4
               \<and> roleCard (players g') FINAL_TWIST = Some c5
               \<longrightarrow> story (game_round g')
                     = ''In a '' @ (if card_text c1 = [] then ''a mysterious place'' else card_text c1)
                       @ '' , a '' @ (if card_text c2 = [] then ''strange character'' else card_text c2)
                       @ ''  NOTICES '' @ (if card_text c3 = [] then ''something unusual'' else card_text c3)
                       @ '' . But then, ''
                       @ (if card_text c4 = [] then ''the situation escalates'' else card_text c4)
                       @ ''  ALL BECAUSE ''
                       @ (if card_text c5 = [] then ''a final twist occurs'' else card_text c5))
         \<and> submissions (game_round g')
             = map (\<lambda>p. \<lparr> playerId = player_id p, cardId = the (selectedCard p), moral = None,
                           votes = 0, hasVoted = False \<rparr>) (players g'))
     \<and> (\<not> (\<forall>p \<in> set (players g'). selectedCard p \<noteq> None) \<longrightarrow>
           round_status (game_round g') = SELECTION \<and> game_round g' = game_round g)"
proof -
  from selectCard_success[OF assms(2) assms(1)] obtain p f where
      st: "round_status (game_round g) = SELECTION"
      and p: "List.find (\<lambda>q. player_id q = pid) (players g) = Some p"
      and fp: "player_id (f p) = pid" "selectedCard (f p) = Some cid"
      and gs': "gs' = gs(gid \<mapsto>
                 (if allSelected (g\<lparr> players := updFirst (\<lambda>q. player_id q = pid) f (players g) \<rparr>)
                  then setRoundStatus STORYTELLING
                         (assembleStory (g\<lparr> players := updFirst (\<lambda>q. player_id q = pid) f (players g) \<rparr>))
                  else g\<lparr> players := updFirst (\<lambda>q. player_id q = pid) f (players g) \<rparr>))"
    by blast
  let ?ps = "updFirst (\<lambda>q. player_id q = pid) f (players g)"
  let ?g1 = "g\<lparr> players := ?ps \<rparr>"
  let ?g' = "if allSelected ?g1 then setRoundStatus STORYTELLING (assembleStory ?g1) else ?g1"
  have pl: "players ?g' = ?ps"
    by (simp add: setRoundStatus_def assembleStory_def)
  have all: "allSelected ?g1 = (\<forall>p \<in> set ?ps. selectedCard p \<noteq> None)"
    by (simp add: allSelected_def list_all_iff)
  have fnd: "List.find (\<lambda>q. player_id q = pid) ?ps = Some (f p)"
    using p fp(1) by (rule find_updFirst_same)
  show ?thesis
  proof (rule exI[of _ ?g'], intro conjI)
    show "gs' gid = Some ?g'" using gs' by simp
    show "round_status (game_round g) = SELECTION" by (rule st)
    show "\<exists>p. List.find (\<lambda>q. player_id q = pid) (players ?g') = Some p \<and> selectedCard p = Some cid"
      unfolding pl using fnd fp(2) by blast
    show "(round_status (game_round ?g') = STORYTELLING)
            = (\<forall>p \<in> set (players ?g'). selectedCard p \<noteq> None)"
      unfolding pl all[symmetric] using st by (simp add: setRoundStatus_def)
    show "(\<forall>p \<in> set (players ?g'). selectedCard p \<noteq> None) \<longrightarrow>
           story (game_round ?g') = narrative (players ?g')
         \<and> (\<forall>c1 c2 c3 c4 c5.
               roleCard (players ?g') LOCATION = Some c1 \<and> roleCard (players ?g') CHARACTER = Some c2
               \<and> roleCard (players ?g') INITIAL_TWIST = Some c3
               \<and> roleCard (players ?g') ESCALATION = Some c4
               \<and> roleCard (players ?g') FINAL_TWIST = Some c5
               \<longrightarrow> story (game_round ?g')
                     = ''In a '' @ (if card_text c1 = [] then ''a mysterious place'' else card_text c1)
                       @ '' , a '' @ (if card_text c2 = [] then ''strange character'' else card_text c2)
                       @ ''  NOTICES '' @ (if card_text c3 = [] then ''something unusual'' else card_text c3)
                       @ '' . But then, ''
                       @ (if card_text c4 = [] then ''the situation escalates'' else card_text c4)
                       @ ''  ALL BECAUSE ''
                       @ (if card_text c5 = [] then ''a final twist occurs'' else card_text c5))
         \<and> submissions (game_round ?g')
             = map (\<lambda>p. \<lparr> playerId = player_id p, cardId = the (selectedCard p), moral = None,
                           votes = 0, hasVoted = False \<rparr>) (players ?g')"
    proof
      assume a: "\<forall>p \<in> set (players ?g'). selectedCard p \<noteq> None"
      then have b: "\<forall>p \<in> set ?ps. selectedCard p \<noteq> None" unfolding pl .
      then have c: "allSelected ?g1" unfolding all .
      have g': "?g' = setRoundStatus STORYTELLING (assembleStory ?g1)" using c by simp
      have s1: "story (game_round ?g') = storyText ?ps"
        unfolding g' by (simp add: setRoundStatus_def assembleStory_def)
      have s2: "story (game_round ?g') = narrative (players ?g')"
        unfolding pl using s1 by (simp add: storyText_narrative)
      have s3: "submissions (game_round ?g')
             = map (\<lambda>p. \<lparr> playerId = player_id p, cardId = the (selectedCard p), moral = None,
                           votes = 0, hasVoted = False \<rparr>) (players ?g')"
        unfolding pl unfolding g' using freshSubmission_selected[OF b]
        by (simp add: setRoundStatus_def assembleStory_def)
      have s4: "\<forall>c1 c2 c3 c4 c5.
               roleCard (players ?g') LOCATION = Some c1 \<and> roleCard (players ?g') CHARACTER = Some c2
               \<and> roleCard (players ?g') INITIAL_TWIST = Some c3
               \<and> roleCard (players ?g') ESCALATION = Some c4
               \<and> roleCard (players ?g') FINAL_TWIST = Some c5
               \<longrightarrow> story (game_round ?g')
                     = ''In a '' @ (if card_text c1 = [] then ''a mysterious place'' else card_text c1)
                       @ '' , a '' @ (if card_text c2 = [] then ''strange character'' else card_text c2)
                       @ ''  NOTICES '' @ (if card_text c3 = [] then ''something unusual'' else card_text c3)
                       @ '' . But then, ''
                       @ (if card_text c4 = [] then ''the situation escalates'' else card_text c4)
                       @ ''  ALL BECAUSE ''
                       @ (if card_text c5 = [] then ''a final twist occurs'' else card_text c5)"
        unfolding s2 by (intro allI impI) (simp add: narrative_def fragment_def)
      from s2 s4 s3 show "story (game_round ?g') = narrative (players ?g')
         \<and> (\<forall>c1 c2 c3 c4 c5.
               roleCard (players ?g') LOCATION = Some c1 \<and> roleCard (players ?g') CHARACTER = Some c2
               \<and> roleCard (players ?g') INITIAL_TWIST = Some c3
               \<and> roleCard (players ?g') ESCALATION = Some c4
               \<and> roleCard (players ?g') FINAL_TWIST = Some c5
               \<longrightarrow> story (game_round ?g')
                     = ''In a '' @ (if card_text c1 = [] then ''a mysterious place'' else card_text c1)
                       @ '' , a '' @ (if card_text c2 = [] then ''strange character'' else card_text c2)
                       @ ''  NOTICES '' @ (if card_text c3 = [] then ''something unusual'' else card_text c3)
                       @ '' . But then, ''
                       @ (if card_text c4 = [] then ''the situation escalates'' else card_text c4)
                       @ ''  ALL BECAUSE ''
                       @ (if card_text c5 = [] then ''a final twist occurs'' else card_text c5))
         \<and> submissions (game_round ?g')
             = map (\<lambda>p. \<lparr> playerId = player_id p, cardId = the (selectedCard p), moral = None,
                           votes = 0, hasVoted = False \<rparr>) (players ?g')"
        by (intro conjI)
    qed
    show "\<not> (\<forall>p \<in> set (players ?g'). selectedCard p \<noteq> None) \<longrightarrow>
           round_status (game_round ?g') = SELECTION \<and> game_round ?g' = game_round g"
      unfolding pl all[symmetric] using st by simp
  qed
qed

lemma exLastPick_alice_selects:
  "selectCard [''ROOM01'' \<mapsto> exLastPick] ''ROOM01'' ''alice'' 31 None
     = (True, [''ROOM01'' \<mapsto> setRoundStatus STORYTELLING (assembleStory exAllPicked)])"
  by (simp add: selectCard_def exLastPick_def exAllPicked_def exSelection_def holding_def seated_def
        deckCard_def allSelected_def)

lemma exAllPicked_players:
  "players (setRoundStatus STORYTELLING (assembleStory exAllPicked)) =
     [(holding ''alice'' True False ESCALATION 31 ''the sea begins to glow'')\<lparr> selectedCard := Some 31 \<rparr>,
      (holding ''bob'' False False LOCATION 1 ''haunted lighthouse'')\<lparr> selectedCard := Some 1 \<rparr>,
      (holding ''ai1'' False True FINAL_TWIST 41 ''of a forgotten promise'')\<lparr> selectedCard := Some 41 \<rparr>,
      (holding ''ai2'' False True CHARACTER 11 ''retired astronaut'')\<lparr> selectedCard := Some 11 \<rparr>,
      (holding ''ai3'' False True INITIAL_TWIST 21 ''the clocks run backwards'')\<lparr> selectedCard := Some 21 \<rparr>]"
  by (simp add: setRoundStatus_def assembleStory_def exAllPicked_def)

lemma exAllPicked_roleCards:
  "roleCard (players (setRoundStatus STORYTELLING (assembleStory exAllPicked))) LOCATION
     = Some (deckCard 1 ''haunted lighthouse'' LOCATION)
   \<and> roleCard (players (setRoundStatus STORYTELLING (assembleStory exAllPicked))) CHARACTER
     = Some (deckCard 11 ''retired astronaut'' CHARACTER)
   \<and> roleCard (players (setRoundStatus STORYTELLING (assembleStory exAllPicked))) INITIAL_TWIST
     = Some (deckCard 21 ''the clocks run backwards'' INITIAL_TWIST)
   \<and> roleCard (players (setRoundStatus STORYTELLING (assembleStory exAllPicked))) ESCALATION
     = Some (deckCard 31 ''the sea begins to glow'' ESCALATION)
   \<and> roleCard (players (setRoundStatus STORYTELLING (assembleStory exAllPicked))) FINAL_TWIST
     = Some (deckCard 41 ''of a forgotten promise'' FINAL_TWIST)"
  unfolding exAllPicked_players
  by (simp add: roleCard_def chosenCard_def holding_def seated_def deckCard_def)

theorem selectCard_advances_when_all_selected_witness:
  "[''ROOM01'' \<mapsto> exLastPick] ''ROOM01'' = Some exLastPick
   \<and> selectCard [''ROOM01'' \<mapsto> exLastPick] ''ROOM01'' ''alice'' 31 None
       = (True, [''ROOM01'' \<mapsto> setRoundStatus STORYTELLING (assembleStory exAllPicked)])
   \<and> (\<exists>g'. [''ROOM01'' \<mapsto> setRoundStatus STORYTELLING (assembleStory exAllPicked)] ''ROOM01'' = Some g'
          \<and> round_status (game_round g') = STORYTELLING
          \<and> story (game_round g')
              = ''In a haunted lighthouse , a retired astronaut  NOTICES the clocks run backwards . But then, the sea begins to glow  ALL BECAUSE of a forgotten promise''
          \<and> map playerId (submissions (game_round g')) = [''alice'', ''bob'', ''ai1'', ''ai2'', ''ai3'']
          \<and> map cardId (submissions (game_round g')) = [31, 1, 41, 11, 21]
          \<and> map moral (submissions (game_round g')) = [None, None, None, None, None]
          \<and> map votes (submissions (game_round g')) = [0, 0, 0, 0, 0]
          \<and> map hasVoted (submissions (game_round g')) = [False, False, False, False, False])"
proof -
  let ?G = "setRoundStatus STORYTELLING (assembleStory exAllPicked)"
  let ?tale = "''In a haunted lighthouse , a retired astronaut  NOTICES the clocks run backwards . But then, the sea begins to glow  ALL BECAUSE of a forgotten promise''"
  have h1: "[''ROOM01'' \<mapsto> exLastPick] ''ROOM01'' = Some exLastPick" by simp
  note h2 = exLastPick_alice_selects
  from selectCard_advances_when_all_selected[where gs = "[''ROOM01'' \<mapsto> exLastPick]"
         and gid = "''ROOM01''" and g = exLastPick, OF h1 h2]
  obtain g' where g': "[''ROOM01'' \<mapsto> ?G] ''ROOM01'' = Some g'"
      "(round_status (game_round g') = STORYTELLING)
          = (\<forall>p \<in> set (players g'). selectedCard p \<noteq> None)"
      "(\<forall>p \<in> set (players g'). selectedCard p \<noteq> None) \<longrightarrow>
           story (game_round g') = narrative (players g')
         \<and> (\<forall>c1 c2 c3 c4 c5.
               roleCard (players g') LOCATION = Some c1 \<and> roleCard (players g') CHARACTER = Some c2
               \<and> roleCard (players g') INITIAL_TWIST = Some c3
               \<and> roleCard (players g') ESCALATION = Some c4
               \<and> roleCard (players g') FINAL_TWIST = Some c5
               \<longrightarrow> story (game_round g')
                     = ''In a '' @ (if card_text c1 = [] then ''a mysterious place'' else card_text c1)
                       @ '' , a '' @ (if card_text c2 = [] then ''strange character'' else card_text c2)
                       @ ''  NOTICES '' @ (if card_text c3 = [] then ''something unusual'' else card_text c3)
                       @ '' . But then, ''
                       @ (if card_text c4 = [] then ''the situation escalates'' else card_text c4)
                       @ ''  ALL BECAUSE ''
                       @ (if card_text c5 = [] then ''a final twist occurs'' else card_text c5))
         \<and> submissions (game_round g')
             = map (\<lambda>p. \<lparr> playerId = player_id p, cardId = the (selectedCard p), moral = None,
                           votes = 0, hasVoted = False \<rparr>) (players g')"
    by blast
  have gG: "g' = ?G" using g'(1) by simp
  have all: "\<forall>p \<in> set (players g'). selectedCard p \<noteq> None"
    unfolding gG exAllPicked_players by (simp add: holding_def seated_def)
  from g'(2) all have c1: "round_status (game_round g') = STORYTELLING" by blast
  from g'(3) all have c2: "\<forall>c1 c2 c3 c4 c5.
               roleCard (players g') LOCATION = Some c1 \<and> roleCard (players g') CHARACTER = Some c2
               \<and> roleCard (players g') INITIAL_TWIST = Some c3
               \<and> roleCard (players g') ESCALATION = Some c4
               \<and> roleCard (players g') FINAL_TWIST = Some c5
               \<longrightarrow> story (game_round g')
                     = ''In a '' @ (if card_text c1 = [] then ''a mysterious place'' else card_text c1)
                       @ '' , a '' @ (if card_text c2 = [] then ''strange character'' else card_text c2)
                       @ ''  NOTICES '' @ (if card_text c3 = [] then ''something unusual'' else card_text c3)
                       @ '' . But then, ''
                       @ (if card_text c4 = [] then ''the situation escalates'' else card_text c4)
                       @ ''  ALL BECAUSE ''
                       @ (if card_text c5 = [] then ''a final twist occurs'' else card_text c5)"
    and c3: "submissions (game_round g')
             = map (\<lambda>p. \<lparr> playerId = player_id p, cardId = the (selectedCard p), moral = None,
                           votes = 0, hasVoted = False \<rparr>) (players g')"
    by blast+
  have rc: "roleCard (players g') LOCATION = Some (deckCard 1 ''haunted lighthouse'' LOCATION)
      \<and> roleCard (players g') CHARACTER = Some (deckCard 11 ''retired astronaut'' CHARACTER)
      \<and> roleCard (players g') INITIAL_TWIST = Some (deckCard 21 ''the clocks run backwards'' INITIAL_TWIST)
      \<and> roleCard (players g') ESCALATION = Some (deckCard 31 ''the sea begins to glow'' ESCALATION)
      \<and> roleCard (players g') FINAL_TWIST = Some (deckCard 41 ''of a forgotten promise'' FINAL_TWIST)"
    unfolding gG by (rule exAllPicked_roleCards)
  from c2 rc have "story (game_round g')
       = ''In a '' @ (if card_text (deckCard 1 ''haunted lighthouse'' LOCATION) = [] then ''a mysterious place''
                      else card_text (deckCard 1 ''haunted lighthouse'' LOCATION))
         @ '' , a '' @ (if card_text (deckCard 11 ''retired astronaut'' CHARACTER) = [] then ''strange character''
                        else card_text (deckCard 11 ''retired astronaut'' CHARACTER))
         @ ''  NOTICES '' @ (if card_text (deckCard 21 ''the clocks run backwards'' INITIAL_TWIST) = []
                             then ''something unusual''
                             else card_text (deckCard 21 ''the clocks run backwards'' INITIAL_TWIST))
         @ '' . But then, ''
         @ (if card_text (deckCard 31 ''the sea begins to glow'' ESCALATION) = [] then ''the situation escalates''
            else card_text (deckCard 31 ''the sea begins to glow'' ESCALATION))
         @ ''  ALL BECAUSE ''
         @ (if card_text (deckCard 41 ''of a forgotten promise'' FINAL_TWIST) = [] then ''a final twist occurs''
            else card_text (deckCard 41 ''of a forgotten promise'' FINAL_TWIST))"
    by blast
  then have d2: "story (game_round g') = ?tale"
    by (simp add: deckCard_def)
  have d3: "map playerId (submissions (game_round g')) = [''alice'', ''bob'', ''ai1'', ''ai2'', ''ai3'']
          \<and> map cardId (submissions (game_round g')) = [31, 1, 41, 11, 21]
          \<and> map moral (submissions (game_round g')) = [None, None, None, None, None]
          \<and> map votes (submissions (game_round g')) = [0, 0, 0, 0, 0]
          \<and> map hasVoted (submissions (game_round g')) = [False, False, False, False, False]"
    unfolding c3 unfolding gG exAllPicked_players by (simp add: holding_def seated_def)
  have ex: "\<exists>g'. [''ROOM01'' \<mapsto> ?G] ''ROOM01'' = Some g'
          \<and> round_status (game_round g') = STORYTELLING
          \<and> story (game_round g') = ?tale
          \<and> map playerId (submissions (game_round g')) = [''alice'', ''bob'', ''ai1'', ''ai2'', ''ai3'']
          \<and> map cardId (submissions (game_round g')) = [31, 1, 41, 11, 21]
          \<and> map moral (submissions (game_round g')) = [None, None, None, None, None]
          \<and> map votes (submissions (game_round g')) = [0, 0, 0, 0, 0]
          \<and> map hasVoted (submissions (game_round g')) = [False, False, False, False, False]"
    by (rule exI[of _ g'], intro conjI) (rule g'(1), rule c1, rule d2, simp_all only: d3)
  show ?thesis
    by (intro conjI) (rule h1, rule h2, rule ex)
qed

text \<open>
  The \<^verbatim>\<open>nextRound\<close> handler does not look at the host flag: bob, who is not the host, asks
  for the next round of the active game above and round two starts.
\<close>

lemma nextRound_from_other_player:
  "map isHost (players exResults) = [True, False, False, False, False]
   \<and> roundOf [''ROOM01'' \<mapsto> exResults] ''ROOM01'' = Some (1, RESULTS)
   \<and> fst (nextRoundHandler None plainRound (socketOf ''bob'') ''ROOM01'' [''ROOM01'' \<mapsto> exResults])
        = Success
   \<and> roundOf (snd (nextRoundHandler None plainRound (socketOf ''bob'') ''ROOM01''
                      [''ROOM01'' \<mapsto> exResults])) ''ROOM01''
        = Some (2, SELECTION)"
proof -
  have r: "game_round exResults = (game_round exVoting)\<lparr> round_status := RESULTS \<rparr>"
      "status exResults = ACTIVE"
      "settings exResults = \<lparr> maxPlayers = 5, roundsToPlay = 3 \<rparr>"
    by (simp_all add: exResults_def finishRound_def Let_def setRoundStatus_def exVoting_def
          exSelection_def)
  have hf: "hostFlags exResults = hostFlags exVoting"
    by (simp add: exResults_def)
  have h: "map isHost (players exResults) = [True, False, False, False, False]"
    using hf by (simp add: hostFlags_def exVoting_def exSelection_def seated_def)
  have b: "game_round (beginRound None plainRound exResults)
             = \<lparr> number = 2, round_status = SELECTION, story = [], submissions = [] \<rparr>"
    by (simp add: beginRound_def Let_def r dealCards_def assignCardTypes_def exVoting_def
          exSelection_def)
  show ?thesis
    using h b
    by (simp add: roundOf_def nextRoundHandler_def startNewRound_def socketOf_def r exVoting_def
          exSelection_def)
qed

subsection \<open>The fallback moral\<close>

lemma generateAIMoral_never_throws: "\<exists>m. generateAIMoral s env = Inr m"
  by (simp add: generateAIMoral_def split: sum.splits)

lemma generateAIMoral_fails:
  "generationFails env \<Longrightarrow> generateAIMoral s env = Inr (generateFallbackMoral s)"
  by (auto simp: generationFails_def generateAIMoral_def requestMoral_def split: sum.splits)

lemma length_fallbackMorals: "length fallbackMorals = 10"
  by (simp add: fallbackMorals_def)

lemma generateFallbackMoral_nth: "generateFallbackMoral s = fallbackMorals ! (length s mod 10)"
  by (simp add: generateFallbackMoral_def Let_def length_fallbackMorals)

lemma aiMoralFor_fails:
  "generationFails env \<Longrightarrow> aiMoralFor s env r = fallbackMorals ! (length s mod 10)"
  by (simp add: aiMoralFor_def generateAIMoral_fails generateFallbackMoral_nth)

lemma fallbackMorals_nonempty: "fallbackMorals ! (n mod 10) \<noteq> []"
proof -
  have "\<forall>m \<in> set fallbackMorals. m \<noteq> []" by (simp add: fallbackMorals_def)
  moreover have "fallbackMorals ! (n mod 10) \<in> set fallbackMorals"
    by (rule nth_mem) (simp add: length_fallbackMorals)
  ultimately show ?thesis by blast
qed

lemma awaitsMoral_noMoral: "awaitsMoral p = (isAI p \<and> noMoral (submittedMoral p))"
  by (auto simp: awaitsMoral_def noMoral_def split: option.splits)

text \<open>The loop over the players when every request of a simulated player fails.\<close>

lemma aiMoralLoop_fails:
  assumes "\<forall>p \<in> set ps. isAI p \<longrightarrow> generationFails (envs (player_id p))"
  shows "aiMoralLoop envs rs st ps subs =
     (map (\<lambda>p. if awaitsMoral p
                then p\<lparr> submittedMoral := Some (fallbackMorals ! (length st mod 10)) \<rparr> else p) ps,
      foldl (\<lambda>sb p. if awaitsMoral p
                     then updFirst (\<lambda>s. playerId s = player_id p)
                            (\<lambda>s. s\<lparr> moral := Some (fallbackMorals ! (length st mod 10)) \<rparr>) sb
                     else sb) subs ps)"
  using assms
proof (induction ps arbitrary: subs)
  case Nil
  show ?case by simp
next
  case (Cons p ps)
  from Cons.prems have rest: "\<forall>q \<in> set ps. isAI q \<longrightarrow> generationFails (envs (player_id q))"
    by simp
  show ?case
  proof (cases "awaitsMoral p")
    case True
    then have ai: "isAI p" "noMoral (submittedMoral p)" by (simp_all add: awaitsMoral_noMoral)
    with Cons.prems have "generationFails (envs (player_id p))" by simp
    then have m: "aiMoralFor st (envs (player_id p)) (rs (player_id p))
                    = fallbackMorals ! (length st mod 10)"
      by (rule aiMoralFor_fails)
    show ?thesis
      using True ai by (simp add: Let_def m Cons.IH[OF rest])
  next
    case False
    then have n: "\<not> (isAI p \<and> noMoral (submittedMoral p))" by (simp add: awaitsMoral_noMoral)
    have "aiMoralLoop envs rs st (p # ps) subs
            = (case aiMoralLoop envs rs st ps subs of (ps', subs'') \<Rightarrow> (p # ps', subs''))"
      unfolding aiMoralLoop.simps if_not_P[OF n] ..
    then show ?thesis using False by (simp add: Cons.IH[OF rest])
  qed
qed

lemma failsafeLoop_idle:
  "\<forall>p \<in> set ps. \<not> awaitsMoral p \<Longrightarrow> failsafeLoop ps subs = (ps, subs)"
proof (induction ps arbitrary: subs)
  case Nil
  show ?case by simp
next
  case (Cons p ps)
  from Cons.prems have n: "\<not> (isAI p \<and> noMoral (submittedMoral p))"
    by (simp add: awaitsMoral_noMoral)
  from Cons.prems have rest: "\<forall>q \<in> set ps. \<not> awaitsMoral q" by simp
  have "failsafeLoop (p # ps) subs
          = (case failsafeLoop ps subs of (ps', subs') \<Rightarrow> (p # ps', subs'))"
    unfolding failsafeLoop.simps if_not_P[OF n] ..
  then show ?case by (simp add: Cons.IH[OF rest])
qed

lemma submissionOf_updFirst:
  "submissionOf i (updFirst (\<lambda>s. playerId s = j) (\<lambda>s. s\<lparr> moral := m \<rparr>) xs)
     = (if i = j then map_option (\<lambda>s. s\<lparr> moral := m \<rparr>) (submissionOf i xs)
        else submissionOf i xs)"
  unfolding submissionOf_def by (induction xs) auto

lemma submissionOf_foldl:
  "submissionOf i
     (foldl (\<lambda>sb p. if awaitsMoral p
                     then updFirst (\<lambda>s. playerId s = player_id p) (\<lambda>s. s\<lparr> moral := Some m \<rparr>) sb
                     else sb) subs ps)
     = (if \<exists>p \<in> set ps. awaitsMoral p \<and> player_id p = i
        then map_option (\<lambda>s. s\<lparr> moral := Some m \<rparr>) (submissionOf i subs)
        else submissionOf i subs)"
proof (induction ps arbitrary: subs)
  case Nil
  show ?case by simp
next
  case (Cons p ps)
  have twice: "\<And>x. map_option (\<lambda>s. s\<lparr> moral := Some m \<rparr>) (map_option (\<lambda>s. s\<lparr> moral := Some m \<rparr>) x)
                 = map_option (\<lambda>s. s\<lparr> moral := Some m \<rparr>) x"
    by (simp add: option.map_comp comp_def)
  show ?case
  proof (cases "awaitsMoral p \<and> player_id p = i")
    case True
    then show ?thesis by (simp add: Cons.IH submissionOf_updFirst twice)
  next
    case False
    then show ?thesis by (auto simp: Cons.IH submissionOf_updFirst)
  qed
qed

text \<open>
  \<^verbatim>\<open>generateAIMorals\<close> when every request of a simulated player fails: the result does not
  mention the environments or the draws.
\<close>

lemma generateAIMorals_fails:
  assumes g: "gs gid = Some g"
    and f: "\<forall>p \<in> set (players g). isAI p \<longrightarrow> generationFails (envs (player_id p))"
  shows "generateAIMorals envs rs gs gid =
     gs(gid \<mapsto>
       (let m = fallbackMorals ! (length (story (game_round g)) mod 10);
            g1 = g\<lparr> players := map (\<lambda>p. if awaitsMoral p then p\<lparr> submittedMoral := Some m \<rparr> else p)
                                   (players g),
                     game_round := (game_round g)\<lparr> submissions :=
                        foldl (\<lambda>sb p. if awaitsMoral p
                                       then updFirst (\<lambda>s. playerId s = player_id p)
                                              (\<lambda>s. s\<lparr> moral := Some m \<rparr>) sb
                                       else sb)
                              (submissions (game_round g)) (players g) \<rparr> \<rparr>
        in if length (filter (\<lambda>p. \<not> isAI p \<and> \<not> noMoral (submittedMoral p)) (players g1))
                = length (filter (\<lambda>p. \<not> isAI p) (players g1))
              \<and> list_all (\<lambda>s. moral s \<noteq> None) (submissions (game_round g1))
           then setRoundStatus VOTING g1 else g1))"
proof -
  define m where "m = fallbackMorals ! (length (story (game_round g)) mod 10)"
  define ps1 where
    "ps1 = map (\<lambda>p. if awaitsMoral p then p\<lparr> submittedMoral := Some m \<rparr> else p) (players g)"
  define subs1 where
    "subs1 = foldl (\<lambda>sb p. if awaitsMoral p
                            then updFirst (\<lambda>s. playerId s = player_id p)
                                   (\<lambda>s. s\<lparr> moral := Some m \<rparr>) sb
                            else sb)
                   (submissions (game_round g)) (players g)"
  define g1 where "g1 = g\<lparr> players := ps1, game_round := (game_round g)\<lparr> submissions := subs1 \<rparr> \<rparr>"
  define g2 where
    "g2 = (if length (filter (\<lambda>p. \<not> isAI p \<and> \<not> noMoral (submittedMoral p)) (players g1))
                = length (filter (\<lambda>p. \<not> isAI p) (players g1))
              \<and> list_all (\<lambda>s. moral s \<noteq> None) (submissions (game_round g1))
           then setRoundStatus VOTING g1 else g1)"
  have loop: "aiMoralLoop envs rs (story (game_round g)) (players g) (submissions (game_round g))
                = (ps1, subs1)"
    unfolding ps1_def subs1_def m_def by (rule aiMoralLoop_fails[OF f])
  have mne: "m \<noteq> []" unfolding m_def by (rule fallbackMorals_nonempty)
  have settled: "\<forall>p \<in> set ps1. \<not> awaitsMoral p"
    unfolding ps1_def using mne by (auto simp: awaitsMoral_def)
  have p2: "players g2 = ps1" "submissions (game_round g2) = subs1"
    by (simp_all add: g2_def g1_def setRoundStatus_def)
  have safe: "failsafeLoop (players g2) (submissions (game_round g2)) = (ps1, subs1)"
    unfolding p2 by (rule failsafeLoop_idle[OF settled])
  have same: "g2\<lparr> players := ps1, game_round := (game_round g2)\<lparr> submissions := subs1 \<rparr> \<rparr> = g2"
    using p2 by simp
  have "generateAIMorals envs rs gs gid =
          (case failsafeLoop (players g2) (submissions (game_round g2)) of
             (ps3, subs3) \<Rightarrow>
               gs(gid \<mapsto> g2\<lparr> players := ps3,
                               game_round := (game_round g2)\<lparr> submissions := subs3 \<rparr> \<rparr>))"
    unfolding generateAIMorals_def g option.case loop prod.case Let_def g2_def g1_def ..
  then have "generateAIMorals envs rs gs gid = gs(gid \<mapsto> g2)"
    unfolding safe prod.case same .
  then show ?thesis
    unfolding g2_def g1_def ps1_def subs1_def m_def Let_def .
qed

text \<open>
  Claim C9. \<^verbatim>\<open>generateAIMoral\<close> never ends with an error, whatever the environment does, and
  when generation fails it returns the fallback moral at position (length of the story)
  mod 10 of the fixed list. When the requests of the simulated players of a game fail,
  \<^verbatim>\<open>generateAIMorals\<close> writes that moral of the round's story into every simulated player
  that has no moral yet and into that player's submission, and changes no other player and
  no other player's submission; the draws of its own \<^verbatim>\<open>catch\<close> block play no part, so
  two failing runs from the same state, with whatever failures and draws, end in the same
  state.
\<close>

theorem fallback_moral_deterministic:
  assumes "gs gid = Some g"
    and "\<forall>p \<in> set (players g). isAI p \<longrightarrow> generationFails (envs (player_id p))"
    and "\<forall>p \<in> set (players g). isAI p \<longrightarrow> generationFails (envs' (player_id p))"
    and "generationFails env"
  shows "(\<exists>m. generateAIMoral s anyEnv = Inr m)
     \<and> generateAIMoral s env = Inr (fallbackMorals ! (length s mod 10))
     \<and> (\<exists>g'. generateAIMorals envs rs gs gid = gs(gid \<mapsto> g')
           \<and> story (game_round g') = story (game_round g)
           \<and> players g'
               = map (\<lambda>p. if awaitsMoral p
                          then p\<lparr> submittedMoral :=
                                    Some (fallbackMorals ! (length (story (game_round g)) mod 10)) \<rparr>
                          else p) (players g)
           \<and> (\<forall>i. submissionOf i (submissions (game_round g'))
                    = (if \<exists>p \<in> set (players g). awaitsMoral p \<and> player_id p = i
                       then map_option
                              (\<lambda>s. s\<lparr> moral :=
                                        Some (fallbackMorals ! (length (story (game_round g)) mod 10)) \<rparr>)
                              (submissionOf i (submissions (game_round g)))
                       else submissionOf i (submissions (game_round g)))))
     \<and> generateAIMorals envs' rs' gs gid = generateAIMorals envs rs gs gid"
proof (intro conjI)
  show "\<exists>m. generateAIMoral s anyEnv = Inr m" by (rule generateAIMoral_never_throws)
  show "generateAIMoral s env = Inr (fallbackMorals ! (length s mod 10))"
    using generateAIMoral_fails[OF assms(4), of s] by (simp add: generateFallbackMoral_nth)
  note run = generateAIMorals_fails[where gs = gs and gid = gid and g = g and envs = envs
      and rs = rs, OF assms(1) assms(2)]
  note run' = generateAIMorals_fails[where gs = gs and gid = gid and g = g and envs = envs'
      and rs = rs', OF assms(1) assms(3)]
  show "generateAIMorals envs' rs' gs gid = generateAIMorals envs rs gs gid"
    unfolding run run' ..
  define m where "m = fallbackMorals ! (length (story (game_round g)) mod 10)"
  define g1 where
    "g1 = g\<lparr> players := map (\<lambda>p. if awaitsMoral p then p\<lparr> submittedMoral := Some m \<rparr> else p)
                           (players g),
             game_round := (game_round g)\<lparr> submissions :=
                foldl (\<lambda>sb p. if awaitsMoral p
                               then updFirst (\<lambda>s. playerId s = player_id p)
                                      (\<lambda>s. s\<lparr> moral := Some m \<rparr>) sb
                               else sb)
                      (submissions (game_round g)) (players g) \<rparr> \<rparr>"
  define g2 where
    "g2 = (if length (filter (\<lambda>p. \<not> isAI p \<and> \<not> noMoral (submittedMoral p)) (players g1))
                = length (filter (\<lambda>p. \<not> isAI p) (players g1))
              \<and> list_all (\<lambda>s. moral s \<noteq> None) (submissions (game_round g1))
           then setRoundStatus VOTING g1 else g1)"
  have e: "generateAIMorals envs rs gs gid = gs(gid \<mapsto> g2)"
    unfolding run g2_def g1_def m_def Let_def ..
  have st: "story (game_round g2) = story (game_round g)"
    by (simp add: g2_def g1_def setRoundStatus_def)
  have pl: "players g2
              = map (\<lambda>p. if awaitsMoral p then p\<lparr> submittedMoral := Some m \<rparr> else p) (players g)"
    by (simp add: g2_def g1_def setRoundStatus_def)
  have sb: "submissions (game_round g2)
              = foldl (\<lambda>sb p. if awaitsMoral p
                               then updFirst (\<lambda>s. playerId s = player_id p)
                                      (\<lambda>s. s\<lparr> moral := Some m \<rparr>) sb
                               else sb)
                      (submissions (game_round g)) (players g)"
    by (simp add: g2_def g1_def setRoundStatus_def)
  have so: "\<forall>i. submissionOf i (submissions (game_round g2))
                    = (if \<exists>p \<in> set (players g). awaitsMoral p \<and> player_id p = i
                       then map_option (\<lambda>s. s\<lparr> moral := Some m \<rparr>)
                              (submissionOf i (submissions (game_round g)))
                       else submissionOf i (submissions (game_round g)))"
    unfolding sb by (intro allI) (rule submissionOf_foldl)
  show "\<exists>g'. generateAIMorals envs rs gs gid = gs(gid \<mapsto> g')
           \<and> story (game_round g') = story (game_round g)
           \<and> players g'
               = map (\<lambda>p. if awaitsMoral p
                          then p\<lparr> submittedMoral :=
                                    Some (fallbackMorals ! (length (story (game_round g)) mod 10)) \<rparr>
                          else p) (players g)
           \<and> (\<forall>i. submissionOf i (submissions (game_round g'))
                    = (if \<exists>p \<in> set (players g). awaitsMoral p \<and> player_id p = i
                       then map_option
                              (\<lambda>s. s\<lparr> moral :=
                                        Some (fallbackMorals ! (length (story (game_round g)) mod 10)) \<rparr>)
                              (submissionOf i (submissions (game_round g)))
                       else submissionOf i (submissions (game_round g))))"
    using e st pl so unfolding m_def by (intro exI[of _ g2] conjI)
qed

lemma exTelling_story:
  "story (game_round exTelling)
     = ''In a haunted lighthouse , a retired astronaut  NOTICES the clocks run backwards . But then, the sea begins to glow  ALL BECAUSE of a forgotten promise''"
  by (simp add: exTelling_def setRoundStatus_def assembleStory_def storyText_def collectSelected_def
        selectedCardOf_def storyPart_def orDefault_def exAllPicked_def exSelection_def holding_def
        seated_def deckCard_def)

lemma exTelling_length: "length (story (game_round exTelling)) mod 10 = 0"
  unfolding exTelling_story by simp

lemma exTelling_players: "players exTelling = players exAllPicked"
  by (simp add: exTelling_def setRoundStatus_def assembleStory_def)

lemma exTelling_submissions:
  "submissions (game_round exTelling)
     = [\<lparr> playerId = ''alice'', cardId = 31, moral = None, votes = 0, hasVoted = False \<rparr>,
        \<lparr> playerId = ''bob'', cardId = 1, moral = None, votes = 0, hasVoted = False \<rparr>,
        \<lparr> playerId = ''ai1'', cardId = 41, moral = None, votes = 0, hasVoted = False \<rparr>,
        \<lparr> playerId = ''ai2'', cardId = 11, moral = None, votes = 0, hasVoted = False \<rparr>,
        \<lparr> playerId = ''ai3'', cardId = 21, moral = None, votes = 0, hasVoted = False \<rparr>]"
  by (simp add: exTelling_def setRoundStatus_def assembleStory_def freshSubmission_def
        exAllPicked_def holding_def seated_def)

theorem fallback_moral_deterministic_witness:
  "[''ROOM01'' \<mapsto> exTelling] ''ROOM01'' = Some exTelling
   \<and> generationFails exTimeout \<and> generationFails exRateLimited
   \<and> map isAI (players exTelling) = [False, False, True, True, True]
   \<and> generateAIMoral (story (game_round exTelling)) exTimeout = Inr (fallbackMorals ! 0)
   \<and> map submittedMoral
        (players (the (generateAIMorals (\<lambda>i. exTimeout) (\<lambda>i. 7 / 10)
                         [''ROOM01'' \<mapsto> exTelling] ''ROOM01'' ''ROOM01'')))
       = [None, None, Some (fallbackMorals ! 0), Some (fallbackMorals ! 0), Some (fallbackMorals ! 0)]
   \<and> map_option moral
        (submissionOf ''ai1''
           (submissions (game_round (the (generateAIMorals (\<lambda>i. exTimeout) (\<lambda>i. 7 / 10)
                                            [''ROOM01'' \<mapsto> exTelling] ''ROOM01'' ''ROOM01'')))))
       = Some (Some (fallbackMorals ! 0))
   \<and> map_option moral
        (submissionOf ''alice''
           (submissions (game_round (the (generateAIMorals (\<lambda>i. exTimeout) (\<lambda>i. 7 / 10)
                                            [''ROOM01'' \<mapsto> exTelling] ''ROOM01'' ''ROOM01'')))))
       = Some None
   \<and> generateAIMorals (\<lambda>i. exRateLimited) (\<lambda>i. 1 / 10) [''ROOM01'' \<mapsto> exTelling] ''ROOM01''
       = generateAIMorals (\<lambda>i. exTimeout) (\<lambda>i. 7 / 10) [''ROOM01'' \<mapsto> exTelling] ''ROOM01''"
proof -
  let ?gs = "[''ROOM01'' \<mapsto> exTelling]"
  let ?run = "generateAIMorals (\<lambda>i. exTimeout) (\<lambda>i. 7 / 10) ?gs ''ROOM01''"
  have h0: "?gs ''ROOM01'' = Some exTelling" by simp
  have h1: "generationFails exTimeout" by (simp add: generationFails_def exTimeout_def)
  have h2: "generationFails exRateLimited" by (simp add: generationFails_def exRateLimited_def)
  have a1: "\<forall>p \<in> set (players exTelling). isAI p \<longrightarrow> generationFails ((\<lambda>i. exTimeout) (player_id p))"
    using h1 by simp
  have a2: "\<forall>p \<in> set (players exTelling). isAI p \<longrightarrow> generationFails ((\<lambda>i. exRateLimited) (player_id p))"
    using h2 by simp
  have ai: "map isAI (players exTelling) = [False, False, True, True, True]"
    unfolding exTelling_players by (simp add: exAllPicked_def holding_def seated_def)
  note T = fallback_moral_deterministic[where gs = ?gs and gid = "''ROOM01''" and g = exTelling
      and envs = "\<lambda>i. exTimeout" and envs' = "\<lambda>i. exRateLimited" and env = exTimeout
      and rs = "\<lambda>i. 7 / 10" and rs' = "\<lambda>i. 1 / 10" and s = "story (game_round exTelling)"
      and anyEnv = exTimeout, OF h0 a1 a2 h1]
  from T have c1: "generateAIMoral (story (game_round exTelling)) exTimeout = Inr (fallbackMorals ! 0)"
    unfolding exTelling_length by blast
  from T have c4: "generateAIMorals (\<lambda>i. exRateLimited) (\<lambda>i. 1 / 10) ?gs ''ROOM01'' = ?run"
    by blast
  from T obtain g' where g': "?run = ?gs(''ROOM01'' \<mapsto> g')"
      "players g' = map (\<lambda>p. if awaitsMoral p
                          then p\<lparr> submittedMoral := Some (fallbackMorals ! 0) \<rparr> else p)
                        (players exTelling)"
      "\<forall>i. submissionOf i (submissions (game_round g'))
                    = (if \<exists>p \<in> set (players exTelling). awaitsMoral p \<and> player_id p = i
                       then map_option (\<lambda>s. s\<lparr> moral := Some (fallbackMorals ! 0) \<rparr>)
                              (submissionOf i (submissions (game_round exTelling)))
                       else submissionOf i (submissions (game_round exTelling)))"
    unfolding exTelling_length by blast
  have the: "the (?run ''ROOM01'') = g'" unfolding g'(1) by simp
  have c2: "map submittedMoral (players (the (?run ''ROOM01'')))
       = [None, None, Some (fallbackMorals ! 0), Some (fallbackMorals ! 0), Some (fallbackMorals ! 0)]"
    unfolding the g'(2) exTelling_players
    by (simp add: exAllPicked_def holding_def seated_def awaitsMoral_def)
  have w1: "\<exists>p \<in> set (players exTelling). awaitsMoral p \<and> player_id p = ''ai1''"
    unfolding exTelling_players by (simp add: exAllPicked_def holding_def seated_def awaitsMoral_def)
  have w2: "\<not> (\<exists>p \<in> set (players exTelling). awaitsMoral p \<and> player_id p = ''alice'')"
    unfolding exTelling_players by (simp add: exAllPicked_def holding_def seated_def awaitsMoral_def)
  have c3: "map_option moral (submissionOf ''ai1'' (submissions (game_round (the (?run ''ROOM01'')))))
       = Some (Some (fallbackMorals ! 0))"
    unfolding the using g'(3) w1 by (simp add: exTelling_submissions submissionOf_def)
  have c3': "map_option moral (submissionOf ''alice'' (submissions (game_round (the (?run ''ROOM01'')))))
       = Some None"
    unfolding the using g'(3) w2 by (simp add: exTelling_submissions submissionOf_def)
  show ?thesis
    by (intro conjI) (rule h0, rule h1, rule h2, rule ai, rule c1, rule c2, rule c3, rule c3', rule c4)
qed

subsection \<open>Role assignment\<close>

lemma length_assignStep [simp]: "length (assignStep off ps pr) = length ps"
  by (cases pr) (simp add: assignStep_def)

lemma length_assignFold [simp]: "length (foldl (assignStep off) ps zs) = length ps"
  by (induction zs arbitrary: ps) simp_all

lemma zip_upt_snoc:
  "zip (xs @ [x]) [0..<Suc (length xs)] = zip xs [0..<length xs] @ [(x, length xs)]"
  by simp

text \<open>
  After the loop, the player at the \<open>i\<close>-th shuffled position has the role computed from
  \<open>i\<close>, provided no position occurs twice.
\<close>

lemma assignFold_nth:
  "distinct idxs \<Longrightarrow> \<forall>x \<in> set idxs. x < length ps \<Longrightarrow> i < length idxs \<Longrightarrow>
     currentCardType (foldl (assignStep off) ps (zip idxs [0..<length idxs]) ! (idxs ! i))
       = typeAt (jsRem (int i + off) (int (length types)))"
proof (induction idxs arbitrary: i rule: rev_induct)
  case Nil
  then show ?case by simp
next
  case (snoc x xs)
  let ?mid = "foldl (assignStep off) ps (zip xs [0..<length xs])"
  have z: "foldl (assignStep off) ps (zip (xs @ [x]) [0..<length (xs @ [x])])
             = assignStep off ?mid (x, length xs)"
    by simp
  have xlt: "x < length ?mid" using snoc.prems(2) by simp
  show ?case
  proof (cases "i < length xs")
    case True
    have ne: "xs ! i \<noteq> x" using snoc.prems(1) True by (auto simp: in_set_conv_nth)
    have ih: "currentCardType (?mid ! (xs ! i)) = typeAt (jsRem (int i + off) (int (length types)))"
      using snoc.IH[of i] snoc.prems True by simp
    show ?thesis
      unfolding z using True ne ih by (simp add: assignStep_def nth_append)
  next
    case False
    with snoc.prems(3) have i: "i = length xs" by simp
    show ?thesis
      unfolding z using i xlt by (simp add: assignStep_def nth_append)
  qed
qed

lemma jsRem_nonneg: "0 \<le> a \<Longrightarrow> jsRem a 5 = a mod 5"
  by (simp add: jsRem_def)

lemma roundOffset_range:
  "1 \<le> number (game_round g) \<Longrightarrow>
     roundOffset g = (number (game_round g) - 1) mod 5 \<and> 0 \<le> roundOffset g \<and> roundOffset g < 5"
  by (simp add: roundOffset_def types_def jsRem_nonneg)

lemma typeAt_mod: "0 \<le> k \<Longrightarrow> typeAt (jsRem k (int (length types))) = Some (types ! nat (k mod 5))"
  by (simp add: typeAt_def types_def jsRem_nonneg)

lemma rotation_all_types:
  "0 \<le> off \<Longrightarrow> off < 5 \<Longrightarrow>
     mset (map (\<lambda>i. Some (types ! nat ((int i + off) mod 5))) [0, 1, 2, 3, 4])
       = mset (map Some types)"
proof -
  assume "0 \<le> off" "off < 5"
  then have "off = 0 \<or> off = 1 \<or> off = 2 \<or> off = 3 \<or> off = 4" by arith
  then show ?thesis
    by (elim disjE) (simp_all add: types_def)
qed

lemma upt_5: "[0..<5] = [0, 1, 2, 3, 4]"
  by (simp add: upt_rec)

lemma addAIPlayers_fills:
  "maxPlayers (settings g) = 5 \<Longrightarrow> length (players g) \<le> 5 \<Longrightarrow>
     length (players (addAIPlayers fresh g)) = 5"
  by (simp add: addAIPlayers_def Let_def)

lemma map_nth_upt: "length xs = n \<Longrightarrow> map f xs = map (\<lambda>j. f (xs ! j)) [0..<n]"
  by (auto simp: list_eq_iff_nth_eq)

text \<open>
  Claim C5. \<^verbatim>\<open>addAIPlayers\<close> fills a game of at most five players whose limit is five up
  to exactly five players. With five players, a round number of at least one and the
  shuffled order any arrangement of the five positions, \<^verbatim>\<open>assignCardTypes\<close> gives the player
  at the \<open>i\<close>-th shuffled position the role \<open>types[(i + offset) % 5]\<close> with
  \<open>offset = (number - 1) % 5\<close>, and the roles of the five players are the five role types,
  each exactly once.
\<close>

theorem assignCardTypes_each_role_once:
  assumes "length (players g) = 5" and "mset idxs = mset [0..<5]"
    and "1 \<le> number (game_round g)"
  shows "mset (map currentCardType (players (assignCardTypes idxs g))) = mset (map Some types)
     \<and> (\<forall>i<5. currentCardType (players (assignCardTypes idxs g) ! (idxs ! i))
                = Some (types ! nat ((int i + (number (game_round g) - 1) mod 5) mod 5)))
     \<and> length (players (assignCardTypes idxs g)) = 5
     \<and> (maxPlayers (settings g0) = 5 \<and> length (players g0) \<le> 5
          \<longrightarrow> length (players (addAIPlayers fresh g0)) = 5)"
proof -
  let ?off = "roundOffset g"
  let ?ps = "foldl (assignStep ?off) (players g) (zip idxs [0..<length idxs])"
  have ps: "players (assignCardTypes idxs g) = ?ps" by (simp add: assignCardTypes_def)
  have len: "length idxs = 5" using mset_eq_length[OF assms(2)] by simp
  have dist: "distinct idxs" using mset_eq_imp_distinct_iff[OF assms(2)] by simp
  have rng: "\<forall>x \<in> set idxs. x < length (players g)"
    using mset_eq_setD[OF assms(2)] assms(1) by simp
  have lps: "length ?ps = 5" using assms(1) by simp
  from roundOffset_range[OF assms(3)] have off: "?off = (number (game_round g) - 1) mod 5"
      "0 \<le> ?off" "?off < 5" by simp_all
  have nth: "\<And>i. i < 5 \<Longrightarrow> currentCardType (?ps ! (idxs ! i)) = Some (types ! nat ((int i + ?off) mod 5))"
  proof -
    fix i :: nat assume i: "i < 5"
    have "currentCardType (?ps ! (idxs ! i)) = typeAt (jsRem (int i + ?off) (int (length types)))"
      using assignFold_nth[OF dist rng, of i ?off] i len by simp
    also have "\<dots> = Some (types ! nat ((int i + ?off) mod 5))"
      using off(2) by (simp add: typeAt_mod)
    finally show "currentCardType (?ps ! (idxs ! i)) = Some (types ! nat ((int i + ?off) mod 5))" .
  qed
  have a: "map currentCardType ?ps = map (\<lambda>j. currentCardType (?ps ! j)) [0..<5]"
    using lps by (rule map_nth_upt)
  have b: "map (\<lambda>j. currentCardType (?ps ! j)) idxs
             = map (\<lambda>i. currentCardType (?ps ! (idxs ! i))) [0..<5]"
    using len by (rule map_nth_upt)
  have c: "mset (map (\<lambda>j. currentCardType (?ps ! j)) [0..<5])
             = mset (map (\<lambda>j. currentCardType (?ps ! j)) idxs)"
    unfolding mset_map by (simp only: assms(2))
  have "mset (map currentCardType ?ps) = mset (map (\<lambda>i. currentCardType (?ps ! (idxs ! i))) [0..<5])"
    by (simp only: a c b)
  also have "\<dots> = mset (map (\<lambda>i. Some (types ! nat ((int i + ?off) mod 5))) [0..<5])"
    using nth by (simp add: upt_5)
  also have "\<dots> = mset (map Some types)"
    unfolding upt_5 using off(2,3) by (rule rotation_all_types)
  finally have m: "mset (map currentCardType ?ps) = mset (map Some types)" .
  show ?thesis
    unfolding ps using m nth lps off(1) by (simp add: addAIPlayers_fills)
qed

lemma exRoundTwo_assigned:
  "map currentCardType (players (assignCardTypes [2, 0, 4, 1, 3] exRoundTwo))
     = [Some INITIAL_TWIST, Some FINAL_TWIST, Some CHARACTER, Some LOCATION, Some ESCALATION]"
  by (simp add: assignCardTypes_def assignStep_def roundOffset_def typeAt_def jsRem_def types_def
        upt_rec exRoundTwo_def exSelection_def seated_def)

theorem assignCardTypes_each_role_once_witness:
  "length (players exRoundTwo) = 5 \<and> mset [2, 0, 4, 1, 3] = mset [0..<5]
   \<and> 1 \<le> number (game_round exRoundTwo)
   \<and> mset (map currentCardType (players (assignCardTypes [2, 0, 4, 1, 3] exRoundTwo)))
       = mset (map Some types)
   \<and> map currentCardType (players (assignCardTypes [2, 0, 4, 1, 3] exRoundTwo))
       = [Some INITIAL_TWIST, Some FINAL_TWIST, Some CHARACTER, Some LOCATION, Some ESCALATION]
   \<and> maxPlayers (settings exLobbyGame) = 5 \<and> length (players exLobbyGame) \<le> 5
   \<and> length (players (addAIPlayers exFresh exLobbyGame)) = 5"
proof -
  have h1: "length (players exRoundTwo) = 5" by (simp add: exRoundTwo_def exSelection_def)
  have h2: "mset [2, 0, 4, 1, 3] = mset [0..<5]" by (simp add: upt_5)
  have h3: "1 \<le> number (game_round exRoundTwo)" by (simp add: exRoundTwo_def exSelection_def)
  have h4: "maxPlayers (settings exLobbyGame) = 5 \<and> length (players exLobbyGame) \<le> 5"
    by (simp add: exLobbyGame_def)
  note T = assignCardTypes_each_role_once[OF h1 h2 h3, where ?g0.0 = exLobbyGame and fresh = exFresh]
  from T have c1: "mset (map currentCardType (players (assignCardTypes [2, 0, 4, 1, 3] exRoundTwo)))
       = mset (map Some types)" by blast
  from T h4 have c2: "length (players (addAIPlayers exFresh exLobbyGame)) = 5" by blast
  from h1 h2 h3 h4 c1 c2 exRoundTwo_assigned show ?thesis by blast
qed

subsection \<open>Dealing\<close>

lemma all_types: "t \<in> set types"
  by (cases t) (simp_all add: types_def)

lemma dealOne_nextId: "dealOne cd r n p = (p', n') \<Longrightarrow> n \<le> n'"
  by (auto simp: dealOne_def Let_def split: if_splits)

lemma length_dealLoop [simp]: "length (dealLoop cd rnd i n ps) = length ps"
  by (induction ps arbitrary: i n) (auto split: prod.splits)

text \<open>Each player is dealt by \<open>dealOne\<close> with its own draws and some id not below the start.\<close>

lemma dealLoop_nth:
  "j < length ps \<Longrightarrow>
     \<exists>n \<ge> nextId. dealLoop cd rnd i nextId ps ! j = fst (dealOne cd (rnd (i + j)) n (ps ! j))"
proof (induction ps arbitrary: i nextId j)
  case Nil
  then show ?case by simp
next
  case (Cons p ps)
  obtain p' n' where d: "dealOne cd (rnd i) nextId p = (p', n')" by (cases "dealOne cd (rnd i) nextId p")
  have le: "nextId \<le> n'" using d by (rule dealOne_nextId)
  show ?case
  proof (cases j)
    case 0
    with d show ?thesis by (intro exI[of _ nextId]) simp
  next
    case (Suc j')
    with Cons.prems have "j' < length ps" by simp
    from Cons.IH[OF this, of n' "Suc i"] obtain n where
      n: "n' \<le> n" "dealLoop cd rnd (Suc i) n' ps ! j' = fst (dealOne cd (rnd (Suc i + j')) n (ps ! j'))"
      by blast
    with d Suc le show ?thesis by (intro exI[of _ n]) simp
  qed
qed

lemma take3_of_shuffled:
  assumes "deckOk deck" and "mset (shuf deck) = mset deck"
  shows "length (getRandomCards shuf deck 3) = 3
     \<and> distinct (map card_id (getRandomCards shuf deck 3))
     \<and> set (getRandomCards shuf deck 3) \<subseteq> set deck"
proof -
  have len: "length (shuf deck) = length deck" using assms(2) by (rule mset_eq_length)
  have m: "mset (map card_id (shuf deck)) = mset (map card_id deck)"
    using assms(2) by simp
  have d0: "distinct (map card_id deck)" using assms(1) by (simp add: deckOk_def)
  have d: "distinct (map card_id (shuf deck))"
    using mset_eq_imp_distinct_iff[OF m] d0 by simp
  have s: "set (shuf deck) = set deck" using assms(2) by (rule mset_eq_setD)
  have "distinct (take 3 (map card_id (shuf deck)))" using d by (rule distinct_take)
  then have d3: "distinct (map card_id (take 3 (shuf deck)))" by (simp add: take_map)
  have sub: "set (take 3 (shuf deck)) \<subseteq> set deck"
    using s set_take_subset[of 3 "shuf deck"] by simp
  show ?thesis
    using assms(1) len d3 sub by (simp add: getRandomCards_def deckOk_def)
qed

lemma floor_pick: "0 \<le> (r::real) \<Longrightarrow> r < 1 \<Longrightarrow> nat \<lfloor>r * 3\<rfloor> < 3"
proof -
  assume r: "0 \<le> r" "r < 1"
  have a: "r * 3 < of_int 3" using r by simp
  have b: "\<lfloor>r * 3\<rfloor> < 3" using a by (simp only: floor_less_iff)
  have "0 \<le> r * 3" using r by simp
  then have c: "0 \<le> \<lfloor>r * 3\<rfloor>" by (simp only: zero_le_floor)
  from b c show ?thesis by linarith
qed

lemma distinct_update_fresh:
  "distinct (map f xs) \<Longrightarrow> f k \<notin> f ` set xs \<Longrightarrow> distinct (map f (xs[j := k]))"
proof (induction xs arbitrary: j)
  case Nil
  then show ?case by simp
next
  case (Cons x xs)
  show ?case
  proof (cases j)
    case 0
    with Cons.prems show ?thesis by auto
  next
    case (Suc j')
    have "f x \<notin> f ` set (xs[j' := k])"
      using Cons.prems set_update_subset_insert[of xs j' k] by auto
    with Cons Suc show ?thesis by simp
  qed
qed

lemma dealOne_hand:
  assumes ok: "deckOk (deckFor cd (Some t))" and role: "currentCardType p = Some t"
    and shuf: "mset (shuffle r (deckFor cd (Some t))) = mset (deckFor cd (Some t))"
    and pk: "0 \<le> pick r" "pick r < 1"
    and n: "CUSTOM_CARD_ID_START \<le> n"
  shows "\<exists>h. hand (fst (dealOne cd r n p)) = Some h \<and> length h = 3 \<and> distinct (map card_id h)
     \<and> (if \<not> isAI p \<and> chance r < CUSTOM_CARD_CHANCE
         then \<exists>j<3. h ! j = createBlankCard (cardTypeStr t) n
                 \<and> (\<forall>l<3. l \<noteq> j \<longrightarrow> h ! l \<in> set (deckFor cd (Some t)))
         else set h \<subseteq> set (deckFor cd (Some t)))"
proof -
  let ?deck = "deckFor cd (Some t)"
  let ?dealt = "getRandomCards (shuffle r) ?deck 3"
  from take3_of_shuffled[of ?deck "shuffle r", OF ok shuf] have d: "length ?dealt = 3" "distinct (map card_id ?dealt)"
      "set ?dealt \<subseteq> set ?deck" by simp_all
  show ?thesis
  proof (cases "\<not> isAI p \<and> chance r < CUSTOM_CARD_CHANCE")
    case False
    then have hd: "hand (fst (dealOne cd r n p)) = Some ?dealt"
      using role by (auto simp: dealOne_def Let_def)
    show ?thesis
      unfolding if_not_P[OF False]
      by (rule exI[of _ ?dealt], intro conjI) (rule hd, rule d(1), rule d(2), rule d(3))
  next
    case True
    let ?k = "createBlankCard (cardTypeStr t) n"
    let ?j = "nat \<lfloor>pick r * 3\<rfloor>"
    let ?h = "?dealt[?j := ?k]"
    have j: "?j < 3" using pk by (rule floor_pick)
    have ne: "?dealt \<noteq> []" using d(1) by auto
    have hd: "hand (fst (dealOne cd r n p)) = Some ?h"
      using True role ne d(1) by (simp add: dealOne_def Let_def replaceAt_def)
    have low: "\<forall>c \<in> set ?deck. card_id c < CUSTOM_CARD_ID_START"
      using ok by (simp add: deckOk_def list_all_iff)
    have "card_id ?k \<notin> card_id ` set ?dealt"
    proof
      assume "card_id ?k \<in> card_id ` set ?dealt"
      then obtain c where c: "c \<in> set ?dealt" "card_id c = card_id ?k" by auto
      with d(3) low have "card_id c < CUSTOM_CARD_ID_START" by blast
      with c(2) n show False by (simp add: createBlankCard_def)
    qed
    with d(2) have dist: "distinct (map card_id ?h)" by (rule distinct_update_fresh)
    have at: "?h ! ?j = ?k" using j d(1) by simp
    have others: "\<forall>l<3. l \<noteq> ?j \<longrightarrow> ?h ! l \<in> set ?deck"
    proof (intro allI impI)
      fix l :: nat assume l: "l < 3" "l \<noteq> ?j"
      then have "?h ! l = ?dealt ! l" by simp
      moreover have "?dealt ! l \<in> set ?dealt" using l(1) d(1) by simp
      ultimately show "?h ! l \<in> set ?deck" using d(3) by auto
    qed
    have "\<exists>j<3. ?h ! j = ?k \<and> (\<forall>l<3. l \<noteq> j \<longrightarrow> ?h ! l \<in> set ?deck)"
      using j at others by blast
    then have ex: "\<exists>j<3. ?h ! j = ?k \<and> (\<forall>l<3. l \<noteq> j \<longrightarrow> ?h ! l \<in> set ?deck)" .
    have lh: "length ?h = 3" using d(1) by simp
    show ?thesis
      unfolding if_P[OF True]
      by (rule exI[of _ ?h], intro conjI) (rule hd, rule lh, rule dist, rule ex)
  qed
qed

text \<open>
  Claim C6. The decks of the card data have at least three cards each, distinct ids below
  10000 and no custom card; every shuffle is an arrangement of its deck; the draws are in
  \<open>[0, 1)\<close>. Then \<^verbatim>\<open>dealCards\<close> gives every player that has a role a hand of exactly three
  cards with distinct ids. For a human player whose draw is below 0.2 (a fifth of the unit
  interval, which is the 20% chance) exactly one position of the hand holds a blank custom
  card, with an id of at least 10000 that no deck card has, and the other two are cards of
  the deck of the player's role, not custom. For every other player, so for every simulated
  player, all three cards are cards of that deck and none is custom.
\<close>

theorem dealCards_hands:
  assumes "list_all (\<lambda>t. deckOk (deckFor cd (Some t))) types"
    and "\<forall>i d. mset (shuffle (rnd i) d) = mset d"
    and "\<forall>i. 0 \<le> pick (rnd i) \<and> pick (rnd i) < 1"
    and "i < length (players g)"
    and "currentCardType (players g ! i) = Some t"
  shows "\<exists>h. hand (players (dealCards (Some cd) rnd g) ! i) = Some h
      \<and> length h = 3 \<and> distinct (map card_id h)
      \<and> (if \<not> isAI (players g ! i) \<and> chance (rnd i) < 2 / 10
          then \<exists>j<3. \<exists>n\<ge>10000.
                 h ! j = \<lparr> card_id = n, card_text = [], card_type = Some (cardTypeStr t),
                           isCustom = True,
                           customPrompt = Some (''Enter your custom '' @ capitalize (cardTypeStr t)) \<rparr>
               \<and> (\<forall>t'. n \<notin> card_id ` set (deckFor cd (Some t')))
               \<and> (\<forall>l<3. l \<noteq> j \<longrightarrow> h ! l \<in> set (deckFor cd (Some t)) \<and> \<not> isCustom (h ! l))
          else set h \<subseteq> set (deckFor cd (Some t)) \<and> list_all (\<lambda>k. \<not> isCustom k) h)"
proof -
  let ?p = "players g ! i"
  let ?deck = "deckFor cd (Some t)"
  have oks: "\<And>t'. deckOk (deckFor cd (Some t'))"
    using assms(1) all_types by (auto simp: list_all_iff)
  have plain: "\<And>c t'. c \<in> set (deckFor cd (Some t')) \<Longrightarrow> card_id c < 10000 \<and> \<not> isCustom c"
    using oks by (auto simp: deckOk_def list_all_iff CUSTOM_CARD_ID_START_def)
  from dealLoop_nth[OF assms(4), of CUSTOM_CARD_ID_START cd rnd 0] obtain n where
      n: "CUSTOM_CARD_ID_START \<le> n"
      "dealLoop cd rnd 0 CUSTOM_CARD_ID_START (players g) ! i = fst (dealOne cd (rnd i) n ?p)"
    by auto
  have pl: "players (dealCards (Some cd) rnd g) ! i = fst (dealOne cd (rnd i) n ?p)"
    using n(2) by (simp add: dealCards_def)
  have sh: "mset (shuffle (rnd i) ?deck) = mset ?deck" using assms(2) by simp
  have pk: "0 \<le> pick (rnd i)" "pick (rnd i) < 1" using assms(3) by simp_all
  from dealOne_hand[of cd t ?p "rnd i" n, OF oks assms(5) sh pk n(1)] obtain h where
      h: "hand (fst (dealOne cd (rnd i) n ?p)) = Some h" "length h = 3" "distinct (map card_id h)"
      "if \<not> isAI ?p \<and> chance (rnd i) < CUSTOM_CARD_CHANCE
         then \<exists>j<3. h ! j = createBlankCard (cardTypeStr t) n
                 \<and> (\<forall>l<3. l \<noteq> j \<longrightarrow> h ! l \<in> set ?deck)
         else set h \<subseteq> set ?deck"
    by blast
  have n10: "10000 \<le> n" using n(1) by (simp add: CUSTOM_CARD_ID_START_def)
  have fresh: "\<forall>t'. n \<notin> card_id ` set (deckFor cd (Some t'))"
    using plain n10 by fastforce
  have tail: "if \<not> isAI ?p \<and> chance (rnd i) < 2 / 10
          then \<exists>j<3. \<exists>n\<ge>10000.
                 h ! j = \<lparr> card_id = n, card_text = [], card_type = Some (cardTypeStr t),
                           isCustom = True,
                           customPrompt = Some (''Enter your custom '' @ capitalize (cardTypeStr t)) \<rparr>
               \<and> (\<forall>t'. n \<notin> card_id ` set (deckFor cd (Some t')))
               \<and> (\<forall>l<3. l \<noteq> j \<longrightarrow> h ! l \<in> set ?deck \<and> \<not> isCustom (h ! l))
          else set h \<subseteq> set ?deck \<and> list_all (\<lambda>k. \<not> isCustom k) h"
  proof (cases "\<not> isAI ?p \<and> chance (rnd i) < 2 / 10")
    case True
    with h(4) obtain j where j: "j < 3" "h ! j = createBlankCard (cardTypeStr t) n"
        "\<forall>l<3. l \<noteq> j \<longrightarrow> h ! l \<in> set ?deck"
      by (auto simp: CUSTOM_CARD_CHANCE_def)
    have o: "\<forall>l<3. l \<noteq> j \<longrightarrow> h ! l \<in> set ?deck \<and> \<not> isCustom (h ! l)"
      using j(3) plain by blast
    have "\<exists>n\<ge>10000.
                 h ! j = \<lparr> card_id = n, card_text = [], card_type = Some (cardTypeStr t),
                           isCustom = True,
                           customPrompt = Some (''Enter your custom '' @ capitalize (cardTypeStr t)) \<rparr>
               \<and> (\<forall>t'. n \<notin> card_id ` set (deckFor cd (Some t')))
               \<and> (\<forall>l<3. l \<noteq> j \<longrightarrow> h ! l \<in> set ?deck \<and> \<not> isCustom (h ! l))"
      using n10 j(2) fresh o by (intro exI[of _ n]) (simp add: createBlankCard_def)
    with j(1) True show ?thesis by auto
  next
    case False
    with h(4) have s: "set h \<subseteq> set ?deck" by (auto simp: CUSTOM_CARD_CHANCE_def)
    then have "list_all (\<lambda>k. \<not> isCustom k) h" using plain by (auto simp: list_all_iff)
    with s False show ?thesis by auto
  qed
  show ?thesis
    unfolding pl using h(1,2,3) tail by blast
qed

lemma exDecks_ok: "list_all (\<lambda>t. deckOk (deckFor exDecks (Some t))) types"
  by (simp add: types_def deckOk_def deckFor_def exDecks_def deckCard_def CUSTOM_CARD_ID_START_def)

lemma exDeal_dealt:
  "map handIds (players (dealCards (Some exDecks) exDeal exSelection))
     = [[4, 10000, 2], [13, 12, 11], [23, 22, 21], [33, 32, 31], [43, 42, 41]]
   \<and> map handCustom (players (dealCards (Some exDecks) exDeal exSelection))
     = [[False, True, False], [False, False, False], [False, False, False],
        [False, False, False], [False, False, False]]"
  by (simp add: dealCards_def dealOne_def getRandomCards_def replaceAt_def createBlankCard_def
        deckFor_def exDecks_def exDeal_def deckCard_def exSelection_def seated_def handIds_def
        handCustom_def CUSTOM_CARD_ID_START_def CUSTOM_CARD_CHANCE_def)

theorem dealCards_hands_witness:
  "list_all (\<lambda>t. deckOk (deckFor exDecks (Some t))) types
   \<and> (\<forall>i d. mset (shuffle (exDeal i) d) = mset d)
   \<and> (\<forall>i. 0 \<le> pick (exDeal i) \<and> pick (exDeal i) < 1)
   \<and> 0 < length (players exSelection)
   \<and> currentCardType (players exSelection ! 0) = Some LOCATION
   \<and> (\<exists>h. hand (players (dealCards (Some exDecks) exDeal exSelection) ! 0) = Some h
          \<and> length h = 3 \<and> distinct (map card_id h))
   \<and> map isAI (players exSelection) = [False, False, True, True, True]
   \<and> map handIds (players (dealCards (Some exDecks) exDeal exSelection))
       = [[4, 10000, 2], [13, 12, 11], [23, 22, 21], [33, 32, 31], [43, 42, 41]]
   \<and> map handCustom (players (dealCards (Some exDecks) exDeal exSelection))
       = [[False, True, False], [False, False, False], [False, False, False],
          [False, False, False], [False, False, False]]"
proof -
  have h2: "\<forall>i d. mset (shuffle (exDeal i) d) = mset d" by (simp add: exDeal_def)
  have h3: "\<forall>i. 0 \<le> pick (exDeal i) \<and> pick (exDeal i) < 1" by (simp add: exDeal_def)
  have h4: "0 < length (players exSelection)" by (simp add: exSelection_def)
  have h5: "currentCardType (players exSelection ! 0) = Some LOCATION"
    by (simp add: exSelection_def seated_def)
  have ai: "map isAI (players exSelection) = [False, False, True, True, True]"
    by (simp add: exSelection_def seated_def)
  from dealCards_hands[OF exDecks_ok h2 h3 h4 h5]
  have c: "\<exists>h. hand (players (dealCards (Some exDecks) exDeal exSelection) ! 0) = Some h
          \<and> length h = 3 \<and> distinct (map card_id h)"
    by blast
  from exDecks_ok h2 h3 h4 h5 c ai exDeal_dealt show ?thesis by blast
qed

end
